theory Spec2Isabelle
  imports Complex_Main
begin

section \<open>JavaScript values and object literals\<close>

text \<open>
  The cached job records and the published events are flat JavaScript objects whose
  properties hold primitive values. An object is an association list in property order.
  A number is a real; a JSON text can only carry a rational one, so \<^verbatim>\<open>NaN\<close> and the
  infinities never arrive in a request body. A string is the list of the bytes of its
  UTF-8 text.
\<close>

datatype jsval = JUndefined | JNull | JBool bool | JNum real | JStr string

type_synonym jsobj = "(string \<times> jsval) list"

text \<open>Property assignment: an existing property keeps its position, a new one is appended.\<close>

fun obj_set :: "string \<Rightarrow> jsval \<Rightarrow> jsobj \<Rightarrow> jsobj" where
  "obj_set k v [] = [(k, v)]"
| "obj_set k v ((k', v') # ps) =
     (if k = k' then (k, v) # ps else (k', v') # obj_set k v ps)"

text \<open>\<^verbatim>\<open>{ ...a, ...b }\<close>: the properties of \<open>b\<close> are assigned onto \<open>a\<close> from left to right.\<close>

fun spread :: "jsobj \<Rightarrow> jsobj \<Rightarrow> jsobj" where
  "spread a [] = a"
| "spread a ((k, v) # b) = spread (obj_set k v a) b"

text \<open>
  \<^verbatim>\<open>o.k\<close>: reading a missing property gives \<^verbatim>\<open>undefined\<close>. Should a list name a property
  twice, the last entry counts, as for the members of a JSON text.
\<close>

definition get_prop :: "jsobj \<Rightarrow> string \<Rightarrow> jsval" where
  "get_prop obj k = (case map_of (rev obj) k of None \<Rightarrow> JUndefined | Some v \<Rightarrow> v)"

text \<open>
  \<^verbatim>\<open>JSON.parse(JSON.stringify(o))\<close> on a flat object: a property whose value is
  \<^verbatim>\<open>undefined\<close> is left out of the text, every other property comes back unchanged.
\<close>

definition json :: "jsobj \<Rightarrow> jsobj" where
  "json obj = filter (\<lambda>p. snd p \<noteq> JUndefined) obj"

section \<open>Exceptions\<close>

text \<open>
  The exceptions the modelled code throws or lets through: the Prisma client's refusals
  (no row to update, a repeated unique value, an ill-typed value), Redis answering a
  command sent to a key of the wrong type, the JavaScript errors, a failed request to
  another service, and the two errors the services raise themselves.
\<close>

datatype exn =
    RecordNotFound
  | UniqueConstraintFailed
  | PrismaValidationError
  | WRONGTYPE
  | TypeError
  | RangeError
  | URIError
  | RequestFailed
  | INVALID_TOKEN
  | KEYCLOAK_DISABLE_FAILED

section \<open>The job status relay (redis.service.ts)\<close>

text \<open>
  The Redis server as the service uses it. There is one keyspace: a key holds a string (a
  serialised object, with an optional time to live in seconds) or a list, never both, and a
  command sent to a key of the other type is answered with a \<^verbatim>\<open>WRONGTYPE\<close> error, which the
  client throws. \<open>published\<close> lists the messages published so far, oldest first. A stored
  string is kept in parsed form, that is, after the JSON round trip; it is never the empty
  string, so \<^verbatim>\<open>if (!data)\<close> in \<^verbatim>\<open>getCache\<close> tests for the missing key only.
\<close>

record entry =
  val :: jsobj
  expire :: "nat option"

datatype rvalue = RString entry | RList "jsobj list"

record redis =
  store :: "string \<Rightarrow> rvalue option"
  published :: "(string \<times> jsobj) list"

definition redis_empty :: redis where
  "redis_empty = \<lparr>store = (\<lambda>k. None), published = []\<rparr>"

text \<open>
  \<^verbatim>\<open>setCache\<close>: \<^verbatim>\<open>SETEX\<close> when a truthy expiry is given, plain \<^verbatim>\<open>SET\<close> otherwise. Both
  overwrite whatever the key held, of either type.
\<close>

definition setCache :: "string \<Rightarrow> jsobj \<Rightarrow> nat option \<Rightarrow> redis \<Rightarrow> redis" where
  "setCache key v expireSeconds r =
     (case expireSeconds of
        Some n \<Rightarrow>
          (if n \<noteq> 0 then r\<lparr>store := (store r)(key \<mapsto> RString \<lparr>val = json v, expire = Some n\<rparr>)\<rparr>
           else r\<lparr>store := (store r)(key \<mapsto> RString \<lparr>val = json v, expire = None\<rparr>)\<rparr>)
      | None \<Rightarrow> r\<lparr>store := (store r)(key \<mapsto> RString \<lparr>val = json v, expire = None\<rparr>)\<rparr>)"

text \<open>
  \<^verbatim>\<open>getCache\<close>: \<^verbatim>\<open>GET\<close>, then \<^verbatim>\<open>null\<close> (here \<open>None\<close>) when the key holds nothing. \<^verbatim>\<open>GET\<close> on
  a key that holds a list is refused.
\<close>

definition getCache :: "string \<Rightarrow> redis \<Rightarrow> exn + jsobj option" where
  "getCache key r =
     (case store r key of
        None \<Rightarrow> Inr None
      | Some (RString e) \<Rightarrow> Inr (Some (val e))
      | Some (RList xs) \<Rightarrow> Inl WRONGTYPE)"

definition publishEvent :: "string \<Rightarrow> jsobj \<Rightarrow> redis \<Rightarrow> redis" where
  "publishEvent channel d r = r\<lparr>published := published r @ [(channel, json d)]\<rparr>"

text \<open>\<^verbatim>\<open>LPUSH\<close>: creates the list when the key holds nothing, and is refused on a string key.\<close>

definition lpush :: "string \<Rightarrow> jsobj \<Rightarrow> redis \<Rightarrow> exn + redis" where
  "lpush key v r =
     (case store r key of
        None \<Rightarrow> Inr (r\<lparr>store := (store r)(key \<mapsto> RList [json v])\<rparr>)
      | Some (RList xs) \<Rightarrow> Inr (r\<lparr>store := (store r)(key \<mapsto> RList (json v # xs))\<rparr>)
      | Some (RString e) \<Rightarrow> Inl WRONGTYPE)"

text \<open>
  The list key is in order when it does not hold a string; \<open>queued\<close> is the list it holds,
  empty when it holds nothing.
\<close>

definition queue_ok :: "redis \<Rightarrow> bool" where
  "queue_ok r = (case store r ''transformation:queue'' of Some (RString e) \<Rightarrow> False | _ \<Rightarrow> True)"

definition queued :: "redis \<Rightarrow> jsobj list" where
  "queued r = (case store r ''transformation:queue'' of Some (RList xs) \<Rightarrow> xs | _ \<Rightarrow> [])"

record job =
  job_id :: string
  job_userId :: string
  job_imageUrl :: string
  job_style :: string

definition job_obj :: "job \<Rightarrow> jsobj" where
  "job_obj j = [(''id'', JStr (job_id j)), (''userId'', JStr (job_userId j)),
                (''imageUrl'', JStr (job_imageUrl j)), (''style'', JStr (job_style j))]"

datatype job_status = Pending | Processing | Completed | Failed

fun status_str :: "job_status \<Rightarrow> string" where
  "status_str Pending = ''pending''"
| "status_str Processing = ''processing''"
| "status_str Completed = ''completed''"
| "status_str Failed = ''failed''"

definition job_key :: "string \<Rightarrow> string" where
  "job_key jobId = ''transformation:'' @ jobId"

definition addTransformationJob :: "job \<Rightarrow> redis \<Rightarrow> exn + redis" where
  "addTransformationJob j r =
     (case lpush ''transformation:queue'' (job_obj j) r of
        Inl e \<Rightarrow> Inl e
      | Inr r1 \<Rightarrow>
          Inr (setCache (job_key (job_id j)) (spread [(''status'', JStr ''pending'')] (job_obj j))
                 (Some 3600) r1))"

text \<open>The optional third argument: \<open>None\<close> is an omitted \<^verbatim>\<open>result\<close>, whose spread adds nothing.\<close>

definition result_obj :: "jsobj option \<Rightarrow> jsobj" where
  "result_obj res = (case res of None \<Rightarrow> [] | Some obj \<Rightarrow> obj)"

definition merged_record :: "jsobj \<Rightarrow> job_status \<Rightarrow> jsobj option \<Rightarrow> jsobj" where
  "merged_record existing st res =
     spread (obj_set ''status'' (JStr (status_str st)) (spread [] existing)) (result_obj res)"

definition status_event :: "string \<Rightarrow> jsobj \<Rightarrow> job_status \<Rightarrow> jsobj option \<Rightarrow> jsobj" where
  "status_event jobId existing st res =
     spread [(''jobId'', JStr jobId), (''userId'', get_prop existing ''userId''),
             (''status'', JStr (status_str st))] (result_obj res)"

definition updateTransformationStatus ::
    "string \<Rightarrow> job_status \<Rightarrow> jsobj option \<Rightarrow> redis \<Rightarrow> exn + redis" where
  "updateTransformationStatus jobId st res r =
     (case getCache (job_key jobId) r of
        Inl e \<Rightarrow> Inl e
      | Inr None \<Rightarrow> Inr r
      | Inr (Some existing) \<Rightarrow>
          Inr (publishEvent ''transformation:complete'' (status_event jobId existing st res)
                 (setCache (job_key jobId) (merged_record existing st res) (Some 3600) r)))"

definition getTransformationStatus :: "string \<Rightarrow> redis \<Rightarrow> exn + jsobj option" where
  "getTransformationStatus jobId r = getCache (job_key jobId) r"

text \<open>What a reader of the parsed record sees: properties that were \<^verbatim>\<open>undefined\<close> are gone.\<close>

definition drop_undefined :: "(string \<Rightarrow> jsval option) \<Rightarrow> (string \<Rightarrow> jsval option)" where
  "drop_undefined m = (\<lambda>k. case m k of Some JUndefined \<Rightarrow> None | x \<Rightarrow> x)"

section \<open>Strings and truthiness\<close>

text \<open>\<^verbatim>\<open>if (v)\<close>: the falsy values are \<^verbatim>\<open>undefined\<close>, \<^verbatim>\<open>null\<close>, \<^verbatim>\<open>false\<close>, \<^verbatim>\<open>0\<close> and the empty string.\<close>

fun truthy :: "jsval \<Rightarrow> bool" where
  "truthy JUndefined = False"
| "truthy JNull = False"
| "truthy (JBool b) = b"
| "truthy (JNum n) = (n \<noteq> 0)"
| "truthy (JStr s) = (s \<noteq> [])"

text \<open>An optional string (\<^verbatim>\<open>string | undefined\<close>) under \<^verbatim>\<open>if (s)\<close> and under \<^verbatim>\<open>s || ''\<close>.\<close>

fun truthy_str :: "string option \<Rightarrow> bool" where
  "truthy_str None = False"
| "truthy_str (Some s) = (s \<noteq> [])"

fun or_empty :: "string option \<Rightarrow> string" where
  "or_empty None = []"
| "or_empty (Some s) = s"

text \<open>\<^verbatim>\<open>s.split(c)\<close> for a one-character separator: never empty, \<^verbatim>\<open>"".split(c)\<close> is \<^verbatim>\<open>[""]\<close>.\<close>

fun split_on :: "char \<Rightarrow> string \<Rightarrow> string list" where
  "split_on c [] = [[]]"
| "split_on c (x # xs) =
     (if x = c then [] # split_on c xs
      else (case split_on c xs of [] \<Rightarrow> [[x]] | p # ps \<Rightarrow> (x # p) # ps))"

text \<open>Array destructuring \<^verbatim>\<open>const [a, b] = parts\<close>: a missing element is \<^verbatim>\<open>undefined\<close>.\<close>

fun elem :: "string list \<Rightarrow> nat \<Rightarrow> string option" where
  "elem [] n = None"
| "elem (p # ps) 0 = Some p"
| "elem (p # ps) (Suc n) = elem ps n"

text \<open>
  \<^verbatim>\<open>s.trim()\<close> strips the white space and line terminators of ECMAScript from both ends:
  U+0009 to U+000D, U+0020, U+00A0, U+1680, U+2000 to U+200A, U+2028, U+2029, U+202F,
  U+205F, U+3000 and U+FEFF, here as their UTF-8 byte sequences. \<open>strip\<close> removes such
  sequences from the front for as long as there is one; \<open>trim\<close> does so at both ends.
\<close>

definition white_space :: "string list" where
  "white_space =
     [[CHR 0x09], [CHR 0x0A], [CHR 0x0B], [CHR 0x0C], [CHR 0x0D], [CHR 0x20],
      [CHR 0xC2, CHR 0xA0], [CHR 0xE1, CHR 0x9A, CHR 0x80]] @
     map (\<lambda>b. [CHR 0xE2, CHR 0x80, b])
       [CHR 0x80, CHR 0x81, CHR 0x82, CHR 0x83, CHR 0x84, CHR 0x85, CHR 0x86, CHR 0x87,
        CHR 0x88, CHR 0x89, CHR 0x8A, CHR 0xA8, CHR 0xA9, CHR 0xAF] @
     [[CHR 0xE2, CHR 0x81, CHR 0x9F], [CHR 0xE3, CHR 0x80, CHR 0x80],
      [CHR 0xEF, CHR 0xBB, CHR 0xBF]]"

function strip :: "string list \<Rightarrow> string \<Rightarrow> string" where
  "strip seqs s =
     (case find (\<lambda>p. p \<noteq> [] \<and> take (length p) s = p) seqs of
        None \<Rightarrow> s
      | Some p \<Rightarrow> strip seqs (drop (length p) s))"
  by pat_completeness auto

termination
proof (relation "measure (\<lambda>(seqs, s). length s)")
  show "wf (measure (\<lambda>(seqs, s). length s))" by simp
next
  fix seqs :: "string list" and s p :: string
  assume "find (\<lambda>p. p \<noteq> [] \<and> take (length p) s = p) seqs = Some p"
  then have p: "p \<noteq> [] \<and> take (length p) s = p"
    by (auto simp: find_Some_iff)
  then have "s \<noteq> []" by auto
  with p show "((seqs, drop (length p) s), (seqs, s)) \<in> measure (\<lambda>(seqs, s). length s)"
    by simp
qed

declare strip.simps [simp del]

definition trim :: "string \<Rightarrow> string" where
  "trim s = rev (strip (map rev white_space) (rev (strip white_space s)))"

text \<open>
  \<^verbatim>\<open>toLowerCase\<close> on the ASCII letters. The code compares its result with \<^verbatim>\<open>bearer\<close> only,
  and no character outside ASCII lowers to one of the letters of that word.
\<close>

definition lower_char :: "char \<Rightarrow> char" where
  "lower_char c =
     (let n = (of_char c :: nat) in if 65 \<le> n \<and> n \<le> 90 then char_of (n + 32) else c)"

definition toLowerCase :: "string \<Rightarrow> string" where
  "toLowerCase s = map lower_char s"

text \<open>\<^verbatim>\<open>s.indexOf(c)\<close>, with \<open>None\<close> for the result \<^verbatim>\<open>-1\<close>.\<close>

fun indexOf :: "char \<Rightarrow> string \<Rightarrow> nat option" where
  "indexOf c [] = None"
| "indexOf c (x # xs) = (if x = c then Some 0 else map_option Suc (indexOf c xs))"

text \<open>Decimal text of an integer, as a template literal prints it.\<close>

fun show_nat :: "nat \<Rightarrow> string" where
  "show_nat n =
     (if n < 10 then [char_of (48 + n)] else show_nat (n div 10) @ [char_of (48 + n mod 10)])"

declare show_nat.simps [simp del]

definition show_int :: "int \<Rightarrow> string" where
  "show_int i = (if i < 0 then CHR ''-'' # show_nat (nat (- i)) else show_nat (nat i))"

text \<open>\<^verbatim>\<open>Array.from(new Set(xs))\<close>: the first occurrence of each element, in order.\<close>

fun dedup :: "string list \<Rightarrow> string list" where
  "dedup [] = []"
| "dedup (x # xs) = x # filter (\<lambda>y. y \<noteq> x) (dedup xs)"

section \<open>The relational store (Prisma client)\<close>

text \<open>
  A table is the list of its rows in insertion order, and a timestamp is a number of
  milliseconds since the epoch. The rows keep the columns that the handlers below read or
  write. The schema file is not part of the sources. The columns the code gives to
  \<^verbatim>\<open>findUnique\<close> and \<^verbatim>\<open>update\<close> as their \<^verbatim>\<open>where\<close> are unique columns, since the client
  accepts no others there: every id, and a user's \<^verbatim>\<open>keycloakId\<close> and \<^verbatim>\<open>email\<close>. A
  \<^verbatim>\<open>create\<close> that would repeat one of them is refused. A call to the store or to Redis
  succeeds unless the client or the server refuses it in one of the ways listed with the
  exceptions; where the code has its own handling for a failed call, the outcome of that
  call is a parameter. A handler below is one step from request to answer, except
  \<^verbatim>\<open>POST /api/transform/start\<close>, which is also given step by step along its awaits, so that
  two requests can overlap.
\<close>

record user =
  user_id :: string
  keycloakId :: string
  email :: string
  user_name :: "string option"
  credits :: int
  deletedAt :: "nat option"
  createdAt :: nat

record subscription =
  sub_id :: string
  sub_userId :: string
  sub_status :: string
  stripeSubscriptionId :: "string option"

record db_order =
  order_id :: string
  order_userId :: string
  order_type :: string
  order_status :: string
  amount :: int
  currency :: string
  order_credits :: "int option"
  paymentProvider :: "string option"
  paymentId :: "string option"

record transformation =
  tr_id :: string
  tr_userId :: string
  tr_style :: string
  tr_status :: string
  inputImageData :: string
  outputImageUrl :: "string option"
  errorMessage :: "string option"
  completedAt :: "nat option"

record token =
  tok_id :: string
  tok_userId :: string
  tokenHash :: string
  expiresAt :: nat
  usedAt :: "nat option"

record database =
  users :: "user list"
  subscriptions :: "subscription list"
  orders :: "db_order list"
  transformations :: "transformation list"
  passwordResetTokens :: "token list"
  accountReactivationTokens :: "token list"

definition db_empty :: database where
  "db_empty = \<lparr>users = [], subscriptions = [], orders = [], transformations = [],
                passwordResetTokens = [], accountReactivationTokens = []\<rparr>"

text \<open>\<^verbatim>\<open>findUnique\<close> / \<^verbatim>\<open>findFirst\<close>: the first matching row or \<^verbatim>\<open>null\<close>.\<close>

definition findUnique :: "('a \<Rightarrow> bool) \<Rightarrow> 'a list \<Rightarrow> 'a option" where
  "findUnique P rows = find P rows"

fun replace_first :: "('a \<Rightarrow> bool) \<Rightarrow> ('a \<Rightarrow> 'a) \<Rightarrow> 'a list \<Rightarrow> 'a list" where
  "replace_first P f [] = []"
| "replace_first P f (x # xs) = (if P x then f x # xs else x # replace_first P f xs)"

text \<open>
  \<^verbatim>\<open>update({ where, data })\<close>: throws when no row matches, otherwise rewrites the row and
  returns it together with the new table.
\<close>

definition prisma_update ::
    "('a \<Rightarrow> bool) \<Rightarrow> ('a \<Rightarrow> 'a) \<Rightarrow> 'a list \<Rightarrow> exn + ('a \<times> 'a list)" where
  "prisma_update P f rows =
     (case find P rows of
        None \<Rightarrow> Inl RecordNotFound
      | Some x \<Rightarrow> Inr (f x, replace_first P f rows))"

text \<open>
  \<^verbatim>\<open>create({ data })\<close>: appends the row, unless a row of the table clashes with it on a
  unique column (\<open>clash\<close> tells which rows do).
\<close>

definition prisma_create :: "('a \<Rightarrow> bool) \<Rightarrow> 'a \<Rightarrow> 'a list \<Rightarrow> exn + 'a list" where
  "prisma_create clash row rows =
     (if list_ex clash rows then Inl UniqueConstraintFailed else Inr (rows @ [row]))"

definition user_clash :: "user \<Rightarrow> user \<Rightarrow> bool" where
  "user_clash row x =
     (user_id x = user_id row \<or> keycloakId x = keycloakId row \<or> email x = email row)"

text \<open>\<^verbatim>\<open>updateMany\<close>: rewrites every matching row and never throws for a missing one.\<close>

definition updateMany :: "('a \<Rightarrow> bool) \<Rightarrow> ('a \<Rightarrow> 'a) \<Rightarrow> 'a list \<Rightarrow> 'a list" where
  "updateMany P f rows = map (\<lambda>x. if P x then f x else x) rows"

section \<open>The world a request runs in\<close>

text \<open>
  Calls to the identity provider are recorded with their outcome (\<open>True\<close>: the call went
  through). The user the authentication middleware attaches to a request is \<open>req_user\<close>;
  its short-lived cache lives in Redis under \<^verbatim>\<open>auth:v1:<token>\<close>. No key of the job relay
  begins like that, so the cache is a map of its own, from the whole key to the parsed
  entry and its time to live in seconds. \<open>n8n\<close> lists the job ids handed to the workflow
  engine.
\<close>

datatype kc_call =
    KcLogoutUser string
  | KcDisableUser string
  | KcEnableUser string
  | KcResetPassword string string
  | KcEndSession jsval

record req_user =
  ru_id :: string
  ru_email :: string
  ru_name :: string
  ru_roles :: "string list"
  ru_isAdmin :: bool

record auth_entry =
  ae_user :: req_user
  ae_blocked :: bool
  ae_ttl :: nat

record world =
  db :: database
  redis :: redis
  authCache :: "string \<Rightarrow> auth_entry option"
  n8n :: "string list"
  keycloak :: "(kc_call \<times> bool) list"

definition world_empty :: world where
  "world_empty = \<lparr>db = db_empty, redis = redis_empty, authCache = (\<lambda>k. None), n8n = [],
                   keycloak = []\<rparr>"

record response =
  status :: nat
  body :: jsobj

definition respond :: "nat \<Rightarrow> jsobj \<Rightarrow> response" where
  "respond code obj = \<lparr>status = code, body = json obj\<rparr>"

section \<open>POST /api/transform/start\<close>

text \<open>
  The request after \<^verbatim>\<open>upload.single('image')\<close>: the uploaded buffer as base64 text (\<open>None\<close>
  when no file came), the \<^verbatim>\<open>style\<close> field of the body, and the id of the authenticated
  user. The \<^verbatim>\<open>details\<close> property of a validation error body is left out.
\<close>

record start_req =
  sr_file :: "string option"
  sr_style :: jsval
  sr_user :: string

definition styles :: "string list" where
  "styles = [''cartoon'', ''graffiti'', ''watercolor'', ''sketch'', ''pop-art'', ''neon'',
             ''anime'', ''renaissance'', ''impressionist'', ''minimalist'']"

text \<open>\<^verbatim>\<open>transformRequestSchema.parse\<close>: \<open>None\<close> stands for the thrown \<^verbatim>\<open>ZodError\<close>.\<close>

fun parse_style :: "jsval \<Rightarrow> string option" where
  "parse_style (JStr s) = (if s \<in> set styles then Some s else None)"
| "parse_style v = None"

text \<open>\<^verbatim>\<open>user.subscription?.status === 'active'\<close> on the user loaded with its subscription.\<close>

definition hasActiveSubscription :: "database \<Rightarrow> user \<Rightarrow> bool" where
  "hasActiveSubscription d u =
     (case findUnique (\<lambda>s. sub_userId s = user_id u) (subscriptions d) of
        None \<Rightarrow> False
      | Some s \<Rightarrow> sub_status s = ''active'')"

definition started_body :: "string \<Rightarrow> jsobj" where
  "started_body jobId =
     [(''jobId'', JStr jobId), (''status'', JStr ''pending''),
      (''message'', JStr ''Transformation started''), (''estimatedTime'', JStr ''30-60 seconds'')]"

definition no_credits_body :: jsobj where
  "no_credits_body =
     [(''error'', JStr ''No credits available''), (''code'', JStr ''NO_CREDITS''),
      (''message'', JStr ''Please purchase credits or subscribe to continue'')]"

text \<open>
  What the handler keeps in its local variables once the user is loaded and the guards are
  passed: the job id (\<^verbatim>\<open>uuidv4()\<close>), the row as it was read, and the two flags computed
  from that row.
\<close>

record start_ctx =
  sc_jobId :: string
  sc_keycloakId :: string
  sc_user :: user
  sc_style :: string
  sc_image :: string
  sc_hasSub :: bool
  sc_hasCredits :: bool

text \<open>
  The handler, cut at its awaits. \<open>start_check\<close> is the part up to the guards, with the
  one read \<^verbatim>\<open>await prisma.user.findUnique\<close>: it writes nothing and either answers (\<open>Inl\<close>)
  or goes on. \<open>start_create\<close> is \<^verbatim>\<open>await prisma.transformation.create\<close>, \<open>start_enqueue\<close> is
  \<^verbatim>\<open>await addTransformationJob\<close> (its two Redis commands taken together), and
  \<open>start_deduct\<close> is the rest: the workflow trigger, which is not awaited, the decrement
  and the answer. \<open>Some\<close> answer from a middle step is the 500 of the \<^verbatim>\<open>catch\<close>.
\<close>

definition start_failed :: response where
  "start_failed = respond 500 [(''error'', JStr ''Failed to start transformation'')]"

definition start_check :: "start_req \<Rightarrow> string \<Rightarrow> world \<Rightarrow> response + start_ctx" where
  "start_check req jobId w =
     (case sr_file req of
        None \<Rightarrow> Inl (respond 400 [(''error'', JStr ''No image file provided'')])
      | Some imageBase64 \<Rightarrow>
     (case parse_style (sr_style req) of
        None \<Rightarrow> Inl (respond 400 [(''error'', JStr ''Validation error'')])
      | Some style \<Rightarrow>
     (case findUnique (\<lambda>u. keycloakId u = sr_user req) (users (db w)) of
        None \<Rightarrow> Inl (respond 404 [(''error'', JStr ''User not found'')])
      | Some user \<Rightarrow>
          let hasSub = hasActiveSubscription (db w) user;
              hasCredits = (credits user > 0)
          in if \<not> hasSub \<and> \<not> hasCredits then Inl (respond 402 no_credits_body)
             else Inr \<lparr>sc_jobId = jobId, sc_keycloakId = sr_user req, sc_user = user,
                       sc_style = style, sc_image = imageBase64, sc_hasSub = hasSub,
                       sc_hasCredits = hasCredits\<rparr>)))"

definition start_create :: "start_ctx \<Rightarrow> world \<Rightarrow> response option \<times> world" where
  "start_create c w =
     (case prisma_create (\<lambda>t. tr_id t = sc_jobId c)
             \<lparr>tr_id = sc_jobId c, tr_userId = user_id (sc_user c), tr_style = sc_style c,
              tr_status = ''pending'', inputImageData = sc_image c,
              outputImageUrl = None, errorMessage = None, completedAt = None\<rparr>
             (transformations (db w)) of
        Inl e \<Rightarrow> (Some start_failed, w)
      | Inr rows \<Rightarrow> (None, w\<lparr>db := (db w)\<lparr>transformations := rows\<rparr>\<rparr>))"

definition start_enqueue :: "start_ctx \<Rightarrow> world \<Rightarrow> response option \<times> world" where
  "start_enqueue c w =
     (case addTransformationJob
             \<lparr>job_id = sc_jobId c, job_userId = sc_keycloakId c, job_imageUrl = sc_image c,
              job_style = sc_style c\<rparr> (redis w) of
        Inl e \<Rightarrow> (Some start_failed, w)
      | Inr r1 \<Rightarrow> (None, w\<lparr>redis := r1\<rparr>))"

definition start_deduct :: "start_ctx \<Rightarrow> world \<Rightarrow> response \<times> world" where
  "start_deduct c w =
     (let w1 = w\<lparr>n8n := n8n w @ [sc_jobId c]\<rparr>
      in if \<not> sc_hasSub c \<and> sc_hasCredits c then
           (case prisma_update (\<lambda>u. user_id u = user_id (sc_user c))
                   (\<lambda>u. u\<lparr>credits := credits u - 1\<rparr>) (users (db w1)) of
              Inl e \<Rightarrow> (start_failed, w1)
            | Inr (u', us) \<Rightarrow>
                (respond 202 (started_body (sc_jobId c)), w1\<lparr>db := (db w1)\<lparr>users := us\<rparr>\<rparr>))
         else (respond 202 (started_body (sc_jobId c)), w1))"

text \<open>The steps after the guards, one after the other.\<close>

definition start_rest :: "start_ctx \<Rightarrow> world \<Rightarrow> response \<times> world" where
  "start_rest c w =
     (case start_create c w of
        (Some answer, w1) \<Rightarrow> (answer, w1)
      | (None, w1) \<Rightarrow>
          (case start_enqueue c w1 of
             (Some answer, w2) \<Rightarrow> (answer, w2)
           | (None, w2) \<Rightarrow> start_deduct c w2))"

text \<open>One request on its own: nothing happens between its steps.\<close>

definition transform_start :: "start_req \<Rightarrow> string \<Rightarrow> world \<Rightarrow> response \<times> world" where
  "transform_start req jobId w =
     (case start_check req jobId w of
        Inl answer \<Rightarrow> (answer, w)
      | Inr c \<Rightarrow> start_rest c w)"

text \<open>
  Two requests that overlap: the second one's read of the user row is served while the
  first is still waiting for its first write, so both pass the guards on the same world;
  then the first runs to its answer and the second follows. The result is the two answers
  and the world left behind.
\<close>

definition overlapped ::
    "start_req \<Rightarrow> string \<Rightarrow> start_req \<Rightarrow> string \<Rightarrow> world \<Rightarrow> (response \<times> response) \<times> world" where
  "overlapped req_a job_a req_b job_b w =
     (let checked_a = start_check req_a job_a w;
          checked_b = start_check req_b job_b w;
          (answer_a, w1) = (case checked_a of Inl answer \<Rightarrow> (answer, w) | Inr c \<Rightarrow> start_rest c w);
          (answer_b, w2) = (case checked_b of Inl answer \<Rightarrow> (answer, w1) | Inr c \<Rightarrow> start_rest c w1)
      in ((answer_a, answer_b), w2))"

section \<open>POST /api/admin/users/:userId/credits\<close>

text \<open>
  Modelled from the spec: the schema is not under the sources, and the spec gives the credit
  balance as an integer, so the client refuses an increment that is not a whole number
  before anything is written. The guard of the handler itself lets such an amount through
  when it is positive. The width of the column is not known either; the balance is an
  unbounded integer here. The message prints the amount as a whole number, which is how
  JavaScript prints one below \<^verbatim>\<open>1e21\<close>.
\<close>

definition admin_add_credits :: "string \<Rightarrow> jsval \<Rightarrow> world \<Rightarrow> response \<times> world" where
  "admin_add_credits userId amt w =
     (case amt of
        JNum n \<Rightarrow>
          if n \<le> 0 then (respond 400 [(''error'', JStr ''Invalid credits amount'')], w)
          else if n \<notin> \<int> then (respond 500 [(''error'', JStr ''Failed to add credits'')], w)
          else
            (case prisma_update (\<lambda>u. user_id u = userId) (\<lambda>u. u\<lparr>credits := credits u + \<lfloor>n\<rfloor>\<rparr>)
                    (users (db w)) of
               Inl e \<Rightarrow> (respond 500 [(''error'', JStr ''Failed to add credits'')], w)
             | Inr (u', us) \<Rightarrow>
                 (respond 200 [(''message'', JStr (''Added '' @ show_int \<lfloor>n\<rfloor> @ '' credits to user'')),
                               (''newBalance'', JNum (of_int (credits u')))],
                  w\<lparr>db := (db w)\<lparr>users := us\<rparr>\<rparr>))
      | _ \<Rightarrow> (respond 400 [(''error'', JStr ''Invalid credits amount'')], w))"

section \<open>GET /api/users/me\<close>

record profile =
  p_id :: string
  p_email :: string
  p_name :: "string option"
  p_credits :: int
  p_isAdmin :: bool
  p_subscription :: "subscription option"
  p_createdAt :: nat

datatype me_reply = MeProfile profile | MeRefused response

definition profile_of :: "database \<Rightarrow> req_user \<Rightarrow> user \<Rightarrow> profile" where
  "profile_of d ru u =
     \<lparr>p_id = user_id u, p_email = email u, p_name = user_name u, p_credits = credits u,
      p_isAdmin = ru_isAdmin ru,
      p_subscription = findUnique (\<lambda>s. sub_userId s = user_id u) (subscriptions d),
      p_createdAt = createdAt u\<rparr>"

definition no_email_message :: string where
  "no_email_message =
     ''Token n'' @ [CHR 0xC3, CHR 0xA3] @ ''o cont'' @ [CHR 0xC3, CHR 0xA9] @
     ''m email. Verifique scope/mappers no Keycloak.''"

text \<open>
  \<open>newId\<close> is the id the store generates for a created row and \<open>now\<close> its creation time. A
  refused \<^verbatim>\<open>create\<close> is caught by the handler and answered 500.
\<close>

definition get_me :: "req_user \<Rightarrow> string \<Rightarrow> nat \<Rightarrow> world \<Rightarrow> me_reply \<times> world" where
  "get_me ru newId now w =
     (case findUnique (\<lambda>u. keycloakId u = ru_id ru) (users (db w)) of
        Some u \<Rightarrow>
          if deletedAt u \<noteq> None
          then (MeRefused (respond 403 [(''message'', JStr ''Conta desativada'')]), w)
          else (MeProfile (profile_of (db w) ru u), w)
      | None \<Rightarrow>
          if ru_email ru = [] then (MeRefused (respond 400 [(''message'', JStr no_email_message)]), w)
          else
            let u = \<lparr>user_id = newId, keycloakId = ru_id ru, email = ru_email ru,
                     user_name = Some (ru_name ru), credits = 3, deletedAt = None,
                     createdAt = now\<rparr>
            in (case prisma_create (user_clash u) u (users (db w)) of
                  Inl e \<Rightarrow>
                    (MeRefused (respond 500 [(''error'', JStr ''Failed to get user profile'')]), w)
                | Inr rows \<Rightarrow>
                    (MeProfile (profile_of ((db w)\<lparr>users := rows\<rparr>) ru u),
                     w\<lparr>db := (db w)\<lparr>users := rows\<rparr>\<rparr>)))"

section \<open>POST /api/payments/credits/purchase\<close>

text \<open>A \<^verbatim>\<open>z.enum\<close> field: \<open>None\<close> stands for the thrown \<^verbatim>\<open>ZodError\<close>.\<close>

fun parse_enum :: "string list \<Rightarrow> jsval \<Rightarrow> string option" where
  "parse_enum allowed (JStr s) = (if s \<in> set allowed then Some s else None)"
| "parse_enum allowed v = None"

record credit_package =
  pk_credits :: int
  priceBRL :: int
  priceEUR :: int

definition CREDIT_PACKAGES :: "(string \<times> credit_package) list" where
  "CREDIT_PACKAGES =
     [(''small'', \<lparr>pk_credits = 10, priceBRL = 1990, priceEUR = 490\<rparr>),
      (''medium'', \<lparr>pk_credits = 50, priceBRL = 7990, priceEUR = 1990\<rparr>),
      (''large'', \<lparr>pk_credits = 150, priceBRL = 19990, priceEUR = 4990\<rparr>)]"

text \<open>
  \<open>pay\<close> is what the payment provider answers (\<open>None\<close>: the call throws), \<open>newId\<close> the id
  of the created order.
\<close>

definition new_credit_order :: "string \<Rightarrow> user \<Rightarrow> string \<Rightarrow> credit_package \<Rightarrow> db_order" where
  "new_credit_order newId u reg packageInfo =
     \<lparr>order_id = newId, order_userId = user_id u, order_type = ''credits'',
      order_status = ''pending'',
      amount = (if reg = ''BR'' then priceBRL packageInfo else priceEUR packageInfo),
      currency = (if reg = ''BR'' then ''BRL'' else ''EUR''),
      order_credits = Some (pk_credits packageInfo),
      paymentProvider = None, paymentId = None\<rparr>"

definition set_payment :: "string \<Rightarrow> string \<Rightarrow> db_order \<Rightarrow> db_order" where
  "set_payment reg pid r =
     r\<lparr>paymentProvider := Some (if reg = ''BR'' then ''asaas'' else ''stripe''), paymentId := Some pid\<rparr>"

definition purchase_credits ::
    "jsval \<Rightarrow> jsval \<Rightarrow> string \<Rightarrow> string \<Rightarrow> (string \<times> string) option \<Rightarrow> world \<Rightarrow> response \<times> world" where
  "purchase_credits pkg region userId newId pay w =
     (case (parse_enum (map fst CREDIT_PACKAGES) pkg, parse_enum [''BR'', ''PT''] region) of
        (Some packageId, Some reg) \<Rightarrow>
          (case map_of CREDIT_PACKAGES packageId of
             None \<Rightarrow> (respond 500 [(''error'', JStr ''Failed to process payment'')], w)
           | Some packageInfo \<Rightarrow>
          (case findUnique (\<lambda>u. keycloakId u = userId) (users (db w)) of
             None \<Rightarrow> (respond 404 [(''error'', JStr ''User not found'')], w)
           | Some user \<Rightarrow>
               (case prisma_create (\<lambda>r. order_id r = newId)
                       (new_credit_order newId user reg packageInfo) (orders (db w)) of
                  Inl e \<Rightarrow> (respond 500 [(''error'', JStr ''Failed to process payment'')], w)
                | Inr created \<Rightarrow>
                    let w1 = w\<lparr>db := (db w)\<lparr>orders := created\<rparr>\<rparr>
                    in (case pay of
                          None \<Rightarrow> (respond 500 [(''error'', JStr ''Failed to process payment'')], w1)
                        | Some (pid, url) \<Rightarrow>
                            (case prisma_update (\<lambda>r. order_id r = newId) (set_payment reg pid)
                                    (orders (db w1)) of
                               Inl e \<Rightarrow>
                                 (respond 500 [(''error'', JStr ''Failed to process payment'')], w1)
                             | Inr (row, rows) \<Rightarrow>
                                 (respond 200 [(''orderId'', JStr newId), (''paymentUrl'', JStr url),
                                               (''paymentId'', JStr pid)],
                                  w1\<lparr>db := (db w1)\<lparr>orders := rows\<rparr>\<rparr>))))))
      | _ \<Rightarrow> (respond 400 [(''error'', JStr ''Validation error'')], w))"

section \<open>Payment webhooks (webhook.routes.ts)\<close>

definition credits_added_message :: "int \<Rightarrow> string" where
  "credits_added_message c =
     show_int c @ '' cr'' @ [CHR 0xC3, CHR 0xA9] @ ''ditos adicionados '' @ [CHR 0xC3, CHR 0xA0] @
     '' sua conta!''"

text \<open>
  \<^verbatim>\<open>handleStripeCheckoutComplete\<close> and \<^verbatim>\<open>handleAsaasPaymentConfirmed\<close> have the same text
  once the order id is known: mark the order completed and, for a credits order, add
  \<^verbatim>\<open>metadata.credits || 0\<close> to its user and publish a notification. A thrown exception
  leaves the writes made before it in place.
\<close>

text \<open>\<^verbatim>\<open>order.metadata?.credits || 0\<close>.\<close>

definition credit_amount :: "db_order \<Rightarrow> int" where
  "credit_amount r = (case order_credits r of None \<Rightarrow> 0 | Some n \<Rightarrow> n)"

definition complete_order :: "string \<Rightarrow> world \<Rightarrow> (exn + unit) \<times> world" where
  "complete_order orderId w =
     (case prisma_update (\<lambda>r. order_id r = orderId) (\<lambda>r. r\<lparr>order_status := ''completed''\<rparr>)
             (orders (db w)) of
        Inl e \<Rightarrow> (Inl e, w)
      | Inr (order, rows) \<Rightarrow>
          let w1 = w\<lparr>db := (db w)\<lparr>orders := rows\<rparr>\<rparr>
          in if order_type order = ''credits'' then
               let c = credit_amount order
               in (case prisma_update (\<lambda>u. user_id u = order_userId order)
                          (\<lambda>u. u\<lparr>credits := credits u + c\<rparr>) (users (db w1)) of
                     Inl e \<Rightarrow> (Inl e, w1)
                   | Inr (u', us) \<Rightarrow>
                       (Inr (),
                        w1\<lparr>db := (db w1)\<lparr>users := us\<rparr>,
                           redis := publishEvent ''notification''
                                      [(''userId'', JStr (keycloakId u')), (''type'', JStr ''credits_added''),
                                       (''message'', JStr (credits_added_message c))] (redis w1)\<rparr>))
             else (Inr (), w1))"

definition handleStripeCheckoutComplete :: "string option \<Rightarrow> world \<Rightarrow> (exn + unit) \<times> world" where
  "handleStripeCheckoutComplete orderId w =
     (if \<not> truthy_str orderId then (Inr (), w) else complete_order (or_empty orderId) w)"

definition handleAsaasPaymentConfirmed :: "string option \<Rightarrow> world \<Rightarrow> (exn + unit) \<times> world" where
  "handleAsaasPaymentConfirmed externalReference w =
     (if \<not> truthy_str externalReference then (Inr (), w)
      else complete_order (or_empty externalReference) w)"

definition set_sub_status :: "(subscription \<Rightarrow> bool) \<Rightarrow> string \<Rightarrow> world \<Rightarrow> world" where
  "set_sub_status P st w =
     w\<lparr>db := (db w)\<lparr>subscriptions :=
           updateMany P (\<lambda>s. s\<lparr>sub_status := st\<rparr>) (subscriptions (db w))\<rparr>\<rparr>"

definition handleStripeInvoicePaid :: "string option \<Rightarrow> world \<Rightarrow> (exn + unit) \<times> world" where
  "handleStripeInvoicePaid subscriptionId w =
     (if \<not> truthy_str subscriptionId then (Inr (), w)
      else (Inr (), set_sub_status (\<lambda>s. stripeSubscriptionId s = subscriptionId) ''active'' w))"

definition handleStripeSubscriptionUpdated :: "string \<Rightarrow> string \<Rightarrow> world \<Rightarrow> (exn + unit) \<times> world" where
  "handleStripeSubscriptionUpdated sid st w =
     (Inr (), set_sub_status (\<lambda>s. stripeSubscriptionId s = Some sid)
                (if st = ''active'' then ''active'' else ''inactive'') w)"

definition handleStripeSubscriptionDeleted :: "string \<Rightarrow> world \<Rightarrow> (exn + unit) \<times> world" where
  "handleStripeSubscriptionDeleted sid w =
     (Inr (), set_sub_status (\<lambda>s. stripeSubscriptionId s = Some sid) ''cancelled'' w)"

text \<open>
  The verified Stripe event, reduced to what the handlers read: the order id in the session
  metadata, the subscription of an invoice, the id and status of a subscription.
\<close>

datatype stripe_event =
    CheckoutSessionCompleted "string option"
  | InvoicePaid "string option"
  | SubscriptionUpdated string string
  | SubscriptionDeleted string
  | OtherStripeEvent string

definition webhook_reply :: "(exn + unit) \<times> world \<Rightarrow> response \<times> world" where
  "webhook_reply out =
     (case fst out of
        Inl e \<Rightarrow> (respond 500 [(''error'', JStr ''Webhook processing failed'')], snd out)
      | Inr u \<Rightarrow> (respond 200 [(''received'', JBool True)], snd out))"

text \<open>
  \<open>constructEvent\<close> is \<^verbatim>\<open>stripe.webhooks.constructEvent\<close> with the configured secret: it maps
  the raw body and the \<^verbatim>\<open>stripe-signature\<close> header to the event, or throws (\<open>None\<close>).
\<close>

definition stripe_webhook ::
    "(string \<Rightarrow> string option \<Rightarrow> stripe_event option) \<Rightarrow> string \<Rightarrow> string option \<Rightarrow> world
      \<Rightarrow> response \<times> world" where
  "stripe_webhook constructEvent raw sig w =
     (case constructEvent raw sig of
        None \<Rightarrow> (respond 400 [(''error'', JStr ''Invalid signature'')], w)
      | Some ev \<Rightarrow>
          webhook_reply
            (case ev of
               CheckoutSessionCompleted orderId \<Rightarrow> handleStripeCheckoutComplete orderId w
             | InvoicePaid subscriptionId \<Rightarrow> handleStripeInvoicePaid subscriptionId w
             | SubscriptionUpdated sid st \<Rightarrow> handleStripeSubscriptionUpdated sid st w
             | SubscriptionDeleted sid \<Rightarrow> handleStripeSubscriptionDeleted sid w
             | OtherStripeEvent t \<Rightarrow> (Inr (), w)))"

text \<open>
  The Asaas request as the handler destructures it from \<^verbatim>\<open>req.body\<close>: the event name
  (\<open>None\<close>: \<^verbatim>\<open>undefined\<close>), the \<^verbatim>\<open>externalReference\<close> of \<^verbatim>\<open>payment\<close> and of \<^verbatim>\<open>subscription\<close>
  (outer \<open>None\<close>: the object itself is missing from the body, so reading its property
  throws), and the \<^verbatim>\<open>asaas-access-token\<close> header.
\<close>

record asaas_req =
  aq_event :: "string option"
  aq_payment :: "string option option"
  aq_subscription :: "string option option"
  aq_token :: "string option"

definition handleAsaasPaymentFailed :: "string option \<Rightarrow> world \<Rightarrow> (exn + unit) \<times> world" where
  "handleAsaasPaymentFailed externalReference w =
     (if \<not> truthy_str externalReference then (Inr (), w)
      else
        (case prisma_update (\<lambda>r. order_id r = or_empty externalReference)
                (\<lambda>r. r\<lparr>order_status := ''failed''\<rparr>) (orders (db w)) of
           Inl e \<Rightarrow> (Inl e, w)
         | Inr (row, rows) \<Rightarrow> (Inr (), w\<lparr>db := (db w)\<lparr>orders := rows\<rparr>\<rparr>)))"

definition asaas_set_subscription :: "string \<Rightarrow> string option \<Rightarrow> world \<Rightarrow> (exn + unit) \<times> world" where
  "asaas_set_subscription st externalReference w =
     (if \<not> truthy_str externalReference then (Inr (), w)
      else
        (case prisma_update (\<lambda>r. sub_id r = or_empty externalReference)
                (\<lambda>r. r\<lparr>sub_status := st\<rparr>) (subscriptions (db w)) of
           Inl e \<Rightarrow> (Inl e, w)
         | Inr (row, rows) \<Rightarrow> (Inr (), w\<lparr>db := (db w)\<lparr>subscriptions := rows\<rparr>\<rparr>)))"

definition handleAsaasSubscriptionActive :: "string option \<Rightarrow> world \<Rightarrow> (exn + unit) \<times> world" where
  "handleAsaasSubscriptionActive = asaas_set_subscription ''active''"

definition handleAsaasSubscriptionCancelled :: "string option \<Rightarrow> world \<Rightarrow> (exn + unit) \<times> world" where
  "handleAsaasSubscriptionCancelled = asaas_set_subscription ''cancelled''"

text \<open>Calling a handler on a missing \<^verbatim>\<open>payment\<close> or \<^verbatim>\<open>subscription\<close> object.\<close>

definition on_object ::
    "(string option \<Rightarrow> world \<Rightarrow> (exn + unit) \<times> world) \<Rightarrow> string option option \<Rightarrow> world
      \<Rightarrow> (exn + unit) \<times> world" where
  "on_object h obj w = (case obj of None \<Rightarrow> (Inl TypeError, w) | Some ref \<Rightarrow> h ref w)"

text \<open>\<open>expected\<close> is the configured \<^verbatim>\<open>ASAAS_WEBHOOK_TOKEN\<close>, \<open>None\<close> when it is not set.\<close>

definition asaas_webhook :: "string option \<Rightarrow> asaas_req \<Rightarrow> world \<Rightarrow> response \<times> world" where
  "asaas_webhook expected req w =
     (if aq_token req \<noteq> expected then (respond 401 [(''error'', JStr ''Invalid token'')], w)
      else
        webhook_reply
          (if aq_event req \<in> {Some ''PAYMENT_CONFIRMED'', Some ''PAYMENT_RECEIVED''}
             then on_object handleAsaasPaymentConfirmed (aq_payment req) w
           else if aq_event req \<in> {Some ''PAYMENT_OVERDUE'', Some ''PAYMENT_DELETED''}
             then on_object handleAsaasPaymentFailed (aq_payment req) w
           else if aq_event req \<in> {Some ''SUBSCRIPTION_CREATED'', Some ''SUBSCRIPTION_RENEWED''}
             then on_object handleAsaasSubscriptionActive (aq_subscription req) w
           else if aq_event req \<in> {Some ''SUBSCRIPTION_DELETED'', Some ''SUBSCRIPTION_INACTIVE''}
             then on_object handleAsaasSubscriptionCancelled (aq_subscription req) w
           else (Inr (), w)))"

text \<open>
  The body as the application hands it to a webhook handler. \<^verbatim>\<open>server.ts\<close> mounts
  \<^verbatim>\<open>express.raw({ type: 'application/json' })\<close> on \<^verbatim>\<open>/api/webhooks\<close> in front of
  \<^verbatim>\<open>express.json\<close> and \<^verbatim>\<open>express.urlencoded\<close>, so a JSON body reaches the handler as the
  \<^verbatim>\<open>Buffer\<close> of its bytes and is never parsed, while a form-encoded body is parsed into its
  fields. Destructuring a \<^verbatim>\<open>Buffer\<close> yields \<^verbatim>\<open>undefined\<close> for every name and does not throw.
\<close>

datatype 'f mounted_body = JsonBuffer string | FormFields 'f

record asaas_fields =
  af_event :: "string option"
  af_payment :: "string option option"
  af_subscription :: "string option option"

text \<open>\<^verbatim>\<open>POST /api/webhooks/asaas\<close> as mounted: the body as above and the token header.\<close>

definition asaas_route ::
    "string option \<Rightarrow> asaas_fields mounted_body \<Rightarrow> string option \<Rightarrow> world \<Rightarrow> response \<times> world" where
  "asaas_route expected reqBody token w =
     (case reqBody of
        JsonBuffer bytes \<Rightarrow>
          asaas_webhook expected
            \<lparr>aq_event = None, aq_payment = None, aq_subscription = None, aq_token = token\<rparr> w
      | FormFields f \<Rightarrow>
          asaas_webhook expected
            \<lparr>aq_event = af_event f, aq_payment = af_payment f,
             aq_subscription = af_subscription f, aq_token = token\<rparr> w)"

section \<open>POST /api/webhooks/n8n/transformation-complete\<close>

record n8n_body =
  nb_jobId :: jsval
  nb_status :: jsval
  nb_outputUrl :: jsval
  nb_error :: jsval

text \<open>
  The body is given by the four names the handler destructures from \<^verbatim>\<open>req.body\<close>, each
  \<^verbatim>\<open>undefined\<close> when the body does not have it. \<open>secret\<close> is \<^verbatim>\<open>N8N_WEBHOOK_SECRET\<close> and
  \<open>hmac\<close> the hex HMAC-SHA256 of the serialised body under a secret.
  \<^verbatim>\<open>crypto.timingSafeEqual\<close> throws when the two buffers differ in length.
\<close>

definition verifyN8NSignature ::
    "string option \<Rightarrow> (string \<Rightarrow> n8n_body \<Rightarrow> string) \<Rightarrow> n8n_body \<Rightarrow> string option \<Rightarrow> exn + bool" where
  "verifyN8NSignature secret hmac b signature =
     (if \<not> truthy_str secret then Inr True
      else
        let expectedSignature = hmac (or_empty secret) b
        in if length (or_empty signature) \<noteq> length expectedSignature then Inl RangeError
           else Inr (or_empty signature = expectedSignature))"

text \<open>
  A nullable text column given a request value: \<^verbatim>\<open>undefined\<close> leaves the column alone,
  \<^verbatim>\<open>null\<close> clears it, a string sets it, anything else is refused by the client.
\<close>

fun set_text :: "jsval \<Rightarrow> string option \<Rightarrow> exn + string option" where
  "set_text JUndefined old = Inr old"
| "set_text JNull old = Inr None"
| "set_text (JStr s) old = Inr (Some s)"
| "set_text v old = Inl PrismaValidationError"

definition update_transformation ::
    "n8n_body \<Rightarrow> nat \<Rightarrow> transformation list \<Rightarrow> exn + transformation list" where
  "update_transformation b now rows =
     (case nb_jobId b of
        JStr jobId \<Rightarrow>
          (case (set_text (nb_outputUrl b) None, set_text (nb_error b) None) of
             (Inr x, Inr y) \<Rightarrow>
               (case prisma_update (\<lambda>t. tr_id t = jobId)
                       (\<lambda>t. t\<lparr>tr_status := (if nb_status b = JStr ''success'' then ''completed'' else ''failed''),
                              outputImageUrl := (case set_text (nb_outputUrl b) (outputImageUrl t) of
                                                   Inr v \<Rightarrow> v | Inl e \<Rightarrow> outputImageUrl t),
                              errorMessage := (case set_text (nb_error b) (errorMessage t) of
                                                 Inr v \<Rightarrow> v | Inl e \<Rightarrow> errorMessage t),
                              completedAt := Some now\<rparr>) rows of
                  Inl e \<Rightarrow> Inl e
                | Inr (row, rows') \<Rightarrow> Inr rows')
           | _ \<Rightarrow> Inl PrismaValidationError)
      | _ \<Rightarrow> Inl PrismaValidationError)"

definition n8n_webhook ::
    "string option \<Rightarrow> (string \<Rightarrow> n8n_body \<Rightarrow> string) \<Rightarrow> n8n_body \<Rightarrow> string option \<Rightarrow> nat \<Rightarrow> world
      \<Rightarrow> response \<times> world" where
  "n8n_webhook secret hmac b signature now w =
     (case verifyN8NSignature secret hmac b signature of
        Inl e \<Rightarrow> (respond 500 [(''error'', JStr ''Webhook processing failed'')], w)
      | Inr ok \<Rightarrow>
          if \<not> ok then (respond 401 [(''error'', JStr ''Invalid signature'')], w)
          else
            (case update_transformation b now (transformations (db w)) of
               Inl e \<Rightarrow> (respond 500 [(''error'', JStr ''Webhook processing failed'')], w)
             | Inr rows \<Rightarrow>
                 let w1 = w\<lparr>db := (db w)\<lparr>transformations := rows\<rparr>\<rparr>
                 in (case updateTransformationStatus
                            (case nb_jobId b of JStr j \<Rightarrow> j | _ \<Rightarrow> [])
                            (if nb_status b = JStr ''success'' then Completed else Failed)
                            (Some [(''outputUrl'', nb_outputUrl b), (''error'', nb_error b)])
                            (redis w1) of
                       Inl e \<Rightarrow> (respond 500 [(''error'', JStr ''Webhook processing failed'')], w1)
                     | Inr r1 \<Rightarrow> (respond 200 [(''success'', JBool True)], w1\<lparr>redis := r1\<rparr>))))"

section \<open>Authentication middleware (keycloak.ts)\<close>

text \<open>
  \<^verbatim>\<open>getBearerToken\<close>: \<open>None\<close> is \<^verbatim>\<open>null\<close>. A token part made of white space only is
  truthy and trims to the empty string, which is what the function then returns; the
  middleware's \<^verbatim>\<open>if (!token)\<close> takes that like \<^verbatim>\<open>null\<close>.
\<close>

definition getBearerToken :: "string option \<Rightarrow> string option" where
  "getBearerToken auth =
     (if \<not> truthy_str auth then None
      else
        let parts = split_on CHR '' '' (or_empty auth);
            type = elem parts 0;
            token = elem parts 1
        in if map_option toLowerCase type \<noteq> Some ''bearer'' \<or> \<not> truthy_str token then None
           else Some (trim (or_empty token)))"

text \<open>
  The introspection answer of the identity provider; \<open>client_roles\<close> is
  \<^verbatim>\<open>resource_access?.[clientId]?.roles\<close>. The provider is a function from the token to its
  answer, \<open>None\<close> when the request throws.
\<close>

record introspection =
  active :: bool
  sub :: "string option"
  i_email :: "string option"
  preferred_username :: "string option"
  i_name :: "string option"
  realm_roles :: "string list option"
  client_roles :: "string list option"

definition introspectToken ::
    "(string \<Rightarrow> introspection option) \<Rightarrow> string \<Rightarrow> exn + introspection option" where
  "introspectToken kc token =
     (case kc token of
        None \<Rightarrow> Inl RequestFailed
      | Some d \<Rightarrow> if \<not> active d \<or> \<not> truthy_str (sub d) then Inr None else Inr (Some d))"

definition roles_or_empty :: "string list option \<Rightarrow> string list" where
  "roles_or_empty r = (case r of None \<Rightarrow> [] | Some xs \<Rightarrow> xs)"

definition user_of_token :: "introspection \<Rightarrow> req_user" where
  "user_of_token decoded =
     (let allRoles = dedup (roles_or_empty (realm_roles decoded) @ roles_or_empty (client_roles decoded))
      in \<lparr>ru_id = or_empty (sub decoded),
          ru_email = or_empty (i_email decoded),
          ru_name = (if truthy_str (i_name decoded) then or_empty (i_name decoded)
                     else or_empty (preferred_username decoded)),
          ru_roles = allRoles,
          ru_isAdmin = (''admin'' \<in> set allRoles)\<rparr>)"

datatype mw_result = Responded response | Next req_user

definition keycloakMiddleware ::
    "(string \<Rightarrow> introspection option) \<Rightarrow> string option \<Rightarrow> world \<Rightarrow> mw_result \<times> world" where
  "keycloakMiddleware kc auth w =
     (if \<not> truthy_str (getBearerToken auth) then
        (Responded (respond 401 [(''error'', JStr ''Authorization header missing or invalid'')]), w)
      else
          let token = or_empty (getBearerToken auth);
              cacheKey = ''auth:v1:'' @ token
          in (case authCache w cacheKey of
                Some parsed \<Rightarrow>
                  if ae_blocked parsed
                  then (Responded (respond 403 [(''error'', JStr ''Conta desativada'')]), w)
                  else (Next (ae_user parsed), w)
              | None \<Rightarrow>
                  (case introspectToken kc token of
                     Inl e \<Rightarrow> (Responded (respond 500 [(''error'', JStr ''Auth error'')]), w)
                   | Inr None \<Rightarrow>
                       (Responded (respond 401 [(''error'', JStr ''Invalid or expired token'')]), w)
                   | Inr (Some decoded) \<Rightarrow>
                       let user = user_of_token decoded;
                           dbUser = findUnique (\<lambda>u. keycloakId u = ru_id user) (users (db w));
                           blocked = (case dbUser of None \<Rightarrow> False | Some u \<Rightarrow> deletedAt u \<noteq> None);
                           w1 = w\<lparr>authCache := (authCache w)
                                  (cacheKey \<mapsto> \<lparr>ae_user = user, ae_blocked = blocked, ae_ttl = 60\<rparr>)\<rparr>
                       in if blocked
                          then (Responded (respond 403 [(''error'', JStr ''Conta desativada'')]), w1)
                          else (Next user, w1))))"

text \<open>The end of an entry's 60 seconds: Redis drops the key.\<close>

definition auth_expire :: "string \<Rightarrow> world \<Rightarrow> world" where
  "auth_expire token w = w\<lparr>authCache := (authCache w)(''auth:v1:'' @ token := None)\<rparr>"

section \<open>Identity provider administration (keycloak.admin.service.ts) and logout\<close>

text \<open>
  Each service function fetches an admin token and sends one request; \<open>ok c\<close> tells whether
  the whole call \<open>c\<close> goes through, and a call that does not throws.
\<close>

definition kc_request :: "(kc_call \<Rightarrow> bool) \<Rightarrow> kc_call \<Rightarrow> world \<Rightarrow> (exn + unit) \<times> world" where
  "kc_request ok c w =
     (if ok c then (Inr (), w\<lparr>keycloak := keycloak w @ [(c, True)]\<rparr>)
      else (Inl RequestFailed, w\<lparr>keycloak := keycloak w @ [(c, False)]\<rparr>))"

definition keycloakLogoutUser :: "(kc_call \<Rightarrow> bool) \<Rightarrow> string \<Rightarrow> world \<Rightarrow> (exn + unit) \<times> world" where
  "keycloakLogoutUser ok keycloakUserId = kc_request ok (KcLogoutUser keycloakUserId)"

definition keycloakDisableUser :: "(kc_call \<Rightarrow> bool) \<Rightarrow> string \<Rightarrow> world \<Rightarrow> (exn + unit) \<times> world" where
  "keycloakDisableUser ok keycloakUserId = kc_request ok (KcDisableUser keycloakUserId)"

definition keycloakEnableUser :: "(kc_call \<Rightarrow> bool) \<Rightarrow> string \<Rightarrow> world \<Rightarrow> (exn + unit) \<times> world" where
  "keycloakEnableUser ok keycloakUserId = kc_request ok (KcEnableUser keycloakUserId)"

definition keycloakResetPassword ::
    "(kc_call \<Rightarrow> bool) \<Rightarrow> string \<Rightarrow> string \<Rightarrow> world \<Rightarrow> (exn + unit) \<times> world" where
  "keycloakResetPassword ok keycloakUserId newPassword =
     kc_request ok (KcResetPassword keycloakUserId newPassword)"

definition keycloakDisableAndLogoutUser ::
    "(kc_call \<Rightarrow> bool) \<Rightarrow> string \<Rightarrow> world \<Rightarrow> (exn + unit) \<times> world" where
  "keycloakDisableAndLogoutUser ok keycloakUserId w =
     (let w1 = snd (keycloakLogoutUser ok keycloakUserId w)
      in case keycloakDisableUser ok keycloakUserId w1 of
           (Inl e, w2) \<Rightarrow> (Inl KEYCLOAK_DISABLE_FAILED, w2)
         | (Inr u, w2) \<Rightarrow> (Inr (), w2))"

definition logged_out :: response where
  "logged_out = respond 200 [(''message'', JStr ''Logged out successfully'')]"

text \<open>
  \<open>reqBody\<close> is \<^verbatim>\<open>req.body\<close>; destructuring a missing body throws inside the \<^verbatim>\<open>try\<close>, and so
  does a failed \<^verbatim>\<open>fetch\<close>.
\<close>

definition logout :: "(kc_call \<Rightarrow> bool) \<Rightarrow> jsobj option \<Rightarrow> world \<Rightarrow> response \<times> world" where
  "logout ok reqBody w =
     (case reqBody of
        None \<Rightarrow> (logged_out, w)
      | Some b \<Rightarrow>
          let refreshToken = get_prop b ''refreshToken''
          in if truthy refreshToken then
               (case kc_request ok (KcEndSession refreshToken) w of
                  (Inl e, w1) \<Rightarrow> (logged_out, w1)
                | (Inr u, w1) \<Rightarrow> (logged_out, w1))
             else (logged_out, w))"

section \<open>DELETE /api/users/me\<close>

definition delete_me :: "(kc_call \<Rightarrow> bool) \<Rightarrow> req_user \<Rightarrow> nat \<Rightarrow> world \<Rightarrow> (exn + response) \<times> world" where
  "delete_me ok ru now w =
     (let dbUser = findUnique (\<lambda>u. keycloakId u = ru_id ru) (users (db w));
          marked =
            (case dbUser of
               None \<Rightarrow> Inr w
             | Some u \<Rightarrow>
                 if deletedAt u = None then
                   (case prisma_update (\<lambda>u. keycloakId u = ru_id ru)
                           (\<lambda>u. u\<lparr>deletedAt := Some now\<rparr>) (users (db w)) of
                      Inl e \<Rightarrow> Inl e
                    | Inr (row, rows) \<Rightarrow> Inr (w\<lparr>db := (db w)\<lparr>users := rows\<rparr>\<rparr>))
                 else Inr w)
      in case marked of
           Inl e \<Rightarrow> (Inl e, w)
         | Inr w1 \<Rightarrow>
             (case keycloakDisableAndLogoutUser ok (ru_id ru) w1 of
                (Inl e, w2) \<Rightarrow> (Inl e, w2)
              | (Inr u, w2) \<Rightarrow> (Inr (respond 200 [(''message'', JStr ''Conta desativada'')]), w2)))"

section \<open>Password-reset and reactivation tokens\<close>

text \<open>
  A token is \<^verbatim>\<open><id>.<secret>\<close>. \<open>compare\<close> is \<^verbatim>\<open>bcrypt.compare\<close> (secret, stored hash), \<open>now\<close>
  the clock, and the row's \<^verbatim>\<open>user\<close> relation is looked up in the user table.
\<close>

definition token_user :: "database \<Rightarrow> token \<Rightarrow> user option" where
  "token_user d t = findUnique (\<lambda>u. user_id u = tok_userId t) (users d)"

definition confirmPasswordReset ::
    "(string \<Rightarrow> string \<Rightarrow> bool) \<Rightarrow> (kc_call \<Rightarrow> bool) \<Rightarrow> nat \<Rightarrow> string \<Rightarrow> string \<Rightarrow> world
      \<Rightarrow> (exn + unit) \<times> world" where
  "confirmPasswordReset compare ok now token newPassword w =
     (let parts = split_on CHR ''.'' token;
          id = elem parts 0;
          secret = elem parts 1
      in if \<not> truthy_str id \<or> \<not> truthy_str secret then (Inl INVALID_TOKEN, w)
         else
           (case findUnique (\<lambda>t. tok_id t = or_empty id) (passwordResetTokens (db w)) of
              None \<Rightarrow> (Inl INVALID_TOKEN, w)
            | Some record \<Rightarrow>
                if usedAt record \<noteq> None then (Inl INVALID_TOKEN, w)
                else if expiresAt record < now then (Inl INVALID_TOKEN, w)
                else
                  (case token_user (db w) record of
                     None \<Rightarrow> (Inl TypeError, w)
                   | Some user \<Rightarrow>
                       if deletedAt user \<noteq> None then (Inl INVALID_TOKEN, w)
                       else if \<not> compare (or_empty secret) (tokenHash record) then (Inl INVALID_TOKEN, w)
                       else
                         (case prisma_update (\<lambda>t. tok_id t = tok_id record)
                                 (\<lambda>t. t\<lparr>usedAt := Some now\<rparr>) (passwordResetTokens (db w)) of
                            Inl e \<Rightarrow> (Inl e, w)
                          | Inr (row, rows) \<Rightarrow>
                              keycloakResetPassword ok (keycloakId user) newPassword
                                (w\<lparr>db := (db w)\<lparr>passwordResetTokens := rows\<rparr>\<rparr>)))))"

text \<open>
  The transaction of \<^verbatim>\<open>confirmReactivation\<close>: mark the token used and clear the user's
  \<^verbatim>\<open>deletedAt\<close>, both or neither. \<open>commits\<close> tells whether the store commits it; \<open>None\<close> is
  the rejected transaction.
\<close>

definition reactivation_tx :: "bool \<Rightarrow> token \<Rightarrow> user \<Rightarrow> nat \<Rightarrow> database \<Rightarrow> database option" where
  "reactivation_tx commits rec u now d =
     (if \<not> commits then None
      else
        (case prisma_update (\<lambda>t. tok_id t = tok_id rec) (\<lambda>t. t\<lparr>usedAt := Some now\<rparr>)
                (accountReactivationTokens d) of
           Inl e \<Rightarrow> None
         | Inr (row, toks) \<Rightarrow>
             (case prisma_update (\<lambda>x. user_id x = user_id u) (\<lambda>x. x\<lparr>deletedAt := None\<rparr>) (users d) of
                Inl e \<Rightarrow> None
              | Inr (row', us) \<Rightarrow> Some (d\<lparr>accountReactivationTokens := toks, users := us\<rparr>))))"

text \<open>\<open>decode\<close> is \<^verbatim>\<open>decodeURIComponent\<close>, \<open>None\<close> where it throws on a malformed escape.\<close>

definition confirmReactivation ::
    "(string \<Rightarrow> string option) \<Rightarrow> (string \<Rightarrow> string \<Rightarrow> bool) \<Rightarrow> (kc_call \<Rightarrow> bool) \<Rightarrow> bool \<Rightarrow> nat
      \<Rightarrow> string \<Rightarrow> world \<Rightarrow> (exn + unit) \<times> world" where
  "confirmReactivation decode compare ok commits now token w =
     (case decode token of
        None \<Rightarrow> (Inl URIError, w)
      | Some decoded \<Rightarrow>
          let raw = trim decoded
          in (case indexOf CHR ''.'' raw of
                None \<Rightarrow> (Inl INVALID_TOKEN, w)
              | Some dot \<Rightarrow>
                  if dot = 0 then (Inl INVALID_TOKEN, w)
                  else
                    let id = take dot raw;
                        secret = drop (dot + 1) raw
                    in if id = [] \<or> secret = [] then (Inl INVALID_TOKEN, w)
                       else
                         (case findUnique (\<lambda>t. tok_id t = id) (accountReactivationTokens (db w)) of
                            None \<Rightarrow> (Inl INVALID_TOKEN, w)
                          | Some rec \<Rightarrow>
                              if usedAt rec \<noteq> None then (Inl INVALID_TOKEN, w)
                              else if expiresAt rec < now then (Inl INVALID_TOKEN, w)
                              else
                                (case token_user (db w) rec of
                                   None \<Rightarrow> (Inl TypeError, w)
                                 | Some u \<Rightarrow>
                                     if deletedAt u = None then (Inl INVALID_TOKEN, w)
                                     else if \<not> compare secret (tokenHash rec) then (Inl INVALID_TOKEN, w)
                                     else
                                       (case keycloakEnableUser ok (keycloakId u) w of
                                          (Inl e, w1) \<Rightarrow> (Inl e, w1)
                                        | (Inr x, w1) \<Rightarrow>
                                            (case reactivation_tx commits rec u now (db w1) of
                                               Some d' \<Rightarrow> (Inr (), w1\<lparr>db := d'\<rparr>)
                                             | None \<Rightarrow> keycloakDisableUser ok (keycloakId u) w1))))))"

section \<open>The credit invariant\<close>

text \<open>
  No user has a negative balance, no stored order promises a negative number of credits,
  and user ids are distinct (they are the primary keys the store generates).
\<close>

definition credits_inv :: "database \<Rightarrow> bool" where
  "credits_inv d =
     ((\<forall>u \<in> set (users d). 0 \<le> credits u) \<and>
      (\<forall>r \<in> set (orders d). case order_credits r of None \<Rightarrow> True | Some c \<Rightarrow> 0 \<le> c) \<and>
      distinct (map user_id (users d)))"

text \<open>The balance of the user with a given id, if there is one.\<close>

definition balance :: "world \<Rightarrow> string \<Rightarrow> int option" where
  "balance w uid = map_option credits (findUnique (\<lambda>u. user_id u = uid) (users (db w)))"

text \<open>Between two worlds the user rows are the same in number and identity, and no balance fell.\<close>

definition only_raised :: "world \<Rightarrow> world \<Rightarrow> bool" where
  "only_raised w w' =
     list_all2 (\<lambda>a b. user_id b = user_id a \<and> credits a \<le> credits b) (users (db w)) (users (db w'))"

section \<open>Sample data\<close>

definition user0 :: user where
  "user0 = \<lparr>user_id = ''usr1'', keycloakId = ''kc1'', email = ''ana@example.com'',
            user_name = Some ''Ana'', credits = 0, deletedAt = None, createdAt = 1000\<rparr>"

definition world_broke :: world where
  "world_broke = world_empty\<lparr>db := db_empty\<lparr>users := [user0]\<rparr>\<rparr>"

definition job0 :: job where
  "job0 = \<lparr>job_id = ''j1'', job_userId = ''u1'', job_imageUrl = ''aW1n'', job_style = ''neon''\<rparr>"

definition result0 :: jsobj where
  "result0 = [(''outputUrl'', JStr ''https://cdn/o.png''), (''error'', JUndefined)]"

text \<open>The relay after job \<open>j1\<close> is added, and after it is then reported completed.\<close>

definition pending0 :: jsobj where
  "pending0 = [(''status'', JStr ''pending''), (''id'', JStr ''j1''), (''userId'', JStr ''u1''),
               (''imageUrl'', JStr ''aW1n''), (''style'', JStr ''neon'')]"

definition redis_queued :: redis where
  "redis_queued =
     \<lparr>store = (\<lambda>k. if k = ''transformation:j1''
                       then Some (RString \<lparr>val = pending0, expire = Some 3600\<rparr>)
                     else if k = ''transformation:queue'' then Some (RList [job_obj job0])
                     else None),
      published = []\<rparr>"

definition completed0 :: jsobj where
  "completed0 = [(''status'', JStr ''completed''), (''id'', JStr ''j1''), (''userId'', JStr ''u1''),
                 (''imageUrl'', JStr ''aW1n''), (''style'', JStr ''neon''),
                 (''outputUrl'', JStr ''https://cdn/o.png'')]"

definition event0 :: jsobj where
  "event0 = [(''jobId'', JStr ''j1''), (''userId'', JStr ''u1''), (''status'', JStr ''completed''),
             (''outputUrl'', JStr ''https://cdn/o.png'')]"

definition redis1 :: redis where
  "redis1 =
     \<lparr>store = (\<lambda>k. if k = ''transformation:j1''
                       then Some (RString \<lparr>val = completed0, expire = Some 3600\<rparr>)
                     else if k = ''transformation:queue'' then Some (RList [job_obj job0])
                     else None),
      published = [(''transformation:complete'', event0)]\<rparr>"

definition ru0 :: req_user where
  "ru0 = \<lparr>ru_id = ''kc1'', ru_email = ''ana@example.com'', ru_name = ''Ana'', ru_roles = [''user''],
           ru_isAdmin = False\<rparr>"

definition world_new :: world where
  "world_new = snd (get_me ru0 ''usr1'' 1000 world_empty)"

definition req0 :: start_req where
  "req0 = \<lparr>sr_file = Some ''aW1n'', sr_style = JStr ''neon'', sr_user = ''kc1''\<rparr>"

definition world_ordered :: world where
  "world_ordered =
     snd (purchase_credits (JStr ''small'') (JStr ''PT'') ''kc1'' ''ord1''
            (Some (''cs_test_1'', ''https://checkout.example/cs_test_1'')) world_new)"

definition stripe_ok :: "string \<Rightarrow> string option \<Rightarrow> stripe_event option" where
  "stripe_ok raw sig =
     (if sig = Some ''t=1,v1=5257'' then Some (CheckoutSessionCompleted (Some raw)) else None)"

definition asaas_paid :: asaas_req where
  "asaas_paid = \<lparr>aq_event = Some ''PAYMENT_CONFIRMED'', aq_payment = Some (Some ''ord1''),
                 aq_subscription = None, aq_token = Some ''whk''\<rparr>"

definition hmac0 :: "string \<Rightarrow> n8n_body \<Rightarrow> string" where
  "hmac0 secret b = ''9f2c''"

definition n8n_done :: n8n_body where
  "n8n_done = \<lparr>nb_jobId = JStr ''j1'', nb_status = JStr ''success'',
               nb_outputUrl = JStr ''https://cdn/o.png'', nb_error = JUndefined\<rparr>"

definition kc_ok :: "kc_call \<Rightarrow> bool" where
  "kc_ok c = True"

definition introspect0 :: "string \<Rightarrow> introspection option" where
  "introspect0 token =
     Some \<lparr>active = (token = ''tok1''), sub = Some ''kc1'', i_email = Some ''ana@example.com'',
           preferred_username = Some ''ana'', i_name = Some ''Ana'', realm_roles = Some [''user''],
           client_roles = None\<rparr>"

definition world_deleted :: world where
  "world_deleted = snd (delete_me kc_ok ru0 2000 world_new)"

text \<open>A first authenticated request, then the account's own deletion.\<close>

definition world_seen :: world where
  "world_seen = snd (keycloakMiddleware introspect0 (Some ''Bearer tok1'') world_new)"

definition world_seen_deleted :: world where
  "world_seen_deleted = snd (delete_me kc_ok ru0 2000 world_seen)"

definition kc_down :: "kc_call \<Rightarrow> bool" where
  "kc_down c = False"

fun kc_only_disable :: "kc_call \<Rightarrow> bool" where
  "kc_only_disable (KcDisableUser uid) = True"
| "kc_only_disable c = False"

text \<open>A soft-deleted account holding one unused reactivation token and one reset token.\<close>

definition token0 :: token where
  "token0 = \<lparr>tok_id = ''rt1'', tok_userId = ''usr1'', tokenHash = ''$2a$12$hash'',
             expiresAt = 9000, usedAt = None\<rparr>"

definition world_token :: world where
  "world_token = world_deleted\<lparr>db := (db world_deleted)\<lparr>accountReactivationTokens := [token0]\<rparr>\<rparr>"

definition world_reset :: world where
  "world_reset = world_new\<lparr>db := (db world_new)\<lparr>passwordResetTokens := [token0]\<rparr>\<rparr>"

definition compare0 :: "string \<Rightarrow> string \<Rightarrow> bool" where
  "compare0 secret hash = (secret = ''5ec2e7'' \<and> hash = ''$2a$12$hash'')"

definition decode0 :: "string \<Rightarrow> string option" where
  "decode0 s = (if CHR ''%'' \<in> set s then None else Some s)"

text \<open>
  A user with one credit and no subscription, and the local variables of two start requests
  of that user that have both passed the guards.
\<close>

definition user1 :: user where
  "user1 = user0\<lparr>credits := 1\<rparr>"

definition world_one :: world where
  "world_one = world_empty\<lparr>db := db_empty\<lparr>users := [user1]\<rparr>\<rparr>"

definition ctx_a :: start_ctx where
  "ctx_a = \<lparr>sc_jobId = ''j1'', sc_keycloakId = ''kc1'', sc_user = user1, sc_style = ''neon'',
            sc_image = ''aW1n'', sc_hasSub = False, sc_hasCredits = True\<rparr>"

definition ctx_b :: start_ctx where
  "ctx_b = ctx_a\<lparr>sc_jobId := ''j2''\<rparr>"

text \<open>The world after the first of them has run to its answer, and after the second has.\<close>

definition tr_a :: transformation where
  "tr_a = \<lparr>tr_id = ''j1'', tr_userId = ''usr1'', tr_style = ''neon'', tr_status = ''pending'',
           inputImageData = ''aW1n'', outputImageUrl = None, errorMessage = None,
           completedAt = None\<rparr>"

definition job_a :: jsobj where
  "job_a = [(''id'', JStr ''j1''), (''userId'', JStr ''kc1''), (''imageUrl'', JStr ''aW1n''),
            (''style'', JStr ''neon'')]"

definition job_b :: jsobj where
  "job_b = [(''id'', JStr ''j2''), (''userId'', JStr ''kc1''), (''imageUrl'', JStr ''aW1n''),
            (''style'', JStr ''neon'')]"

definition world_a :: world where
  "world_a =
     \<lparr>db = db_empty\<lparr>users := [user1\<lparr>credits := 0\<rparr>], transformations := [tr_a]\<rparr>,
      redis = \<lparr>store = (\<lambda>k. if k = ''transformation:j1''
                                then Some (RString \<lparr>val = (''status'', JStr ''pending'') # job_a,
                                                     expire = Some 3600\<rparr>)
                              else if k = ''transformation:queue'' then Some (RList [job_a])
                              else None),
               published = []\<rparr>,
      authCache = (\<lambda>k. None), n8n = [''j1''], keycloak = []\<rparr>"

definition world_ab :: world where
  "world_ab =
     \<lparr>db = db_empty\<lparr>users := [user1\<lparr>credits := - 1\<rparr>],
                     transformations := [tr_a, tr_a\<lparr>tr_id := ''j2''\<rparr>]\<rparr>,
      redis = \<lparr>store = (\<lambda>k. if k = ''transformation:j2''
                                then Some (RString \<lparr>val = (''status'', JStr ''pending'') # job_b,
                                                     expire = Some 3600\<rparr>)
                              else if k = ''transformation:j1''
                                then Some (RString \<lparr>val = (''status'', JStr ''pending'') # job_a,
                                                     expire = Some 3600\<rparr>)
                              else if k = ''transformation:queue'' then Some (RList [job_b, job_a])
                              else None),
               published = []\<rparr>,
      authCache = (\<lambda>k. None), n8n = [''j1'', ''j2''], keycloak = []\<rparr>"

text \<open>
  A purchase in Brazil, which goes through Asaas, and the delivery Asaas sends once it is
  paid: the JSON text as the bytes of the request body, and the object that text denotes.
\<close>

definition world_asaas :: world where
  "world_asaas =
     snd (purchase_credits (JStr ''small'') (JStr ''BR'') ''kc1'' ''ord2''
            (Some (''pay_1'', ''https://asaas.example/i/pay_1'')) world_new)"

definition quoted :: "string \<Rightarrow> string" where
  "quoted s = CHR 0x22 # s @ [CHR 0x22]"

definition asaas_delivery :: string where
  "asaas_delivery =
     ''{'' @ quoted ''event'' @ '':'' @ quoted ''PAYMENT_CONFIRMED'' @ '','' @ quoted ''payment'' @
     '':{'' @ quoted ''externalReference'' @ '':'' @ quoted ''ord2'' @ ''}}''"

definition asaas_confirmed :: asaas_req where
  "asaas_confirmed = \<lparr>aq_event = Some ''PAYMENT_CONFIRMED'', aq_payment = Some (Some ''ord2''),
                      aq_subscription = None, aq_token = Some ''whk''\<rparr>"


section \<open>Properties of the job status relay\<close>

lemma map_of_obj_set: "map_of (obj_set k v a) = (map_of a)(k \<mapsto> v)"
  by (induction a) (auto simp: fun_eq_iff)

lemma keys_obj_set: "fst ` set (obj_set k v a) = insert k (fst ` set a)"
  by (induction k v a rule: obj_set.induct) (simp_all add: insert_commute)

lemma distinct_obj_set: "distinct (map fst a) \<Longrightarrow> distinct (map fst (obj_set k v a))"
  by (induction k v a rule: obj_set.induct) (auto simp: keys_obj_set)

lemma distinct_spread: "distinct (map fst a) \<Longrightarrow> distinct (map fst (spread a b))"
  by (induction a b rule: spread.induct) (auto simp: distinct_obj_set)

lemma map_of_spread: "map_of (spread a b) = map_of a ++ map_of (rev b)"
proof (induction a b rule: spread.induct)
  case (1 a)
  then show ?case by simp
next
  case (2 a k v b)
  show ?case
    by (simp add: 2 map_of_obj_set fun_eq_iff map_add_def split: option.splits)
qed

lemma map_of_json: "distinct (map fst obj) \<Longrightarrow> map_of (json obj) = drop_undefined (map_of obj)"
proof (induction obj)
  case Nil
  then show ?case by (simp add: json_def drop_undefined_def)
next
  case (Cons p obj)
  obtain k v where p: "p = (k, v)" by (cases p)
  from Cons.prems p have fresh: "map_of obj k = None"
    by (simp add: map_of_eq_None_iff)
  from Cons.prems have ih: "map_of (json obj) = drop_undefined (map_of obj)"
    using Cons.IH by simp
  have none: "map_of (json obj) k = None"
    by (simp add: ih drop_undefined_def fresh)
  show ?case
  proof (cases "v = JUndefined")
    case True
    have "json (p # obj) = json obj" by (simp add: json_def p True)
    then show ?thesis
      using none by (auto simp: ih p True drop_undefined_def fun_eq_iff)
  next
    case False
    have "json (p # obj) = p # json obj" by (simp add: json_def p False)
    then show ?thesis
      using False by (auto simp: ih p drop_undefined_def fun_eq_iff split: jsval.splits)
  qed
qed

lemma merged_lookup:
  "map_of (json (merged_record existing st res)) =
     drop_undefined (map_of (rev existing) ++ [''status'' \<mapsto> JStr (status_str st)] ++ map_of (rev (result_obj res)))"
  by (simp add: merged_record_def map_of_json distinct_spread distinct_obj_set map_of_spread map_of_obj_set)

lemma json_job_obj: "json (job_obj j) = job_obj j"
  by (simp add: json_def job_obj_def)

text \<open>
  The key \<^verbatim>\<open>transformation:queue\<close> holds the job list. It can come to hold a string only
  through a job whose id is \<^verbatim>\<open>queue\<close>; the route handler draws the ids with \<^verbatim>\<open>uuidv4()\<close>.
  From the empty server on, adding jobs with other ids and reporting the status of any
  job never puts a string there.
\<close>

lemma queue_ok_empty: "queue_ok redis_empty"
  by (simp add: queue_ok_def redis_empty_def)

lemma queue_ok_add:
  assumes "queue_ok r" and "job_id j \<noteq> ''queue''" and "addTransformationJob j r = Inr r'"
  shows "queue_ok r'"
  using assms
  by (auto simp: queue_ok_def addTransformationJob_def lpush_def setCache_def job_key_def
      split: option.splits rvalue.splits)

lemma queue_ok_update:
  assumes "queue_ok r" and "updateTransformationStatus jobId st res r = Inr r'"
  shows "queue_ok r'"
proof (cases "jobId = ''queue''")
  case True
  with assms show ?thesis
    by (auto simp: queue_ok_def updateTransformationStatus_def getCache_def job_key_def
        split: option.splits rvalue.splits)
next
  case False
  with assms show ?thesis
    by (auto simp: queue_ok_def updateTransformationStatus_def getCache_def setCache_def
        publishEvent_def job_key_def split: option.splits rvalue.splits)
qed

text \<open>With a string under the list key, \<^verbatim>\<open>LPUSH\<close> is refused and nothing is stored.\<close>

lemma addTransformationJob_refused:
  "\<not> queue_ok r \<Longrightarrow> addTransformationJob j r = Inl WRONGTYPE"
  by (auto simp: queue_ok_def addTransformationJob_def lpush_def split: option.splits rvalue.splits)

lemma addTransformationJob_Inr:
  assumes "queue_ok r"
  shows "addTransformationJob j r =
           Inr (setCache (''transformation:'' @ job_id j)
                  (spread [(''status'', JStr ''pending'')] (job_obj j)) (Some 3600)
                  (r\<lparr>store := (store r)(''transformation:queue'' \<mapsto>
                       RList (job_obj j # queued r))\<rparr>))"
  using assms
  by (auto simp: queue_ok_def queued_def addTransformationJob_def lpush_def job_key_def
      json_job_obj split: option.splits rvalue.splits)

text \<open>
  C7. When the list key is in order (see above), \<^verbatim>\<open>addTransformationJob\<close> succeeds and
  stores exactly one status record: under the key \<^verbatim>\<open>transformation:<id>\<close>, with status
  \<^verbatim>\<open>pending\<close> in front of the job's own fields and an expiry of 3600 seconds. Every other
  key keeps what it held, except the list key, which gets the job in front; no other key
  gains, loses or changes a string, and nothing is published. Whenever
  \<^verbatim>\<open>updateTransformationStatus\<close> finds a cached record, it succeeds and the entry it writes
  carries the same 3600-second expiry.
\<close>

theorem addTransformationJob_pending_expiry:
  "(queue_ok r \<longrightarrow>
      (\<exists>r'. addTransformationJob j r = Inr r'
         \<and> store r' (''transformation:'' @ job_id j) =
             Some (RString \<lparr>val = (''status'', JStr ''pending'') # job_obj j, expire = Some 3600\<rparr>)
         \<and> (\<forall>k. k \<noteq> ''transformation:'' @ job_id j \<and> k \<noteq> ''transformation:queue'' \<longrightarrow>
                store r' k = store r k)
         \<and> (\<forall>k e. k \<noteq> ''transformation:'' @ job_id j \<longrightarrow>
                (store r' k = Some (RString e)) = (store r k = Some (RString e)))
         \<and> (job_id j \<noteq> ''queue'' \<longrightarrow>
                store r' ''transformation:queue'' = Some (RList (job_obj j # queued r)))
         \<and> published r' = published r))
   \<and> (\<forall>jobId st res existing.
         getCache (''transformation:'' @ jobId) r = Inr (Some existing) \<longrightarrow>
         (\<exists>r'. updateTransformationStatus jobId st res r = Inr r'
            \<and> store r' (''transformation:'' @ jobId) =
                Some (RString \<lparr>val = json (merged_record existing st res), expire = Some 3600\<rparr>)))"
proof (intro conjI impI allI)
  assume ok: "queue_ok r"
  let ?r' = "setCache (''transformation:'' @ job_id j)
               (spread [(''status'', JStr ''pending'')] (job_obj j)) (Some 3600)
               (r\<lparr>store := (store r)(''transformation:queue'' \<mapsto> RList (job_obj j # queued r))\<rparr>)"
  have a: "addTransformationJob j r = Inr ?r'"
    by (rule addTransformationJob_Inr [OF ok])
  have b: "store ?r' (''transformation:'' @ job_id j) =
             Some (RString \<lparr>val = (''status'', JStr ''pending'') # job_obj j, expire = Some 3600\<rparr>)"
    by (simp add: setCache_def job_obj_def json_def)
  have c: "\<forall>k. k \<noteq> ''transformation:'' @ job_id j \<and> k \<noteq> ''transformation:queue'' \<longrightarrow>
                store ?r' k = store r k"
    by (simp add: setCache_def)
  have d: "\<forall>k e. k \<noteq> ''transformation:'' @ job_id j \<longrightarrow>
                (store ?r' k = Some (RString e)) = (store r k = Some (RString e))"
    using ok by (auto simp: setCache_def queue_ok_def split: option.splits rvalue.splits)
  have e: "job_id j \<noteq> ''queue'' \<longrightarrow>
             store ?r' ''transformation:queue'' = Some (RList (job_obj j # queued r))"
    by (simp add: setCache_def)
  have f: "published ?r' = published r"
    by (simp add: setCache_def)
  from a b c d e f
  show "\<exists>r'. addTransformationJob j r = Inr r'
         \<and> store r' (''transformation:'' @ job_id j) =
             Some (RString \<lparr>val = (''status'', JStr ''pending'') # job_obj j, expire = Some 3600\<rparr>)
         \<and> (\<forall>k. k \<noteq> ''transformation:'' @ job_id j \<and> k \<noteq> ''transformation:queue'' \<longrightarrow>
                store r' k = store r k)
         \<and> (\<forall>k e. k \<noteq> ''transformation:'' @ job_id j \<longrightarrow>
                (store r' k = Some (RString e)) = (store r k = Some (RString e)))
         \<and> (job_id j \<noteq> ''queue'' \<longrightarrow>
                store r' ''transformation:queue'' = Some (RList (job_obj j # queued r)))
         \<and> published r' = published r"
    by blast
next
  fix jobId st res existing
  assume "getCache (''transformation:'' @ jobId) r = Inr (Some existing)"
  then show "\<exists>r'. updateTransformationStatus jobId st res r = Inr r'
            \<and> store r' (''transformation:'' @ jobId) =
                Some (RString \<lparr>val = json (merged_record existing st res), expire = Some 3600\<rparr>)"
    by (simp add: updateTransformationStatus_def job_key_def setCache_def publishEvent_def)
qed

lemma add_job0: "addTransformationJob job0 redis_empty = Inr redis_queued"
  by (simp add: addTransformationJob_def lpush_def setCache_def job_key_def job0_def job_obj_def
      json_def redis_empty_def redis_queued_def pending0_def fun_eq_iff)

lemma get_queued: "getCache (''transformation:'' @ ''j1'') redis_queued = Inr (Some pending0)"
  by (simp add: getCache_def redis_queued_def)

lemma merged0: "json (merged_record pending0 Completed (Some result0)) = completed0"
  by (simp add: merged_record_def result_obj_def result0_def json_def pending0_def completed0_def)

lemma event0_json: "json (status_event ''j1'' pending0 Completed (Some result0)) = event0"
  by (simp add: status_event_def result_obj_def result0_def json_def get_prop_def pending0_def
      event0_def)

lemma update_queued:
  "updateTransformationStatus ''j1'' Completed (Some result0) redis_queued = Inr redis1"
proof -
  have "updateTransformationStatus ''j1'' Completed (Some result0) redis_queued =
          Inr (publishEvent ''transformation:complete''
                 (status_event ''j1'' pending0 Completed (Some result0))
                 (setCache ''transformation:j1'' (merged_record pending0 Completed (Some result0))
                    (Some 3600) redis_queued))"
    using get_queued by (simp add: updateTransformationStatus_def job_key_def)
  also have "\<dots> = Inr redis1"
    by (simp add: publishEvent_def setCache_def merged0 event0_json redis_queued_def redis1_def
        fun_eq_iff)
  finally show ?thesis .
qed

theorem addTransformationJob_pending_expiry_witness:
  "queue_ok redis_empty
   \<and> addTransformationJob job0 redis_empty = Inr redis_queued
   \<and> store redis_queued ''transformation:j1'' =
       Some (RString \<lparr>val = [(''status'', JStr ''pending''), (''id'', JStr ''j1''),
                             (''userId'', JStr ''u1''), (''imageUrl'', JStr ''aW1n''),
                             (''style'', JStr ''neon'')], expire = Some 3600\<rparr>)
   \<and> getCache ''transformation:j1'' redis_queued = Inr (Some pending0)
   \<and> updateTransformationStatus ''j1'' Completed (Some result0) redis_queued = Inr redis1
   \<and> store redis1 ''transformation:j1'' =
       Some (RString \<lparr>val = [(''status'', JStr ''completed''), (''id'', JStr ''j1''),
                             (''userId'', JStr ''u1''), (''imageUrl'', JStr ''aW1n''),
                             (''style'', JStr ''neon''), (''outputUrl'', JStr ''https://cdn/o.png'')],
                      expire = Some 3600\<rparr>)"
proof -
  from addTransformationJob_pending_expiry [of redis_empty job0] queue_ok_empty
  obtain r' where r': "addTransformationJob job0 redis_empty = Inr r'"
    and s: "store r' (''transformation:'' @ job_id job0) =
             Some (RString \<lparr>val = (''status'', JStr ''pending'') # job_obj job0, expire = Some 3600\<rparr>)"
    by blast
  from r' add_job0 have eq: "r' = redis_queued" by simp
  have one: "store redis_queued ''transformation:j1'' =
       Some (RString \<lparr>val = [(''status'', JStr ''pending''), (''id'', JStr ''j1''),
                             (''userId'', JStr ''u1''), (''imageUrl'', JStr ''aW1n''),
                             (''style'', JStr ''neon'')], expire = Some 3600\<rparr>)"
    using s unfolding eq by (simp add: job0_def job_obj_def)
  from addTransformationJob_pending_expiry [of redis_queued job0] get_queued
  obtain r2 where r2: "updateTransformationStatus ''j1'' Completed (Some result0) redis_queued = Inr r2"
    and s2: "store r2 (''transformation:'' @ ''j1'') =
               Some (RString \<lparr>val = json (merged_record pending0 Completed (Some result0)),
                              expire = Some 3600\<rparr>)"
    by blast
  from r2 update_queued have eq2: "r2 = redis1" by simp
  have two: "store redis1 ''transformation:j1'' =
       Some (RString \<lparr>val = [(''status'', JStr ''completed''), (''id'', JStr ''j1''),
                             (''userId'', JStr ''u1''), (''imageUrl'', JStr ''aW1n''),
                             (''style'', JStr ''neon''), (''outputUrl'', JStr ''https://cdn/o.png'')],
                      expire = Some 3600\<rparr>)"
    using s2 unfolding eq2 by (simp add: merged0 completed0_def)
  from get_queued have g: "getCache ''transformation:j1'' redis_queued = Inr (Some pending0)"
    by simp
  show ?thesis
    using queue_ok_empty add_job0 one g update_queued two by blast
qed

lemma map_of_status_event:
  "map_of (json (status_event jobId existing st res)) =
     drop_undefined ([''jobId'' \<mapsto> JStr jobId, ''userId'' \<mapsto> get_prop existing ''userId'',
                      ''status'' \<mapsto> JStr (status_str st)] ++ map_of (rev (result_obj res)))"
proof -
  have "map_of [(''jobId'', JStr jobId), (''userId'', get_prop existing ''userId''),
                (''status'', JStr (status_str st))] =
        [''jobId'' \<mapsto> JStr jobId, ''userId'' \<mapsto> get_prop existing ''userId'',
         ''status'' \<mapsto> JStr (status_str st)]"
    by (auto simp: fun_eq_iff)
  then show ?thesis
    by (simp add: status_event_def map_of_json distinct_spread map_of_spread)
qed

text \<open>
  A key that holds a list answers \<^verbatim>\<open>GET\<close> with an error, which both functions let through.
  That is the case of the job id \<^verbatim>\<open>queue\<close> once a job has been added, and the status route
  passes any id of the URL on.
\<close>

lemma relay_list_key_refused:
  assumes "store r (''transformation:'' @ jobId) = Some (RList xs)"
  shows "getTransformationStatus jobId r = Inl WRONGTYPE"
    and "updateTransformationStatus jobId st res r = Inl WRONGTYPE"
  using assms
  by (simp_all add: getTransformationStatus_def updateTransformationStatus_def getCache_def
      job_key_def)

lemma status_of_queue_refused: "getTransformationStatus ''queue'' redis_queued = Inl WRONGTYPE"
  by (simp add: getTransformationStatus_def getCache_def job_key_def redis_queued_def)

text \<open>
  C1 (as amended). When a record is cached for the job id, \<^verbatim>\<open>updateTransformationStatus\<close>
  rewrites the entry with the merge of the cached record, the new status and the result
  fields, later fields overwriting earlier ones and \<^verbatim>\<open>undefined\<close> fields dropping out, and it
  publishes on \<^verbatim>\<open>transformation:complete\<close> an event made of the job id, the cached record's
  \<^verbatim>\<open>userId\<close>, the new status and the result fields; no other key changes. When the key holds
  nothing it changes nothing: no write, no publication. \<^verbatim>\<open>getTransformationStatus\<close> returns
  the record when the key holds one, and \<open>None\<close> (the \<^verbatim>\<open>null\<close> sentinel) when the key holds
  nothing.
\<close>

theorem updateTransformationStatus_merge_and_event:
  "(\<forall>existing. getCache (''transformation:'' @ jobId) r = Inr (Some existing) \<longrightarrow>
      (\<exists>r'. updateTransformationStatus jobId st res r = Inr r'
         \<and> getTransformationStatus jobId r' = Inr (Some (json (merged_record existing st res)))
         \<and> (\<forall>k. k \<noteq> ''transformation:'' @ jobId \<longrightarrow> store r' k = store r k)
         \<and> published r' =
             published r @ [(''transformation:complete'', json (status_event jobId existing st res))])
      \<and> map_of (json (merged_record existing st res)) =
          drop_undefined (map_of (rev existing) ++ [''status'' \<mapsto> JStr (status_str st)]
                          ++ map_of (rev (result_obj res)))
      \<and> map_of (json (status_event jobId existing st res)) =
          drop_undefined ([''jobId'' \<mapsto> JStr jobId, ''userId'' \<mapsto> get_prop existing ''userId'',
                           ''status'' \<mapsto> JStr (status_str st)] ++ map_of (rev (result_obj res))))
   \<and> (store r (''transformation:'' @ jobId) = None \<longrightarrow>
        updateTransformationStatus jobId st res r = Inr r
        \<and> getTransformationStatus jobId r = Inr None)
   \<and> (\<forall>e. store r (''transformation:'' @ jobId) = Some (RString e) \<longrightarrow>
        getCache (''transformation:'' @ jobId) r = Inr (Some (val e))
        \<and> getTransformationStatus jobId r = Inr (Some (val e)))"
proof (intro conjI allI impI)
  fix existing
  assume ex: "getCache (''transformation:'' @ jobId) r = Inr (Some existing)"
  let ?r' = "publishEvent ''transformation:complete'' (status_event jobId existing st res)
               (setCache (''transformation:'' @ jobId) (merged_record existing st res) (Some 3600) r)"
  have a: "updateTransformationStatus jobId st res r = Inr ?r'"
    using ex by (simp add: updateTransformationStatus_def job_key_def)
  have b: "getTransformationStatus jobId ?r' = Inr (Some (json (merged_record existing st res)))"
    by (simp add: getTransformationStatus_def job_key_def getCache_def setCache_def publishEvent_def)
  have c: "\<forall>k. k \<noteq> ''transformation:'' @ jobId \<longrightarrow> store ?r' k = store r k"
    by (simp add: setCache_def publishEvent_def)
  have d: "published ?r' =
             published r @ [(''transformation:complete'', json (status_event jobId existing st res))]"
    by (simp add: setCache_def publishEvent_def)
  from a b c d
  show "\<exists>r'. updateTransformationStatus jobId st res r = Inr r'
         \<and> getTransformationStatus jobId r' = Inr (Some (json (merged_record existing st res)))
         \<and> (\<forall>k. k \<noteq> ''transformation:'' @ jobId \<longrightarrow> store r' k = store r k)
         \<and> published r' =
             published r @ [(''transformation:complete'', json (status_event jobId existing st res))]"
    by blast
  show "map_of (json (merged_record existing st res)) =
          drop_undefined (map_of (rev existing) ++ [''status'' \<mapsto> JStr (status_str st)]
                          ++ map_of (rev (result_obj res)))"
    by (rule merged_lookup)
  show "map_of (json (status_event jobId existing st res)) =
          drop_undefined ([''jobId'' \<mapsto> JStr jobId, ''userId'' \<mapsto> get_prop existing ''userId'',
                           ''status'' \<mapsto> JStr (status_str st)] ++ map_of (rev (result_obj res)))"
    by (rule map_of_status_event)
next
  assume n: "store r (''transformation:'' @ jobId) = None"
  then show "updateTransformationStatus jobId st res r = Inr r"
    by (simp add: updateTransformationStatus_def getCache_def job_key_def)
  from n show "getTransformationStatus jobId r = Inr None"
    by (simp add: getTransformationStatus_def getCache_def job_key_def)
next
  fix e
  assume s: "store r (''transformation:'' @ jobId) = Some (RString e)"
  then show "getCache (''transformation:'' @ jobId) r = Inr (Some (val e))"
    by (simp add: getCache_def)
  from s show "getTransformationStatus jobId r = Inr (Some (val e))"
    by (simp add: getTransformationStatus_def getCache_def job_key_def)
qed

theorem updateTransformationStatus_merge_and_event_witness:
  "getCache (''transformation:'' @ ''j1'') redis_queued = Inr (Some pending0)
   \<and> updateTransformationStatus ''j1'' Completed (Some result0) redis_queued = Inr redis1
   \<and> getTransformationStatus ''j1'' redis1 =
       Inr (Some [(''status'', JStr ''completed''), (''id'', JStr ''j1''), (''userId'', JStr ''u1''),
                  (''imageUrl'', JStr ''aW1n''), (''style'', JStr ''neon''),
                  (''outputUrl'', JStr ''https://cdn/o.png'')])
   \<and> published redis1 =
       [(''transformation:complete'',
         [(''jobId'', JStr ''j1''), (''userId'', JStr ''u1''), (''status'', JStr ''completed''),
          (''outputUrl'', JStr ''https://cdn/o.png'')])]
   \<and> store redis_empty (''transformation:'' @ ''j2'') = None
   \<and> updateTransformationStatus ''j2'' Failed None redis_empty = Inr redis_empty
   \<and> getTransformationStatus ''j2'' redis_empty = Inr None"
proof -
  from updateTransformationStatus_merge_and_event [of "''j1''" redis_queued Completed "Some result0"]
    get_queued
  obtain r' where u: "updateTransformationStatus ''j1'' Completed (Some result0) redis_queued = Inr r'"
    and g: "getTransformationStatus ''j1'' r' =
              Inr (Some (json (merged_record pending0 Completed (Some result0))))"
    and p: "published r' = published redis_queued @
              [(''transformation:complete'', json (status_event ''j1'' pending0 Completed (Some result0)))]"
    by blast
  from u update_queued have eq: "r' = redis1" by simp
  have g1: "getTransformationStatus ''j1'' redis1 =
       Inr (Some [(''status'', JStr ''completed''), (''id'', JStr ''j1''), (''userId'', JStr ''u1''),
                  (''imageUrl'', JStr ''aW1n''), (''style'', JStr ''neon''),
                  (''outputUrl'', JStr ''https://cdn/o.png'')])"
    using g unfolding eq by (simp add: merged0 completed0_def)
  have p1: "published redis1 =
       [(''transformation:complete'',
         [(''jobId'', JStr ''j1''), (''userId'', JStr ''u1''), (''status'', JStr ''completed''),
          (''outputUrl'', JStr ''https://cdn/o.png'')])]"
    using p unfolding eq by (simp add: event0_json event0_def redis_queued_def)
  have miss: "store redis_empty (''transformation:'' @ ''j2'') = None"
    by (simp add: redis_empty_def)
  from updateTransformationStatus_merge_and_event [of "''j2''" redis_empty Failed None] miss
  have m: "updateTransformationStatus ''j2'' Failed None redis_empty = Inr redis_empty"
    and m2: "getTransformationStatus ''j2'' redis_empty = Inr None"
    by blast+
  show ?thesis
    using get_queued update_queued g1 p1 miss m m2 by blast
qed

text \<open>
  C1 as stated fails: the published event is not the merged record. After a job is added
  and completed, the event carries \<^verbatim>\<open>jobId\<close> and lacks \<^verbatim>\<open>id\<close>, \<^verbatim>\<open>imageUrl\<close> and \<^verbatim>\<open>style\<close>.
\<close>

theorem published_event_is_not_merged_record_counterexample:
  "addTransformationJob job0 redis_empty = Inr redis_queued
   \<and> updateTransformationStatus ''j1'' Completed (Some result0) redis_queued = Inr redis1
   \<and> published redis1 =
       [(''transformation:complete'',
         [(''jobId'', JStr ''j1''), (''userId'', JStr ''u1''), (''status'', JStr ''completed''),
          (''outputUrl'', JStr ''https://cdn/o.png'')])]
   \<and> getTransformationStatus ''j1'' redis1 =
       Inr (Some [(''status'', JStr ''completed''), (''id'', JStr ''j1''), (''userId'', JStr ''u1''),
                  (''imageUrl'', JStr ''aW1n''), (''style'', JStr ''neon''),
                  (''outputUrl'', JStr ''https://cdn/o.png'')])
   \<and> map (\<lambda>p. Inr (Some (snd p))) (published redis1) \<noteq> [getTransformationStatus ''j1'' redis1]"
  using add_job0 update_queued
  by (simp add: redis1_def getTransformationStatus_def getCache_def job_key_def completed0_def
      event0_def)

section \<open>Properties of POST /api/transform/start\<close>

lemma status_respond [simp]: "status (respond c b) = c"
  by (simp add: respond_def)

text \<open>
  C3 (as amended). The handler answers 402 exactly when the request carries an image file
  and a valid style and the requesting user exists with neither an active subscription
  nor a positive balance. The 402 answer has code \<^verbatim>\<open>NO_CREDITS\<close> and leaves the whole world
  as it was: no transformation row, no queued job, no change of balance.
\<close>

theorem transform_start_402_iff:
  "(status (fst (transform_start req jobId w)) = 402 \<longleftrightarrow>
      sr_file req \<noteq> None \<and> parse_style (sr_style req) \<noteq> None \<and>
      (\<exists>u. findUnique (\<lambda>u. keycloakId u = sr_user req) (users (db w)) = Some u \<and>
           \<not> hasActiveSubscription (db w) u \<and> \<not> 0 < credits u))
   \<and> (status (fst (transform_start req jobId w)) = 402 \<longrightarrow>
        transform_start req jobId w = (respond 402 no_credits_body, w) \<and>
        get_prop (body (fst (transform_start req jobId w))) ''code'' = JStr ''NO_CREDITS'')"
proof -
  have rest: "status (fst (start_rest c w)) \<noteq> 402" for c
    by (auto simp: start_rest_def start_create_def start_enqueue_def start_deduct_def
        start_failed_def Let_def split: sum.splits prod.splits option.splits)
  show ?thesis
    using rest
    by (auto simp: transform_start_def start_check_def Let_def respond_def no_credits_body_def
        json_def get_prop_def split: option.splits sum.splits if_splits)
qed

theorem transform_start_402_iff_witness:
  "transform_start \<lparr>sr_file = Some ''aW1n'', sr_style = JStr ''neon'', sr_user = ''kc1''\<rparr> ''j1'' world_broke =
     (\<lparr>status = 402,
       body = [(''error'', JStr ''No credits available''), (''code'', JStr ''NO_CREDITS''),
               (''message'', JStr ''Please purchase credits or subscribe to continue'')]\<rparr>,
      world_broke)"
proof -
  let ?req = "\<lparr>sr_file = Some ''aW1n'', sr_style = JStr ''neon'', sr_user = ''kc1''\<rparr>"
  have u: "findUnique (\<lambda>u. keycloakId u = sr_user ?req) (users (db world_broke)) = Some user0"
    by (simp add: findUnique_def world_broke_def world_empty_def db_empty_def user0_def)
  have s: "\<not> hasActiveSubscription (db world_broke) user0"
    by (simp add: hasActiveSubscription_def findUnique_def world_broke_def world_empty_def db_empty_def)
  have c: "\<not> 0 < credits user0" by (simp add: user0_def)
  have p: "parse_style (sr_style ?req) \<noteq> None" by (simp add: styles_def)
  have "status (fst (transform_start ?req ''j1'' world_broke)) = 402"
    using transform_start_402_iff [of ?req "''j1''" world_broke] u s c p by auto
  with transform_start_402_iff [of ?req "''j1''" world_broke]
  have "transform_start ?req ''j1'' world_broke = (respond 402 no_credits_body, world_broke)"
    by blast
  then show ?thesis
    by (simp add: respond_def no_credits_body_def json_def)
qed

text \<open>
  C3 as stated fails: a user without credits or subscription who sends no image file is
  answered 400, because the file check comes before the credit check.
\<close>

theorem transform_start_no_file_counterexample:
  "findUnique (\<lambda>u. keycloakId u = ''kc1'') (users (db world_broke)) = Some user0
   \<and> \<not> hasActiveSubscription (db world_broke) user0
   \<and> \<not> 0 < credits user0
   \<and> status (fst (transform_start \<lparr>sr_file = None, sr_style = JStr ''neon'', sr_user = ''kc1''\<rparr>
                      ''j1'' world_broke)) = 400"
  by (simp add: transform_start_def start_check_def findUnique_def hasActiveSubscription_def
      world_broke_def world_empty_def db_empty_def user0_def)

section \<open>The credit balance, one request at a time and under overlap\<close>

lemma prisma_update_Inr:
  "prisma_update P f rows = Inr (row, rows') \<Longrightarrow>
     (\<exists>x. find P rows = Some x \<and> row = f x) \<and> rows' = replace_first P f rows"
  by (auto simp: prisma_update_def split: option.splits)

lemma set_replace_first: "set (replace_first P f xs) \<subseteq> set xs \<union> f ` {x \<in> set xs. P x}"
  by (induction xs) auto

lemma map_replace_first: "(\<And>x. g (f x) = g x) \<Longrightarrow> map g (replace_first P f xs) = map g xs"
  by (induction xs) auto

lemma find_in_set: "find P xs = Some x \<Longrightarrow> x \<in> set xs \<and> P x"
  by (induction xs) (auto split: if_splits)

lemma same_id_same_row:
  "distinct (map g xs) \<Longrightarrow> x \<in> set xs \<Longrightarrow> y \<in> set xs \<Longrightarrow> g x = g y \<Longrightarrow> x = y"
  by (meson distinct_map inj_onD)

lemma replace_first_all2:
  "(\<And>x. R x (f x)) \<Longrightarrow> (\<And>x. R x x) \<Longrightarrow> list_all2 R xs (replace_first P f xs)"
  by (induction xs) (auto simp: list_all2_refl)

lemma users_inv_replace:
  assumes "\<forall>u \<in> set us. 0 \<le> credits u"
    and "\<And>x. x \<in> set us \<Longrightarrow> P x \<Longrightarrow> 0 \<le> credits (f x)"
  shows "\<forall>u \<in> set (replace_first P f us). 0 \<le> credits u"
  using assms set_replace_first [of P f us] by auto

lemma orders_inv_replace:
  assumes "\<forall>r \<in> set rs. case order_credits r of None \<Rightarrow> True | Some c \<Rightarrow> 0 \<le> c"
    and "\<And>x. order_credits (f x) = order_credits x"
  shows "\<forall>r \<in> set (replace_first P f rs). case order_credits r of None \<Rightarrow> True | Some c \<Rightarrow> 0 \<le> c"
  using assms set_replace_first [of P f rs] by auto

text \<open>
  The steps of the start handler. Only the last one writes to the user table, and what it
  does there is decided by the flags computed from the row as the first step read it.
\<close>

lemma start_check_Inr:
  assumes "start_check req jobId w = Inr c"
  shows "findUnique (\<lambda>u. keycloakId u = sr_user req) (users (db w)) = Some (sc_user c)"
    and "sc_hasCredits c = (0 < credits (sc_user c))"
    and "sc_hasSub c = hasActiveSubscription (db w) (sc_user c)"
    and "sc_jobId c = jobId"
  using assms
  by (auto simp: start_check_def Let_def split: option.splits if_splits)

lemma start_create_db:
  "users (db (snd (start_create c w))) = users (db w) \<and>
   orders (db (snd (start_create c w))) = orders (db w) \<and>
   subscriptions (db (snd (start_create c w))) = subscriptions (db w)"
  by (simp add: start_create_def split: sum.splits)

lemma start_enqueue_db: "db (snd (start_enqueue c w)) = db w"
  by (simp add: start_enqueue_def split: sum.splits)

lemma start_deduct_users:
  "users (db (snd (start_deduct c w))) = users (db w) \<or>
   (\<not> sc_hasSub c \<and> sc_hasCredits c \<and>
    users (db (snd (start_deduct c w))) =
      replace_first (\<lambda>x. user_id x = user_id (sc_user c)) (\<lambda>x. x\<lparr>credits := credits x - 1\<rparr>)
        (users (db w)))"
  by (auto simp: start_deduct_def Let_def dest!: prisma_update_Inr split: sum.splits prod.splits)

lemma start_deduct_orders: "orders (db (snd (start_deduct c w))) = orders (db w)"
  by (auto simp: start_deduct_def Let_def split: sum.splits prod.splits)

lemma start_rest_users:
  "users (db (snd (start_rest c w))) = users (db w) \<or>
   (\<not> sc_hasSub c \<and> sc_hasCredits c \<and>
    users (db (snd (start_rest c w))) =
      replace_first (\<lambda>x. user_id x = user_id (sc_user c)) (\<lambda>x. x\<lparr>credits := credits x - 1\<rparr>)
        (users (db w)))"
proof (cases "start_create c w")
  case (Pair a w1)
  note cr = this
  from start_create_db [of c w] cr have u1: "users (db w1) = users (db w)" by simp
  show ?thesis
  proof (cases a)
    case (Some answer)
    with cr u1 show ?thesis by (simp add: start_rest_def)
  next
    case None
    show ?thesis
    proof (cases "start_enqueue c w1")
      case (Pair b w2)
      note en = this
      from start_enqueue_db [of c w1] en have u2: "users (db w2) = users (db w)"
        by (simp add: u1)
      show ?thesis
      proof (cases b)
        case (Some answer)
        with cr None en u2 show ?thesis by (simp add: start_rest_def)
      next
        case none: None
        have "start_rest c w = start_deduct c w2"
          using cr None en none by (simp add: start_rest_def)
        with start_deduct_users [of c w2] u2 show ?thesis by simp
      qed
    qed
  qed
qed

lemma start_rest_orders: "orders (db (snd (start_rest c w))) = orders (db w)"
proof (cases "start_create c w")
  case (Pair a w1)
  note cr = this
  from start_create_db [of c w] cr have o1: "orders (db w1) = orders (db w)" by simp
  show ?thesis
  proof (cases a)
    case (Some answer)
    with cr o1 show ?thesis by (simp add: start_rest_def)
  next
    case None
    show ?thesis
    proof (cases "start_enqueue c w1")
      case (Pair b w2)
      note en = this
      from start_enqueue_db [of c w1] en have o2: "orders (db w2) = orders (db w)"
        by (simp add: o1)
      show ?thesis
      proof (cases b)
        case (Some answer)
        with cr None en o2 show ?thesis by (simp add: start_rest_def)
      next
        case none: None
        have "start_rest c w = start_deduct c w2"
          using cr None en none by (simp add: start_rest_def)
        with start_deduct_orders [of c w2] o2 show ?thesis by simp
      qed
    qed
  qed
qed

text \<open>
  The steps after the guards keep the invariant when the row they were computed from is
  still the row of the table, that is, when nothing has lowered the balance in between.
\<close>

lemma start_rest_inv:
  assumes inv: "credits_inv (db w)"
    and fresh: "sc_hasCredits c \<Longrightarrow> sc_user c \<in> set (users (db w)) \<and> 0 < credits (sc_user c)"
  shows "credits_inv (db (snd (start_rest c w)))"
proof -
  let ?w' = "snd (start_rest c w)"
  from start_rest_users [of c w] show ?thesis
  proof
    assume "users (db ?w') = users (db w)"
    then show ?thesis using inv start_rest_orders [of c w]
      by (simp add: credits_inv_def)
  next
    assume "\<not> sc_hasSub c \<and> sc_hasCredits c \<and>
        users (db ?w') =
          replace_first (\<lambda>x. user_id x = user_id (sc_user c)) (\<lambda>x. x\<lparr>credits := credits x - 1\<rparr>)
            (users (db w))"
    then have hc: "sc_hasCredits c"
      and us: "users (db ?w') =
          replace_first (\<lambda>x. user_id x = user_id (sc_user c)) (\<lambda>x. x\<lparr>credits := credits x - 1\<rparr>)
            (users (db w))"
      by blast+
    from fresh [OF hc] have mem: "sc_user c \<in> set (users (db w))" and pos: "0 < credits (sc_user c)"
      by blast+
    from inv have d: "distinct (map user_id (users (db w)))" and nn: "\<forall>u \<in> set (users (db w)). 0 \<le> credits u"
      by (simp_all add: credits_inv_def)
    have "\<forall>y \<in> set (users (db ?w')). 0 \<le> credits y"
      unfolding us
    proof (rule users_inv_replace [OF nn])
      fix x assume x: "x \<in> set (users (db w))" "user_id x = user_id (sc_user c)"
      from d x(1) mem x(2) have "x = sc_user c" by (rule same_id_same_row)
      with pos show "0 \<le> credits (x\<lparr>credits := credits x - 1\<rparr>)" by simp
    qed
    moreover have "map user_id (users (db ?w')) = map user_id (users (db w))"
      unfolding us by (rule map_replace_first) simp
    ultimately show ?thesis
      using inv start_rest_orders [of c w] by (simp add: credits_inv_def)
  qed
qed

lemma transform_start_users:
  "users (db (snd (transform_start req jobId w))) = users (db w) \<or>
   (\<exists>u. findUnique (\<lambda>u. keycloakId u = sr_user req) (users (db w)) = Some u \<and>
        0 < credits u \<and> \<not> hasActiveSubscription (db w) u \<and>
        users (db (snd (transform_start req jobId w))) =
          replace_first (\<lambda>x. user_id x = user_id u) (\<lambda>x. x\<lparr>credits := credits x - 1\<rparr>) (users (db w)))"
proof (cases "start_check req jobId w")
  case (Inl answer)
  then show ?thesis by (simp add: transform_start_def)
next
  case (Inr c)
  then have ts: "transform_start req jobId w = start_rest c w"
    by (simp add: transform_start_def)
  from start_rest_users [of c w] show ?thesis
  proof
    assume "users (db (snd (start_rest c w))) = users (db w)"
    then show ?thesis by (simp add: ts)
  next
    assume "\<not> sc_hasSub c \<and> sc_hasCredits c \<and>
      users (db (snd (start_rest c w))) =
        replace_first (\<lambda>x. user_id x = user_id (sc_user c)) (\<lambda>x. x\<lparr>credits := credits x - 1\<rparr>)
          (users (db w))"
    with start_check_Inr [OF Inr] show ?thesis
      unfolding ts by blast
  qed
qed

lemma transform_start_orders: "orders (db (snd (transform_start req jobId w))) = orders (db w)"
  by (cases "start_check req jobId w") (simp_all add: transform_start_def start_rest_orders)

lemma transform_start_inv:
  assumes inv: "credits_inv (db w)"
  shows "credits_inv (db (snd (transform_start req jobId w)))"
proof (cases "start_check req jobId w")
  case (Inl answer)
  then show ?thesis using inv by (simp add: transform_start_def)
next
  case (Inr c)
  then have ts: "transform_start req jobId w = start_rest c w"
    by (simp add: transform_start_def)
  from start_check_Inr(1) [OF Inr] have "sc_user c \<in> set (users (db w))"
    by (auto simp: findUnique_def dest: find_in_set)
  with start_check_Inr(2) [OF Inr]
  have "sc_hasCredits c \<Longrightarrow> sc_user c \<in> set (users (db w)) \<and> 0 < credits (sc_user c)"
    by simp
  with inv show ?thesis unfolding ts by (rule start_rest_inv)
qed

lemma only_raised_refl: "users (db w') = users (db w) \<Longrightarrow> only_raised w w'"
  by (simp add: only_raised_def list_all2_refl)

lemma complete_order_orders_eq:
  "orders (db (snd (complete_order orderId w))) = orders (db w) \<or>
   orders (db (snd (complete_order orderId w))) =
     replace_first (\<lambda>r. order_id r = orderId) (\<lambda>r. r\<lparr>order_status := ''completed''\<rparr>) (orders (db w))"
proof (cases "prisma_update (\<lambda>r. order_id r = orderId) (\<lambda>r. r\<lparr>order_status := ''completed''\<rparr>)
             (orders (db w))")
  case (Inl e)
  then show ?thesis by (simp add: complete_order_def)
next
  case (Inr p)
  obtain ord rows where p: "p = (ord, rows)" by (cases p)
  from Inr p have rows: "rows = replace_first (\<lambda>r. order_id r = orderId)
      (\<lambda>r. r\<lparr>order_status := ''completed''\<rparr>) (orders (db w))"
    by (auto dest!: prisma_update_Inr)
  have "orders (db (snd (complete_order orderId w))) = rows"
    using Inr p by (simp add: complete_order_def Let_def split: sum.splits prod.splits)
  with rows show ?thesis by simp
qed

lemma complete_order_orders:
  assumes "\<forall>r \<in> set (orders (db w)). case order_credits r of None \<Rightarrow> True | Some c \<Rightarrow> 0 \<le> c"
  shows "\<forall>r \<in> set (orders (db (snd (complete_order orderId w)))).
      case order_credits r of None \<Rightarrow> True | Some c \<Rightarrow> 0 \<le> c"
  using complete_order_orders_eq [of orderId w] orders_inv_replace [OF assms, of "\<lambda>r. r\<lparr>order_status := ''completed''\<rparr>" "\<lambda>r. order_id r = orderId"] assms
  by auto

lemma complete_order_users:
  assumes "\<forall>r \<in> set (orders (db w)). case order_credits r of None \<Rightarrow> True | Some c \<Rightarrow> 0 \<le> c"
  shows "users (db (snd (complete_order orderId w))) = users (db w) \<or>
         (\<exists>c uid. 0 \<le> c \<and> users (db (snd (complete_order orderId w))) =
             replace_first (\<lambda>u. user_id u = uid) (\<lambda>u. u\<lparr>credits := credits u + c\<rparr>) (users (db w)))"
proof (cases "prisma_update (\<lambda>r. order_id r = orderId) (\<lambda>r. r\<lparr>order_status := ''completed''\<rparr>)
             (orders (db w))")
  case (Inl e)
  then show ?thesis by (simp add: complete_order_def)
next
  case (Inr p)
  obtain ord rows where p: "p = (ord, rows)" by (cases p)
  from Inr p obtain x where x: "find (\<lambda>r. order_id r = orderId) (orders (db w)) = Some x"
    and ord: "ord = x\<lparr>order_status := ''completed''\<rparr>"
    by (auto dest!: prisma_update_Inr)
  from x have "x \<in> set (orders (db w))" by (auto dest: find_in_set)
  with assms have nn: "case order_credits x of None \<Rightarrow> True | Some c \<Rightarrow> 0 \<le> c" by blast
  define c where "c = credit_amount ord"
  have c0: "0 \<le> c" using nn by (simp add: c_def credit_amount_def ord split: option.splits)
  show ?thesis
  proof (cases "order_type ord = ''credits''")
    case False
    then show ?thesis using Inr p by (simp add: complete_order_def Let_def)
  next
    case True
    show ?thesis
    proof (cases "prisma_update (\<lambda>u. user_id u = order_userId ord)
                    (\<lambda>u. u\<lparr>credits := credits u + c\<rparr>) (users (db w))")
      case (Inl e)
      then show ?thesis using Inr p True by (simp add: complete_order_def Let_def c_def)
    next
      case inr: (Inr q)
      obtain u' us where q: "q = (u', us)" by (cases q)
      from inr q have "us = replace_first (\<lambda>u. user_id u = order_userId ord)
                    (\<lambda>u. u\<lparr>credits := credits u + c\<rparr>) (users (db w))"
        by (auto dest!: prisma_update_Inr)
      then have "users (db (snd (complete_order orderId w))) =
             replace_first (\<lambda>u. user_id u = order_userId ord) (\<lambda>u. u\<lparr>credits := credits u + c\<rparr>) (users (db w))"
        using Inr p True inr q by (simp add: complete_order_def Let_def c_def)
      with c0 show ?thesis by blast
    qed
  qed
qed

lemma raised_users:
  assumes "users (db w') = users (db w) \<or>
         (\<exists>c uid. 0 \<le> c \<and> users (db w') =
             replace_first (\<lambda>u. user_id u = uid) (\<lambda>u. u\<lparr>credits := credits u + c\<rparr>) (users (db w)))"
  shows "only_raised w w'"
    and "\<forall>u \<in> set (users (db w)). 0 \<le> credits u \<Longrightarrow> \<forall>u \<in> set (users (db w')). 0 \<le> credits u"
    and "map user_id (users (db w')) = map user_id (users (db w))"
proof -
  from assms consider (same) "users (db w') = users (db w)"
    | (add) c uid where "0 \<le> c" "users (db w') =
             replace_first (\<lambda>u. user_id u = uid) (\<lambda>u. u\<lparr>credits := credits u + c\<rparr>) (users (db w))"
    by blast
  then show "only_raised w w'"
  proof cases
    case same
    then show ?thesis by (rule only_raised_refl)
  next
    case add
    have "list_all2 (\<lambda>a b. user_id b = user_id a \<and> credits a \<le> credits b) (users (db w))
            (replace_first (\<lambda>u. user_id u = uid) (\<lambda>u. u\<lparr>credits := credits u + c\<rparr>) (users (db w)))"
      by (rule replace_first_all2) (use add(1) in simp_all)
    then show ?thesis by (simp add: only_raised_def add(2))
  qed
  from assms consider (same) "users (db w') = users (db w)"
    | (add) c uid where "0 \<le> c" "users (db w') =
             replace_first (\<lambda>u. user_id u = uid) (\<lambda>u. u\<lparr>credits := credits u + c\<rparr>) (users (db w))"
    by blast
  then show "\<forall>u \<in> set (users (db w')). 0 \<le> credits u" if nn: "\<forall>u \<in> set (users (db w)). 0 \<le> credits u"
  proof cases
    case same
    then show ?thesis using nn by simp
  next
    case add
    show ?thesis unfolding add(2)
    proof (rule users_inv_replace [OF nn])
      fix x assume "x \<in> set (users (db w))"
      with nn add(1) show "0 \<le> credits (x\<lparr>credits := credits x + c\<rparr>)" by simp
    qed
  qed
  from assms consider (same) "users (db w') = users (db w)"
    | (add) c uid where "0 \<le> c" "users (db w') =
             replace_first (\<lambda>u. user_id u = uid) (\<lambda>u. u\<lparr>credits := credits u + c\<rparr>) (users (db w))"
    by blast
  then show "map user_id (users (db w')) = map user_id (users (db w))"
  proof cases
    case same
    then show ?thesis by simp
  next
    case add
    show ?thesis unfolding add(2) by (rule map_replace_first) simp
  qed
qed

lemma complete_order_inv:
  assumes "credits_inv (db w)"
  shows "credits_inv (db (snd (complete_order orderId w)))"
    and "only_raised w (snd (complete_order orderId w))"
proof -
  from assms have o: "\<forall>r \<in> set (orders (db w)). case order_credits r of None \<Rightarrow> True | Some c \<Rightarrow> 0 \<le> c"
    and u: "\<forall>u \<in> set (users (db w)). 0 \<le> credits u"
    and d: "distinct (map user_id (users (db w)))"
    by (simp_all add: credits_inv_def)
  note cu = complete_order_users [OF o, of orderId]
  show "only_raised w (snd (complete_order orderId w))"
    by (rule raised_users(1) [OF cu])
  show "credits_inv (db (snd (complete_order orderId w)))"
    using raised_users(2) [OF cu u] raised_users(3) [OF cu] complete_order_orders [OF o, of orderId] d
    by (simp add: credits_inv_def)
qed

lemma set_sub_status_inv: "credits_inv (db (set_sub_status P st w)) = credits_inv (db w)"
  by (simp add: set_sub_status_def credits_inv_def)

lemma set_sub_status_users: "users (db (set_sub_status P st w)) = users (db w)"
  by (simp add: set_sub_status_def)

lemma webhook_reply_snd: "snd (webhook_reply out) = snd out"
  by (simp add: webhook_reply_def split: sum.splits)

lemma handleStripeCheckoutComplete_inv:
  assumes "credits_inv (db w)"
  shows "credits_inv (db (snd (handleStripeCheckoutComplete orderId w)))"
    and "only_raised w (snd (handleStripeCheckoutComplete orderId w))"
  using assms complete_order_inv [OF assms]
  by (simp_all add: handleStripeCheckoutComplete_def only_raised_refl)

lemma handleAsaasPaymentConfirmed_inv:
  assumes "credits_inv (db w)"
  shows "credits_inv (db (snd (handleAsaasPaymentConfirmed ref w)))"
    and "only_raised w (snd (handleAsaasPaymentConfirmed ref w))"
  using assms complete_order_inv [OF assms]
  by (simp_all add: handleAsaasPaymentConfirmed_def only_raised_refl)

lemma stripe_webhook_inv:
  assumes "credits_inv (db w)"
  shows "credits_inv (db (snd (stripe_webhook constructEvent raw sig w)))"
    and "only_raised w (snd (stripe_webhook constructEvent raw sig w))"
proof -
  show "credits_inv (db (snd (stripe_webhook constructEvent raw sig w)))"
  proof (cases "constructEvent raw sig")
    case None
    then show ?thesis using assms by (simp add: stripe_webhook_def)
  next
    case (Some ev)
    then show ?thesis
      using assms handleStripeCheckoutComplete_inv(1) [OF assms]
      by (cases ev)
         (simp_all add: stripe_webhook_def webhook_reply_snd handleStripeInvoicePaid_def
           handleStripeSubscriptionUpdated_def handleStripeSubscriptionDeleted_def set_sub_status_inv)
  qed
  show "only_raised w (snd (stripe_webhook constructEvent raw sig w))"
  proof (cases "constructEvent raw sig")
    case None
    then show ?thesis by (simp add: stripe_webhook_def only_raised_refl)
  next
    case (Some ev)
    then show ?thesis
      using handleStripeCheckoutComplete_inv(2) [OF assms]
      by (cases ev)
         (simp_all add: stripe_webhook_def webhook_reply_snd handleStripeInvoicePaid_def
           handleStripeSubscriptionUpdated_def handleStripeSubscriptionDeleted_def
           only_raised_refl set_sub_status_users)
  qed
qed

lemma handleAsaasPaymentFailed_db:
  "users (db (snd (handleAsaasPaymentFailed ref w))) = users (db w) \<and>
   (orders (db (snd (handleAsaasPaymentFailed ref w))) = orders (db w) \<or>
    orders (db (snd (handleAsaasPaymentFailed ref w))) =
      replace_first (\<lambda>r. order_id r = or_empty ref) (\<lambda>r. r\<lparr>order_status := ''failed''\<rparr>) (orders (db w)))"
  by (auto simp: handleAsaasPaymentFailed_def dest!: prisma_update_Inr split: sum.splits prod.splits)

lemma handleAsaasPaymentFailed_inv:
  assumes "credits_inv (db w)"
  shows "credits_inv (db (snd (handleAsaasPaymentFailed ref w)))"
proof -
  from assms have o: "\<forall>r \<in> set (orders (db w)). case order_credits r of None \<Rightarrow> True | Some c \<Rightarrow> 0 \<le> c"
    by (simp add: credits_inv_def)
  have "\<forall>r \<in> set (orders (db (snd (handleAsaasPaymentFailed ref w)))).
          case order_credits r of None \<Rightarrow> True | Some c \<Rightarrow> 0 \<le> c"
    using handleAsaasPaymentFailed_db [of ref w] o
      orders_inv_replace [OF o, of "\<lambda>r. r\<lparr>order_status := ''failed''\<rparr>" "\<lambda>r. order_id r = or_empty ref"]
    by auto
  then show ?thesis
    using assms handleAsaasPaymentFailed_db [of ref w] by (simp add: credits_inv_def)
qed

lemma asaas_set_subscription_db:
  "users (db (snd (asaas_set_subscription st ref w))) = users (db w) \<and>
   orders (db (snd (asaas_set_subscription st ref w))) = orders (db w)"
  by (auto simp: asaas_set_subscription_def split: sum.splits prod.splits)

lemma on_object_inv:
  "credits_inv (db w) \<Longrightarrow> (\<And>ref. credits_inv (db (snd (h ref w)))) \<Longrightarrow> credits_inv (db (snd (on_object h obj w)))"
  by (simp add: on_object_def split: option.splits)

lemma on_object_raised:
  "(\<And>ref. only_raised w (snd (h ref w))) \<Longrightarrow> only_raised w (snd (on_object h obj w))"
  by (simp add: on_object_def only_raised_refl split: option.splits)

lemma asaas_webhook_inv:
  assumes "credits_inv (db w)"
  shows "credits_inv (db (snd (asaas_webhook expected req w)))"
    and "only_raised w (snd (asaas_webhook expected req w))"
proof -
  have sub: "credits_inv (db (snd (asaas_set_subscription st ref w)))" for st ref
    using assms asaas_set_subscription_db [of st ref w] by (simp add: credits_inv_def)
  show "credits_inv (db (snd (asaas_webhook expected req w)))"
    unfolding asaas_webhook_def
    by (simp add: webhook_reply_snd assms on_object_inv handleAsaasPaymentConfirmed_inv(1)
        handleAsaasPaymentFailed_inv handleAsaasSubscriptionActive_def
        handleAsaasSubscriptionCancelled_def sub del: insert_iff)
  show "only_raised w (snd (asaas_webhook expected req w))"
    unfolding asaas_webhook_def
    by (simp add: webhook_reply_snd assms on_object_raised handleAsaasPaymentConfirmed_inv(2)
        handleAsaasPaymentFailed_db asaas_set_subscription_db only_raised_refl
        handleAsaasSubscriptionActive_def handleAsaasSubscriptionCancelled_def del: insert_iff)
qed

lemma admin_add_credits_inv:
  assumes "credits_inv (db w)"
  shows "credits_inv (db (snd (admin_add_credits userId amt w)))"
    and "only_raised w (snd (admin_add_credits userId amt w))"
proof -
  have "users (db (snd (admin_add_credits userId amt w))) = users (db w) \<or>
         (\<exists>c uid. 0 \<le> c \<and> users (db (snd (admin_add_credits userId amt w))) =
             replace_first (\<lambda>u. user_id u = uid) (\<lambda>u. u\<lparr>credits := credits u + c\<rparr>) (users (db w)))"
  proof (cases amt)
    case (JNum n)
    show ?thesis
    proof (cases "n \<le> 0")
      case True
      then show ?thesis by (simp add: admin_add_credits_def JNum)
    next
      case False
      then have c0: "0 \<le> \<lfloor>n\<rfloor>" by simp
      show ?thesis
      proof (cases "n \<in> \<int>")
        case notint: False
        with False show ?thesis by (simp add: admin_add_credits_def JNum)
      next
        case isint: True
        show ?thesis
        proof (cases "prisma_update (\<lambda>u. user_id u = userId)
                        (\<lambda>u. u\<lparr>credits := credits u + \<lfloor>n\<rfloor>\<rparr>) (users (db w))")
          case (Inl e)
          with False isint show ?thesis by (simp add: admin_add_credits_def JNum)
        next
          case (Inr q)
          obtain u' us where q: "q = (u', us)" by (cases q)
          from Inr q have "us = replace_first (\<lambda>u. user_id u = userId)
                        (\<lambda>u. u\<lparr>credits := credits u + \<lfloor>n\<rfloor>\<rparr>) (users (db w))"
            by (auto dest!: prisma_update_Inr)
          then have "users (db (snd (admin_add_credits userId amt w))) =
                       replace_first (\<lambda>u. user_id u = userId)
                         (\<lambda>u. u\<lparr>credits := credits u + \<lfloor>n\<rfloor>\<rparr>) (users (db w))"
            using False isint Inr q by (simp add: admin_add_credits_def JNum)
          with c0 show ?thesis by blast
        qed
      qed
    qed
  qed (simp_all add: admin_add_credits_def)
  note cu = this
  have o: "orders (db (snd (admin_add_credits userId amt w))) = orders (db w)"
    by (auto simp: admin_add_credits_def split: jsval.splits sum.splits prod.splits)
  from assms have u: "\<forall>u \<in> set (users (db w)). 0 \<le> credits u" by (simp add: credits_inv_def)
  show "only_raised w (snd (admin_add_credits userId amt w))"
    by (rule raised_users(1) [OF cu])
  show "credits_inv (db (snd (admin_add_credits userId amt w)))"
    using raised_users(2) [OF cu u] raised_users(3) [OF cu] o assms
    by (simp add: credits_inv_def)
qed

lemma CREDIT_PACKAGES_nonneg: "map_of CREDIT_PACKAGES k = Some p \<Longrightarrow> 0 \<le> pk_credits p"
  by (auto simp: CREDIT_PACKAGES_def split: if_splits)

lemma purchase_credits_users: "users (db (snd (purchase_credits pkg region uid newId pay w))) = users (db w)"
  by (auto simp: purchase_credits_def Let_def prisma_create_def
      split: option.splits sum.splits prod.splits if_splits)

lemma purchase_credits_orders:
  "orders (db (snd (purchase_credits pkg region uid newId pay w))) = orders (db w) \<or>
   (\<exists>u reg info k pid. map_of CREDIT_PACKAGES k = Some info \<and>
      (orders (db (snd (purchase_credits pkg region uid newId pay w))) =
         orders (db w) @ [new_credit_order newId u reg info] \<or>
       orders (db (snd (purchase_credits pkg region uid newId pay w))) =
         replace_first (\<lambda>r. order_id r = newId) (set_payment reg pid)
           (orders (db w) @ [new_credit_order newId u reg info])))"
  by (auto simp: purchase_credits_def Let_def prisma_create_def dest!: prisma_update_Inr
      split: option.splits sum.splits prod.splits if_splits)

lemma purchase_credits_inv:
  assumes "credits_inv (db w)"
  shows "credits_inv (db (snd (purchase_credits pkg region uid newId pay w)))"
proof -
  let ?os = "orders (db (snd (purchase_credits pkg region uid newId pay w)))"
  from assms have o: "\<forall>r \<in> set (orders (db w)). case order_credits r of None \<Rightarrow> True | Some c \<Rightarrow> 0 \<le> c"
    by (simp add: credits_inv_def)
  have ok: "\<forall>r \<in> set ?os. case order_credits r of None \<Rightarrow> True | Some c \<Rightarrow> 0 \<le> c"
    using purchase_credits_orders [of pkg region uid newId pay w]
  proof (elim disjE exE conjE)
    assume "?os = orders (db w)"
    with o show ?thesis by simp
  next
    fix u reg info k pid
    assume m: "map_of CREDIT_PACKAGES k = Some info"
      and e: "?os = orders (db w) @ [new_credit_order newId u reg info]"
    from m have "0 \<le> pk_credits info" by (rule CREDIT_PACKAGES_nonneg)
    with o show ?thesis by (simp add: e new_credit_order_def)
  next
    fix u reg info k pid
    assume m: "map_of CREDIT_PACKAGES k = Some info"
      and e: "?os = replace_first (\<lambda>r. order_id r = newId) (set_payment reg pid)
           (orders (db w) @ [new_credit_order newId u reg info])"
    from m have "0 \<le> pk_credits info" by (rule CREDIT_PACKAGES_nonneg)
    with o have "\<forall>r \<in> set (orders (db w) @ [new_credit_order newId u reg info]).
       case order_credits r of None \<Rightarrow> True | Some c \<Rightarrow> 0 \<le> c"
      by (simp add: new_credit_order_def)
    then show ?thesis unfolding e
      by (rule orders_inv_replace) (simp add: set_payment_def)
  qed
  then show ?thesis
    using assms purchase_credits_users [of pkg region uid newId pay w] by (simp add: credits_inv_def)
qed

lemma get_me_inv:
  assumes "credits_inv (db w)"
  shows "credits_inv (db (snd (get_me ru newId now w)))"
  using assms
  by (auto simp: get_me_def Let_def credits_inv_def prisma_create_def user_clash_def list_ex_iff
      split: option.splits if_splits)

text \<open>
  Requests served one at a time. Every handler that touches the balances keeps the credit
  invariant: the transform start, both payment webhooks, the admin credit endpoint, the
  purchase endpoint (which creates the orders the webhooks later pay out) and the
  first-login creation of a user. The webhooks and the admin endpoint never lower a
  balance. The transform start leaves all balances alone or lowers by exactly 1 the balance
  of the requesting user, and then only if that balance was positive and the user has no
  active subscription. The admin endpoint answers 400 and writes nothing when the amount
  is not a number or is not positive.
\<close>

lemma one_at_a_time_credits_inv:
  "(credits_inv (db w) \<longrightarrow>
      credits_inv (db (snd (transform_start req jobId w)))
      \<and> credits_inv (db (snd (stripe_webhook constructEvent raw sig w)))
      \<and> only_raised w (snd (stripe_webhook constructEvent raw sig w))
      \<and> credits_inv (db (snd (asaas_webhook expected areq w)))
      \<and> only_raised w (snd (asaas_webhook expected areq w))
      \<and> credits_inv (db (snd (admin_add_credits userId amt w)))
      \<and> only_raised w (snd (admin_add_credits userId amt w))
      \<and> credits_inv (db (snd (purchase_credits pkg region uid newId pay w)))
      \<and> credits_inv (db (snd (get_me ru newId now w))))
   \<and> (users (db (snd (transform_start req jobId w))) = users (db w) \<or>
       (\<exists>u. findUnique (\<lambda>u. keycloakId u = sr_user req) (users (db w)) = Some u \<and>
            0 < credits u \<and> \<not> hasActiveSubscription (db w) u \<and>
            users (db (snd (transform_start req jobId w))) =
              replace_first (\<lambda>x. user_id x = user_id u) (\<lambda>x. x\<lparr>credits := credits x - 1\<rparr>)
                (users (db w))))
   \<and> ((\<forall>n. amt = JNum n \<longrightarrow> n \<le> 0) \<longrightarrow>
         admin_add_credits userId amt w =
           (respond 400 [(''error'', JStr ''Invalid credits amount'')], w))"
proof (intro conjI impI)
  show "users (db (snd (transform_start req jobId w))) = users (db w) \<or>
       (\<exists>u. findUnique (\<lambda>u. keycloakId u = sr_user req) (users (db w)) = Some u \<and>
            0 < credits u \<and> \<not> hasActiveSubscription (db w) u \<and>
            users (db (snd (transform_start req jobId w))) =
              replace_first (\<lambda>x. user_id x = user_id u) (\<lambda>x. x\<lparr>credits := credits x - 1\<rparr>)
                (users (db w)))"
    by (rule transform_start_users)
next
  assume "\<forall>n. amt = JNum n \<longrightarrow> n \<le> 0"
  then show "admin_add_credits userId amt w =
           (respond 400 [(''error'', JStr ''Invalid credits amount'')], w)"
    by (cases amt) (simp_all add: admin_add_credits_def)
qed (simp_all add: transform_start_inv stripe_webhook_inv asaas_webhook_inv admin_add_credits_inv
      purchase_credits_inv get_me_inv)

lemma world_new_eq:
  "world_new = world_empty\<lparr>db := db_empty\<lparr>users :=
     [\<lparr>user_id = ''usr1'', keycloakId = ''kc1'', email = ''ana@example.com'',
       user_name = Some ''Ana'', credits = 3, deletedAt = None, createdAt = 1000\<rparr>]\<rparr>\<rparr>"
  by (simp add: world_new_def get_me_def findUnique_def world_empty_def db_empty_def ru0_def Let_def
      prisma_create_def)

lemma inv_new: "credits_inv (db world_new)"
  by (simp add: world_new_eq credits_inv_def db_empty_def)

text \<open>
  Two requests that overlap. Both read the row while it still shows one credit, so both
  pass the guard; each then lowers the balance, and the second decrement has no guard of
  its own.
\<close>

lemma world_one_checks:
  "start_check req0 ''j1'' world_one = Inr ctx_a"
  "start_check req0 ''j2'' world_one = Inr ctx_b"
  by (simp_all add: start_check_def req0_def styles_def findUnique_def hasActiveSubscription_def
      world_one_def world_empty_def db_empty_def user1_def user0_def ctx_a_def ctx_b_def Let_def)

lemma rest_a:
  "start_rest ctx_a world_one = (respond 202 (started_body ''j1''), world_a)"
  by (simp add: start_rest_def start_create_def start_enqueue_def start_deduct_def
      prisma_create_def prisma_update_def addTransformationJob_def lpush_def setCache_def
      job_key_def job_obj_def json_def ctx_a_def world_one_def world_a_def world_empty_def
      db_empty_def redis_empty_def user1_def user0_def tr_a_def job_a_def Let_def fun_eq_iff)

lemma rest_b:
  "start_rest ctx_b world_a = (respond 202 (started_body ''j2''), world_ab)"
  by (simp add: start_rest_def start_create_def start_enqueue_def start_deduct_def
      prisma_create_def prisma_update_def addTransformationJob_def lpush_def setCache_def
      job_key_def job_obj_def json_def ctx_a_def ctx_b_def world_a_def world_ab_def
      db_empty_def user1_def user0_def tr_a_def job_a_def job_b_def Let_def fun_eq_iff)

lemma overlapped_one:
  "overlapped req0 ''j1'' req0 ''j2'' world_one =
     ((respond 202 (started_body ''j1''), respond 202 (started_body ''j2'')), world_ab)"
  by (simp add: overlapped_def world_one_checks rest_a rest_b)

text \<open>
  C2. The claim holds of requests served one at a time (see above) and fails when two
  requests of one user overlap. A user holds one credit and no subscription and sends two
  start requests. The second request's read of the user row is answered before the first
  request's decrement, as happens when the handler waits for the store. Both requests are
  answered 202, two transformations are created and queued, and the balance ends at -1.
\<close>

theorem overlapping_start_requests_overdraw:
  "map credits (users (db world_one)) = [1]
   \<and> subscriptions (db world_one) = []
   \<and> start_check req0 ''j1'' world_one = Inr ctx_a
   \<and> start_check req0 ''j2'' world_one = Inr ctx_b
   \<and> sc_hasCredits ctx_a \<and> sc_hasCredits ctx_b
   \<and> map status [fst (fst (overlapped req0 ''j1'' req0 ''j2'' world_one)),
                  snd (fst (overlapped req0 ''j1'' req0 ''j2'' world_one))] = [202, 202]
   \<and> map tr_id (transformations (db (snd (overlapped req0 ''j1'' req0 ''j2'' world_one)))) =
       [''j1'', ''j2'']
   \<and> map credits (users (db (snd (overlapped req0 ''j1'' req0 ''j2'' world_one)))) = [- 1]"
proof -
  have before: "map credits (users (db world_one)) = [1] \<and> subscriptions (db world_one) = []"
    by (simp add: world_one_def world_empty_def db_empty_def user1_def user0_def)
  have flags: "sc_hasCredits ctx_a \<and> sc_hasCredits ctx_b"
    by (simp add: ctx_a_def ctx_b_def)
  have answers: "map status [fst (fst (overlapped req0 ''j1'' req0 ''j2'' world_one)),
                  snd (fst (overlapped req0 ''j1'' req0 ''j2'' world_one))] = [202, 202]"
    unfolding overlapped_one by simp
  have after: "map tr_id (transformations (db (snd (overlapped req0 ''j1'' req0 ''j2'' world_one)))) =
                 [''j1'', ''j2'']
               \<and> map credits (users (db (snd (overlapped req0 ''j1'' req0 ''j2'' world_one)))) = [- 1]"
    unfolding overlapped_one
    by (simp add: world_ab_def db_empty_def tr_a_def user1_def user0_def)
  from before world_one_checks flags answers after show ?thesis by blast
qed

lemma overlapped_breaks_inv:
  "credits_inv (db world_one) \<and>
   \<not> credits_inv (db (snd (overlapped req0 ''j1'' req0 ''j2'' world_one)))"
proof -
  have "credits_inv (db world_one)"
    by (simp add: credits_inv_def world_one_def world_empty_def db_empty_def user1_def user0_def)
  moreover have "\<not> credits_inv (db (snd (overlapped req0 ''j1'' req0 ''j2'' world_one)))"
    unfolding overlapped_one
    by (simp add: credits_inv_def world_ab_def db_empty_def user1_def user0_def)
  ultimately show ?thesis by blast
qed

text \<open>The same two requests one after the other: the second is refused with 402.\<close>

lemma two_in_sequence:
  "transform_start req0 ''j1'' world_one = (respond 202 (started_body ''j1''), world_a)
   \<and> status (fst (transform_start req0 ''j2'' world_a)) = 402
   \<and> snd (transform_start req0 ''j2'' world_a) = world_a
   \<and> map credits (users (db world_a)) = [0]"
proof -
  have a: "transform_start req0 ''j1'' world_one = (respond 202 (started_body ''j1''), world_a)"
    by (simp add: transform_start_def world_one_checks rest_a)
  have b: "start_check req0 ''j2'' world_a = Inl (respond 402 no_credits_body)"
    by (simp add: start_check_def req0_def styles_def findUnique_def hasActiveSubscription_def
        world_a_def db_empty_def user1_def user0_def Let_def)
  have c: "map credits (users (db world_a)) = [0]"
    by (simp add: world_a_def db_empty_def user1_def user0_def)
  have d: "status (fst (transform_start req0 ''j2'' world_a)) = 402
           \<and> snd (transform_start req0 ''j2'' world_a) = world_a"
    by (simp add: transform_start_def b)
  from a d c show ?thesis by blast
qed

section \<open>Properties of the webhook handlers\<close>

lemma find_replace_first:
  "find P xs = Some x \<Longrightarrow> P (f x) \<Longrightarrow> find P (replace_first P f xs) = Some (f x)"
  by (induction xs) (auto split: if_splits)

lemma complete_order_credits_step:
  assumes o: "findUnique (\<lambda>r. order_id r = oid) (orders (db w)) = Some ord"
    and t: "order_type ord = ''credits''"
    and u: "findUnique (\<lambda>x. user_id x = order_userId ord) (users (db w)) = Some u"
  shows "fst (complete_order oid w) = Inr ()"
    and "findUnique (\<lambda>r. order_id r = oid) (orders (db (snd (complete_order oid w)))) =
           Some (ord\<lparr>order_status := ''completed''\<rparr>)"
    and "findUnique (\<lambda>x. user_id x = order_userId ord) (users (db (snd (complete_order oid w)))) =
           Some (u\<lparr>credits := credits u + credit_amount ord\<rparr>)"
proof -
  from o have oid: "order_id ord = oid" by (auto simp: findUnique_def dest: find_in_set)
  from u have uid: "user_id u = order_userId ord" by (auto simp: findUnique_def dest: find_in_set)
  have po: "prisma_update (\<lambda>r. order_id r = oid) (\<lambda>r. r\<lparr>order_status := ''completed''\<rparr>) (orders (db w)) =
        Inr (ord\<lparr>order_status := ''completed''\<rparr>,
             replace_first (\<lambda>r. order_id r = oid) (\<lambda>r. r\<lparr>order_status := ''completed''\<rparr>) (orders (db w)))"
    using o by (simp add: prisma_update_def findUnique_def)
  have pu: "prisma_update (\<lambda>x. user_id x = order_userId ord)
               (\<lambda>x. x\<lparr>credits := credits x + credit_amount ord\<rparr>) (users (db w)) =
        Inr (u\<lparr>credits := credits u + credit_amount ord\<rparr>,
             replace_first (\<lambda>x. user_id x = order_userId ord)
               (\<lambda>x. x\<lparr>credits := credits x + credit_amount ord\<rparr>) (users (db w)))"
    using u by (simp add: prisma_update_def findUnique_def)
  have ca: "credit_amount (ord\<lparr>order_status := ''completed''\<rparr>) = credit_amount ord"
    by (simp add: credit_amount_def)
  show "fst (complete_order oid w) = Inr ()"
    by (simp add: complete_order_def po t Let_def ca pu)
  have os: "orders (db (snd (complete_order oid w))) =
      replace_first (\<lambda>r. order_id r = oid) (\<lambda>r. r\<lparr>order_status := ''completed''\<rparr>) (orders (db w))"
    by (simp add: complete_order_def po t Let_def ca pu)
  have us: "users (db (snd (complete_order oid w))) =
      replace_first (\<lambda>x. user_id x = order_userId ord)
               (\<lambda>x. x\<lparr>credits := credits x + credit_amount ord\<rparr>) (users (db w))"
    by (simp add: complete_order_def po t Let_def ca pu)
  show "findUnique (\<lambda>r. order_id r = oid) (orders (db (snd (complete_order oid w)))) =
           Some (ord\<lparr>order_status := ''completed''\<rparr>)"
    unfolding os findUnique_def
    by (rule find_replace_first) (use o oid in \<open>simp_all add: findUnique_def\<close>)
  show "findUnique (\<lambda>x. user_id x = order_userId ord) (users (db (snd (complete_order oid w)))) =
           Some (u\<lparr>credits := credits u + credit_amount ord\<rparr>)"
    unfolding us findUnique_def
    by (rule find_replace_first) (use u uid in \<open>simp_all add: findUnique_def\<close>)
qed

lemma complete_order_twice:
  assumes o: "findUnique (\<lambda>r. order_id r = oid) (orders (db w)) = Some ord"
    and t: "order_type ord = ''credits''"
    and b: "balance w (order_userId ord) = Some b"
  shows "fst (complete_order oid w) = Inr ()"
    and "balance (snd (complete_order oid w)) (order_userId ord) = Some (b + credit_amount ord)"
    and "fst (complete_order oid (snd (complete_order oid w))) = Inr ()"
    and "balance (snd (complete_order oid (snd (complete_order oid w)))) (order_userId ord) =
           Some (b + 2 * credit_amount ord)"
proof -
  from b obtain u where u: "findUnique (\<lambda>x. user_id x = order_userId ord) (users (db w)) = Some u"
    and cb: "credits u = b"
    by (auto simp: balance_def)
  let ?w1 = "snd (complete_order oid w)"
  let ?ord1 = "ord\<lparr>order_status := ''completed''\<rparr>"
  let ?u1 = "u\<lparr>credits := credits u + credit_amount ord\<rparr>"
  note s1 = complete_order_credits_step [OF o t u]
  show "fst (complete_order oid w) = Inr ()" by (rule s1(1))
  show "balance ?w1 (order_userId ord) = Some (b + credit_amount ord)"
    by (simp add: balance_def s1(3) cb)
  have o1: "findUnique (\<lambda>r. order_id r = oid) (orders (db ?w1)) = Some ?ord1" by (rule s1(2))
  have t1: "order_type ?ord1 = ''credits''" using t by simp
  have u1: "findUnique (\<lambda>x. user_id x = order_userId ?ord1) (users (db ?w1)) = Some ?u1"
    using s1(3) by simp
  note s2 = complete_order_credits_step [OF o1 t1 u1]
  show "fst (complete_order oid ?w1) = Inr ()" by (rule s2(1))
  have "findUnique (\<lambda>x. user_id x = order_userId ord) (users (db (snd (complete_order oid ?w1)))) =
          Some (?u1\<lparr>credits := credits ?u1 + credit_amount ?ord1\<rparr>)"
    using s2(3) by simp
  then show "balance (snd (complete_order oid ?w1)) (order_userId ord) = Some (b + 2 * credit_amount ord)"
    by (simp add: balance_def cb credit_amount_def)
qed

lemma stripe_checkout_route:
  assumes "constructEvent raw sig = Some (CheckoutSessionCompleted (Some oid))" and "oid \<noteq> []"
  shows "stripe_webhook constructEvent raw sig w = webhook_reply (complete_order oid w)"
  using assms by (simp add: stripe_webhook_def handleStripeCheckoutComplete_def)

lemma asaas_confirmed_route:
  assumes "aq_token areq = expected"
    and "aq_event areq = Some ''PAYMENT_CONFIRMED'' \<or> aq_event areq = Some ''PAYMENT_RECEIVED''"
    and "aq_payment areq = Some (Some oid)" and "oid \<noteq> []"
  shows "asaas_webhook expected areq w = webhook_reply (complete_order oid w)"
  using assms by (auto simp: asaas_webhook_def on_object_def handleAsaasPaymentConfirmed_def)

lemma webhook_reply_ok: "fst out = Inr () \<Longrightarrow> status (fst (webhook_reply out)) = 200"
  by (simp add: webhook_reply_def)

text \<open>
  The handlers, given a verified event, do not deduplicate. For a credits order that is in
  the store and whose owner is in the store, a verified Stripe
  \<^verbatim>\<open>checkout.session.completed\<close> event is answered 200 and adds the order's credit amount to
  the owner's balance, and delivering the same event again adds the amount again. The
  Asaas handler does the same when \<^verbatim>\<open>req.body\<close> is an object with the event name
  \<^verbatim>\<open>PAYMENT_CONFIRMED\<close> or \<^verbatim>\<open>PAYMENT_RECEIVED\<close> and the payment's external reference.
\<close>

lemma payment_handlers_credit_each_delivery:
  assumes "findUnique (\<lambda>r. order_id r = oid) (orders (db w)) = Some ord"
    and "order_type ord = ''credits''"
    and "oid \<noteq> []"
    and "balance w (order_userId ord) = Some b"
    and "constructEvent raw sig = Some (CheckoutSessionCompleted (Some oid))"
    and "aq_token areq = expected"
    and "aq_event areq = Some ''PAYMENT_CONFIRMED'' \<or> aq_event areq = Some ''PAYMENT_RECEIVED''"
    and "aq_payment areq = Some (Some oid)"
  shows "status (fst (stripe_webhook constructEvent raw sig w)) = 200
     \<and> balance (snd (stripe_webhook constructEvent raw sig w)) (order_userId ord) =
         Some (b + credit_amount ord)
     \<and> status (fst (stripe_webhook constructEvent raw sig
                       (snd (stripe_webhook constructEvent raw sig w)))) = 200
     \<and> balance (snd (stripe_webhook constructEvent raw sig
                       (snd (stripe_webhook constructEvent raw sig w)))) (order_userId ord) =
         Some (b + 2 * credit_amount ord)
     \<and> status (fst (asaas_webhook expected areq w)) = 200
     \<and> balance (snd (asaas_webhook expected areq w)) (order_userId ord) =
         Some (b + credit_amount ord)
     \<and> status (fst (asaas_webhook expected areq (snd (asaas_webhook expected areq w)))) = 200
     \<and> balance (snd (asaas_webhook expected areq (snd (asaas_webhook expected areq w))))
           (order_userId ord) = Some (b + 2 * credit_amount ord)"
proof -
  note t = complete_order_twice [OF assms(1,2,4)]
  have s: "stripe_webhook constructEvent raw sig v = webhook_reply (complete_order oid v)" for v
    using assms(5) assms(3) by (rule stripe_checkout_route)
  have a: "asaas_webhook expected areq v = webhook_reply (complete_order oid v)" for v
    using assms(6,7,8) assms(3) by (rule asaas_confirmed_route)
  show ?thesis
    by (simp add: s a webhook_reply_snd webhook_reply_ok t)
qed

text \<open>
  The Asaas route as mounted. A JSON body reaches the handler as a \<^verbatim>\<open>Buffer\<close>, so the event
  name is \<^verbatim>\<open>undefined\<close>, the \<^verbatim>\<open>switch\<close> takes its default branch, and a request with the right
  token is answered 200 with nothing written, whatever the body says. A form-encoded body
  is handled as its fields say.
\<close>

lemma asaas_route_json:
  "asaas_route expected (JsonBuffer bytes) expected w = (respond 200 [(''received'', JBool True)], w)"
  by (simp add: asaas_route_def asaas_webhook_def webhook_reply_def)

lemma asaas_route_form:
  "asaas_route expected (FormFields f) token w =
     asaas_webhook expected
       \<lparr>aq_event = af_event f, aq_payment = af_payment f, aq_subscription = af_subscription f,
        aq_token = token\<rparr> w"
  by (simp add: asaas_route_def)

lemma world_ordered_eq:
  "world_ordered = world_empty\<lparr>db := db_empty\<lparr>users :=
     [\<lparr>user_id = ''usr1'', keycloakId = ''kc1'', email = ''ana@example.com'',
       user_name = Some ''Ana'', credits = 3, deletedAt = None, createdAt = 1000\<rparr>],
     orders := [\<lparr>order_id = ''ord1'', order_userId = ''usr1'', order_type = ''credits'',
                 order_status = ''pending'', amount = 490, currency = ''EUR'',
                 order_credits = Some 10, paymentProvider = Some ''stripe'',
                 paymentId = Some ''cs_test_1''\<rparr>]\<rparr>\<rparr>"
  by (simp add: world_ordered_def world_new_eq purchase_credits_def CREDIT_PACKAGES_def
      findUnique_def world_empty_def db_empty_def new_credit_order_def set_payment_def
      prisma_update_def prisma_create_def Let_def)

lemma world_asaas_eq:
  "world_asaas = world_empty\<lparr>db := db_empty\<lparr>users :=
     [\<lparr>user_id = ''usr1'', keycloakId = ''kc1'', email = ''ana@example.com'',
       user_name = Some ''Ana'', credits = 3, deletedAt = None, createdAt = 1000\<rparr>],
     orders := [\<lparr>order_id = ''ord2'', order_userId = ''usr1'', order_type = ''credits'',
                 order_status = ''pending'', amount = 1990, currency = ''BRL'',
                 order_credits = Some 10, paymentProvider = Some ''asaas'',
                 paymentId = Some ''pay_1''\<rparr>]\<rparr>\<rparr>"
  by (simp add: world_asaas_def world_new_eq purchase_credits_def CREDIT_PACKAGES_def
      findUnique_def world_empty_def db_empty_def new_credit_order_def set_payment_def
      prisma_update_def prisma_create_def Let_def)

lemma world_ordered_deliveries:
  "balance world_ordered ''usr1'' = Some 3
   \<and> balance (snd (stripe_webhook stripe_ok ''ord1'' (Some ''t=1,v1=5257'') world_ordered)) ''usr1'' = Some 13
   \<and> balance (snd (stripe_webhook stripe_ok ''ord1'' (Some ''t=1,v1=5257'')
                 (snd (stripe_webhook stripe_ok ''ord1'' (Some ''t=1,v1=5257'') world_ordered)))) ''usr1''
       = Some 23"
proof -
  let ?ord = "\<lparr>order_id = ''ord1'', order_userId = ''usr1'', order_type = ''credits'',
                 order_status = ''pending'', amount = 490, currency = ''EUR'',
                 order_credits = Some 10, paymentProvider = Some ''stripe'',
                 paymentId = Some ''cs_test_1''\<rparr>"
  have h1: "findUnique (\<lambda>r. order_id r = ''ord1'') (orders (db world_ordered)) = Some ?ord"
    by (simp add: world_ordered_eq findUnique_def db_empty_def)
  have h2: "order_type ?ord = ''credits''" by simp
  have h3: "''ord1'' \<noteq> []" by simp
  have h4: "balance world_ordered (order_userId ?ord) = Some 3"
    by (simp add: world_ordered_eq balance_def findUnique_def db_empty_def)
  have h5: "stripe_ok ''ord1'' (Some ''t=1,v1=5257'') = Some (CheckoutSessionCompleted (Some ''ord1''))"
    by (simp add: stripe_ok_def)
  have h6: "aq_token asaas_paid = Some ''whk''" by (simp add: asaas_paid_def)
  have h7: "aq_event asaas_paid = Some ''PAYMENT_CONFIRMED'' \<or> aq_event asaas_paid = Some ''PAYMENT_RECEIVED''"
    by (simp add: asaas_paid_def)
  have h8: "aq_payment asaas_paid = Some (Some ''ord1'')" by (simp add: asaas_paid_def)
  from payment_handlers_credit_each_delivery
         [where constructEvent = stripe_ok and raw = "''ord1''" and sig = "Some ''t=1,v1=5257''",
          OF h1 h2 h3 h4 h5 h6 h7 h8] h4
  show ?thesis by (simp add: credit_amount_def)
qed

lemma world_asaas_deliveries:
  "balance world_asaas ''usr1'' = Some 3
   \<and> balance (snd (asaas_webhook (Some ''whk'') asaas_confirmed world_asaas)) ''usr1'' = Some 13
   \<and> balance (snd (asaas_webhook (Some ''whk'') asaas_confirmed
                 (snd (asaas_webhook (Some ''whk'') asaas_confirmed world_asaas)))) ''usr1'' = Some 23"
proof -
  let ?ord = "\<lparr>order_id = ''ord2'', order_userId = ''usr1'', order_type = ''credits'',
                 order_status = ''pending'', amount = 1990, currency = ''BRL'',
                 order_credits = Some 10, paymentProvider = Some ''asaas'',
                 paymentId = Some ''pay_1''\<rparr>"
  have h1: "findUnique (\<lambda>r. order_id r = ''ord2'') (orders (db world_asaas)) = Some ?ord"
    by (simp add: world_asaas_eq findUnique_def db_empty_def)
  have h2: "order_type ?ord = ''credits''" by simp
  have h3: "''ord2'' \<noteq> []" by simp
  have h4: "balance world_asaas (order_userId ?ord) = Some 3"
    by (simp add: world_asaas_eq balance_def findUnique_def db_empty_def)
  have h5: "stripe_ok ''ord2'' (Some ''t=1,v1=5257'') = Some (CheckoutSessionCompleted (Some ''ord2''))"
    by (simp add: stripe_ok_def)
  have h6: "aq_token asaas_confirmed = Some ''whk''" by (simp add: asaas_confirmed_def)
  have h7: "aq_event asaas_confirmed = Some ''PAYMENT_CONFIRMED'' \<or>
            aq_event asaas_confirmed = Some ''PAYMENT_RECEIVED''"
    by (simp add: asaas_confirmed_def)
  have h8: "aq_payment asaas_confirmed = Some (Some ''ord2'')" by (simp add: asaas_confirmed_def)
  from payment_handlers_credit_each_delivery
         [where constructEvent = stripe_ok and raw = "''ord2''" and sig = "Some ''t=1,v1=5257''",
          OF h1 h2 h3 h4 h5 h6 h7 h8] h4
  show ?thesis by (simp add: credit_amount_def)
qed

text \<open>
  C4. The claim holds of the Stripe route and fails of the Asaas route as the application
  mounts it. User \<open>usr1\<close> holds 3 credits and a pending credits order \<open>ord2\<close> for 10, bought
  through Asaas. Asaas delivers \<^verbatim>\<open>PAYMENT_CONFIRMED\<close> for it as JSON with the right access
  token. The route answers 200 and writes nothing: the balance is 3 after one delivery and
  after two, and the order stays pending. The same event given to the handler as a parsed
  object raises the balance to 13 and, given again, to 23; so does the Stripe route for
  an order bought through Stripe.
\<close>

theorem asaas_json_delivery_credits_nothing:
  "balance world_asaas ''usr1'' = Some 3
   \<and> map order_status (orders (db world_asaas)) = [''pending'']
   \<and> map paymentProvider (orders (db world_asaas)) = [Some ''asaas'']
   \<and> asaas_route (Some ''whk'') (JsonBuffer asaas_delivery) (Some ''whk'') world_asaas =
       (\<lparr>status = 200, body = [(''received'', JBool True)]\<rparr>, world_asaas)
   \<and> balance (snd (asaas_route (Some ''whk'') (JsonBuffer asaas_delivery) (Some ''whk'')
                 world_asaas)) ''usr1'' = Some 3
   \<and> balance (snd (asaas_route (Some ''whk'') (JsonBuffer asaas_delivery) (Some ''whk'')
                 (snd (asaas_route (Some ''whk'') (JsonBuffer asaas_delivery) (Some ''whk'')
                         world_asaas)))) ''usr1'' = Some 3
   \<and> balance (snd (asaas_webhook (Some ''whk'') asaas_confirmed world_asaas)) ''usr1'' = Some 13
   \<and> balance (snd (asaas_webhook (Some ''whk'') asaas_confirmed
                 (snd (asaas_webhook (Some ''whk'') asaas_confirmed world_asaas)))) ''usr1'' = Some 23
   \<and> balance (snd (stripe_webhook stripe_ok ''ord1'' (Some ''t=1,v1=5257'') world_ordered)) ''usr1''
       = Some 13
   \<and> balance (snd (stripe_webhook stripe_ok ''ord1'' (Some ''t=1,v1=5257'')
                 (snd (stripe_webhook stripe_ok ''ord1'' (Some ''t=1,v1=5257'') world_ordered)))) ''usr1''
       = Some 23"
proof -
  have r: "asaas_route (Some ''whk'') (JsonBuffer asaas_delivery) (Some ''whk'') v =
             (\<lparr>status = 200, body = [(''received'', JBool True)]\<rparr>, v)" for v
    by (simp add: asaas_route_json respond_def json_def)
  have p: "map order_status (orders (db world_asaas)) = [''pending'']
           \<and> map paymentProvider (orders (db world_asaas)) = [Some ''asaas'']"
    by (simp add: world_asaas_eq db_empty_def)
  from world_asaas_deliveries world_ordered_deliveries p show ?thesis
    by (simp add: r)
qed

text \<open>
  C6 (as amended). A webhook request that fails verification is turned away with the world
  untouched, so no database row changes: Stripe answers 400 when \<^verbatim>\<open>constructEvent\<close> throws,
  Asaas answers 401 when the access token differs from the configured one, and the n8n
  endpoint, when a secret is configured and the signature is not the expected one, leaves
  the world alone and answers 401 if the signature has the expected length.
\<close>

theorem unverified_webhook_rejected:
  "(constructEvent raw sig = None \<longrightarrow>
      stripe_webhook constructEvent raw sig w = (respond 400 [(''error'', JStr ''Invalid signature'')], w))
   \<and> (aq_token areq \<noteq> expected \<longrightarrow>
      asaas_webhook expected areq w = (respond 401 [(''error'', JStr ''Invalid token'')], w))
   \<and> (truthy_str secret \<and> or_empty signature \<noteq> hmac (or_empty secret) b \<longrightarrow>
      snd (n8n_webhook secret hmac b signature now w) = w \<and>
      (length (or_empty signature) = length (hmac (or_empty secret) b) \<longrightarrow>
         n8n_webhook secret hmac b signature now w =
           (respond 401 [(''error'', JStr ''Invalid signature'')], w)))"
  by (simp add: stripe_webhook_def asaas_webhook_def n8n_webhook_def verifyN8NSignature_def Let_def)

theorem unverified_webhook_rejected_witness:
  "stripe_webhook stripe_ok ''ord1'' (Some ''forged'') world_ordered =
     (\<lparr>status = 400, body = [(''error'', JStr ''Invalid signature'')]\<rparr>, world_ordered)
   \<and> asaas_webhook (Some ''whk'') (asaas_paid\<lparr>aq_token := Some ''guess''\<rparr>) world_ordered =
     (\<lparr>status = 401, body = [(''error'', JStr ''Invalid token'')]\<rparr>, world_ordered)
   \<and> n8n_webhook (Some ''s3cr3t'') hmac0 n8n_done (Some ''0000'') 5000 world_ordered =
     (\<lparr>status = 401, body = [(''error'', JStr ''Invalid signature'')]\<rparr>, world_ordered)"
proof -
  have h1: "stripe_ok ''ord1'' (Some ''forged'') = None" by (simp add: stripe_ok_def)
  have h2: "aq_token (asaas_paid\<lparr>aq_token := Some ''guess''\<rparr>) \<noteq> Some ''whk''" by simp
  have h3: "truthy_str (Some ''s3cr3t'') \<and> or_empty (Some ''0000'') \<noteq> hmac0 (or_empty (Some ''s3cr3t'')) n8n_done"
    by (simp add: hmac0_def)
  have h4: "length (or_empty (Some ''0000'')) = length (hmac0 (or_empty (Some ''s3cr3t'')) n8n_done)"
    by (simp add: hmac0_def)
  note th = unverified_webhook_rejected
      [where constructEvent = stripe_ok and raw = "''ord1''" and sig = "Some ''forged''"
         and w = world_ordered and areq = "asaas_paid\<lparr>aq_token := Some ''guess''\<rparr>"
         and expected = "Some ''whk''" and secret = "Some ''s3cr3t''" and hmac = hmac0
         and b = n8n_done and signature = "Some ''0000''" and now = 5000]
  from th h1 have a: "stripe_webhook stripe_ok ''ord1'' (Some ''forged'') world_ordered =
      (respond 400 [(''error'', JStr ''Invalid signature'')], world_ordered)" by blast
  from th h2 have b: "asaas_webhook (Some ''whk'') (asaas_paid\<lparr>aq_token := Some ''guess''\<rparr>) world_ordered =
      (respond 401 [(''error'', JStr ''Invalid token'')], world_ordered)" by blast
  from th h3 h4 have c: "n8n_webhook (Some ''s3cr3t'') hmac0 n8n_done (Some ''0000'') 5000 world_ordered =
      (respond 401 [(''error'', JStr ''Invalid signature'')], world_ordered)" by blast
  show ?thesis by (simp add: a b c respond_def json_def)
qed

text \<open>
  C6 as stated fails: a Stripe delivery with a forged signature is answered 400, which is
  neither 401 nor 403.
\<close>

theorem stripe_bad_signature_is_400_counterexample:
  "stripe_ok ''ord1'' (Some ''forged'') = None
   \<and> status (fst (stripe_webhook stripe_ok ''ord1'' (Some ''forged'') world_ordered)) = 400
   \<and> status (fst (stripe_webhook stripe_ok ''ord1'' (Some ''forged'') world_ordered)) \<noteq> 401
   \<and> status (fst (stripe_webhook stripe_ok ''ord1'' (Some ''forged'') world_ordered)) \<noteq> 403"
  by (simp add: stripe_ok_def stripe_webhook_def respond_def)


section \<open>Properties of the user profile endpoint and the authentication middleware\<close>



text \<open>
  What the profile endpoint refuses: a first login without an email (400), and a first
  login whose email, or whose generated id, a row of the table already holds, which the
  store refuses and the handler answers 500. Neither creates a row.
\<close>

lemma get_me_refusals:
  assumes "findUnique (\<lambda>u. keycloakId u = ru_id ru) (users (db w)) = None"
  shows "ru_email ru = [] \<Longrightarrow>
           get_me ru newId now w = (MeRefused (respond 400 [(''message'', JStr no_email_message)]), w)"
    and "ru_email ru \<noteq> [] \<Longrightarrow>
           ru_email ru \<in> email ` set (users (db w)) \<or> newId \<in> user_id ` set (users (db w)) \<Longrightarrow>
           get_me ru newId now w =
             (MeRefused (respond 500 [(''error'', JStr ''Failed to get user profile'')]), w)"
  using assms
  by (auto simp: get_me_def Let_def prisma_create_def list_ex_iff user_clash_def)


lemma world_deleted_eq:
  "world_deleted = world_empty\<lparr>db := db_empty\<lparr>users :=
     [\<lparr>user_id = ''usr1'', keycloakId = ''kc1'', email = ''ana@example.com'',
       user_name = Some ''Ana'', credits = 3, deletedAt = Some 2000, createdAt = 1000\<rparr>]\<rparr>,
     keycloak := [(KcLogoutUser ''kc1'', True), (KcDisableUser ''kc1'', True)]\<rparr>"
  by (simp add: world_deleted_def world_new_eq delete_me_def findUnique_def prisma_update_def
      keycloakDisableAndLogoutUser_def keycloakLogoutUser_def keycloakDisableUser_def
      kc_request_def kc_ok_def ru0_def world_empty_def db_empty_def Let_def)



text \<open>
  C10 (as amended). The middleware decides from its cache entry when the token has one,
  and from the database otherwise. Without a cache entry, a valid token whose user row is
  soft-deleted is answered 403 \<^verbatim>\<open>Conta desativada\<close>, and a valid token whose user has no row
  or a row that is not soft-deleted is passed on; either way the decision is written to
  the cache under the token with a life of 60 seconds, and nothing else changes. With a
  cache entry the world stays untouched: an entry marked blocked is answered 403, any
  other entry passes the request on with the user it holds, whatever the database says.
  Whenever the middleware calls \<^verbatim>\<open>next\<close>, either the token had an entry not marked blocked,
  or there was no entry and the user's row, if any, carries no soft-delete timestamp. A
  missing or empty token is answered 401; without a cache entry, so is a token the
  identity provider does not accept, and a failed call to the provider is answered 500;
  none of these writes anything.
\<close>

theorem keycloakMiddleware_blocks_soft_deleted:
  "(\<forall>token decoded.
       getBearerToken auth = Some token \<and> token \<noteq> [] \<and>
       authCache w (''auth:v1:'' @ token) = None \<and>
       introspectToken kc token = Inr (Some decoded) \<longrightarrow>
       (\<forall>u. findUnique (\<lambda>u. keycloakId u = or_empty (sub decoded)) (users (db w)) = Some u \<and>
             deletedAt u \<noteq> None \<longrightarrow>
             keycloakMiddleware kc auth w =
               (Responded (respond 403 [(''error'', JStr ''Conta desativada'')]),
                w\<lparr>authCache := (authCache w)(''auth:v1:'' @ token \<mapsto>
                     \<lparr>ae_user = user_of_token decoded, ae_blocked = True, ae_ttl = 60\<rparr>)\<rparr>))
       \<and> ((\<forall>u. findUnique (\<lambda>u. keycloakId u = or_empty (sub decoded)) (users (db w)) = Some u \<longrightarrow>
                deletedAt u = None) \<longrightarrow>
             keycloakMiddleware kc auth w =
               (Next (user_of_token decoded),
                w\<lparr>authCache := (authCache w)(''auth:v1:'' @ token \<mapsto>
                     \<lparr>ae_user = user_of_token decoded, ae_blocked = False, ae_ttl = 60\<rparr>)\<rparr>)))
   \<and> (\<forall>token e.
       getBearerToken auth = Some token \<and> token \<noteq> [] \<and>
       authCache w (''auth:v1:'' @ token) = Some e \<longrightarrow>
       keycloakMiddleware kc auth w =
         (if ae_blocked e then Responded (respond 403 [(''error'', JStr ''Conta desativada'')])
          else Next (ae_user e), w))
   \<and> (\<forall>ru. fst (keycloakMiddleware kc auth w) = Next ru \<longrightarrow>
         (\<exists>token. getBearerToken auth = Some token \<and> token \<noteq> [] \<and>
            (case authCache w (''auth:v1:'' @ token) of
               Some e \<Rightarrow> \<not> ae_blocked e \<and> ru = ae_user e
             | None \<Rightarrow>
                 (case findUnique (\<lambda>u. keycloakId u = ru_id ru) (users (db w)) of
                    None \<Rightarrow> True
                  | Some u \<Rightarrow> deletedAt u = None))))
   \<and> (getBearerToken auth = None \<or> getBearerToken auth = Some [] \<longrightarrow>
         keycloakMiddleware kc auth w =
           (Responded (respond 401 [(''error'', JStr ''Authorization header missing or invalid'')]), w))
   \<and> (\<forall>token.
       getBearerToken auth = Some token \<and> token \<noteq> [] \<and>
       authCache w (''auth:v1:'' @ token) = None \<longrightarrow>
       (introspectToken kc token = Inr None \<longrightarrow>
          keycloakMiddleware kc auth w =
            (Responded (respond 401 [(''error'', JStr ''Invalid or expired token'')]), w))
       \<and> (\<forall>e. introspectToken kc token = Inl e \<longrightarrow>
          keycloakMiddleware kc auth w = (Responded (respond 500 [(''error'', JStr ''Auth error'')]), w)))"
proof (intro conjI allI impI)
  fix token decoded u
  assume "getBearerToken auth = Some token \<and> token \<noteq> [] \<and>
       authCache w (''auth:v1:'' @ token) = None \<and>
       introspectToken kc token = Inr (Some decoded)"
    and "findUnique (\<lambda>u. keycloakId u = or_empty (sub decoded)) (users (db w)) = Some u \<and>
             deletedAt u \<noteq> None"
  then show "keycloakMiddleware kc auth w =
               (Responded (respond 403 [(''error'', JStr ''Conta desativada'')]),
                w\<lparr>authCache := (authCache w)(''auth:v1:'' @ token \<mapsto>
                     \<lparr>ae_user = user_of_token decoded, ae_blocked = True, ae_ttl = 60\<rparr>)\<rparr>)"
    by (simp add: keycloakMiddleware_def Let_def user_of_token_def)
next
  fix token decoded
  assume h: "getBearerToken auth = Some token \<and> token \<noteq> [] \<and>
       authCache w (''auth:v1:'' @ token) = None \<and>
       introspectToken kc token = Inr (Some decoded)"
    and a: "\<forall>u. findUnique (\<lambda>u. keycloakId u = or_empty (sub decoded)) (users (db w)) = Some u \<longrightarrow>
                deletedAt u = None"
  have id: "ru_id (user_of_token decoded) = or_empty (sub decoded)"
    by (simp add: user_of_token_def Let_def)
  from a have nb: "(case findUnique (\<lambda>u. keycloakId u = or_empty (sub decoded)) (users (db w)) of
                      None \<Rightarrow> False | Some u \<Rightarrow> deletedAt u \<noteq> None) = False"
    by (simp split: option.splits)
  show "keycloakMiddleware kc auth w =
               (Next (user_of_token decoded),
                w\<lparr>authCache := (authCache w)(''auth:v1:'' @ token \<mapsto>
                     \<lparr>ae_user = user_of_token decoded, ae_blocked = False, ae_ttl = 60\<rparr>)\<rparr>)"
    using h by (simp add: keycloakMiddleware_def Let_def id nb)
next
  fix token e
  assume "getBearerToken auth = Some token \<and> token \<noteq> [] \<and>
       authCache w (''auth:v1:'' @ token) = Some e"
  then show "keycloakMiddleware kc auth w =
         (if ae_blocked e then Responded (respond 403 [(''error'', JStr ''Conta desativada'')])
          else Next (ae_user e), w)"
    by (simp add: keycloakMiddleware_def)
next
  fix ru
  assume "fst (keycloakMiddleware kc auth w) = Next ru"
  then show "\<exists>token. getBearerToken auth = Some token \<and> token \<noteq> [] \<and>
            (case authCache w (''auth:v1:'' @ token) of
               Some e \<Rightarrow> \<not> ae_blocked e \<and> ru = ae_user e
             | None \<Rightarrow>
                 (case findUnique (\<lambda>u. keycloakId u = ru_id ru) (users (db w)) of
                    None \<Rightarrow> True
                  | Some u \<Rightarrow> deletedAt u = None))"
    by (cases "getBearerToken auth")
       (auto simp: keycloakMiddleware_def Let_def split: option.splits sum.splits if_splits)
next
  assume "getBearerToken auth = None \<or> getBearerToken auth = Some []"
  then show "keycloakMiddleware kc auth w =
           (Responded (respond 401 [(''error'', JStr ''Authorization header missing or invalid'')]), w)"
    by (auto simp: keycloakMiddleware_def)
next
  fix token
  assume "getBearerToken auth = Some token \<and> token \<noteq> [] \<and>
       authCache w (''auth:v1:'' @ token) = None"
    and "introspectToken kc token = Inr None"
  then show "keycloakMiddleware kc auth w =
            (Responded (respond 401 [(''error'', JStr ''Invalid or expired token'')]), w)"
    by (simp add: keycloakMiddleware_def)
next
  fix token e
  assume "getBearerToken auth = Some token \<and> token \<noteq> [] \<and>
       authCache w (''auth:v1:'' @ token) = None"
    and "introspectToken kc token = Inl e"
  then show "keycloakMiddleware kc auth w = (Responded (respond 500 [(''error'', JStr ''Auth error'')]), w)"
    by (simp add: keycloakMiddleware_def)
qed

lemma bearer_tok1: "getBearerToken (Some ''Bearer tok1'') = Some ''tok1''"
  by code_simp

lemma bearer_two: "getBearerToken (Some ''BEARER  tok1'') = None"
  by code_simp

lemma intro_tok1: "introspectToken introspect0 ''tok1'' =
   Inr (Some \<lparr>active = True, sub = Some ''kc1'', i_email = Some ''ana@example.com'',
           preferred_username = Some ''ana'', i_name = Some ''Ana'', realm_roles = Some [''user''],
           client_roles = None\<rparr>)"
  by (simp add: introspectToken_def introspect0_def)

lemma user_tok1: "user_of_token \<lparr>active = True, sub = Some ''kc1'', i_email = Some ''ana@example.com'',
           preferred_username = Some ''ana'', i_name = Some ''Ana'', realm_roles = Some [''user''],
           client_roles = None\<rparr> = ru0"
  by (simp add: user_of_token_def ru0_def roles_or_empty_def Let_def)

lemma world_seen_eq:
  "world_seen = world_new\<lparr>authCache := (authCache world_new)
      (''auth:v1:tok1'' \<mapsto> \<lparr>ae_user = ru0, ae_blocked = False, ae_ttl = 60\<rparr>)\<rparr>"
  by (simp add: world_seen_def keycloakMiddleware_def bearer_tok1 intro_tok1 user_tok1 Let_def
      world_new_eq world_empty_def db_empty_def findUnique_def ru0_def)

lemma first_request_passes:
  "fst (keycloakMiddleware introspect0 (Some ''Bearer tok1'') world_new) = Next ru0"
  by (simp add: keycloakMiddleware_def bearer_tok1 intro_tok1 user_tok1 Let_def
      world_new_eq world_empty_def db_empty_def findUnique_def ru0_def)

lemma world_seen_deleted_users:
  "users (db world_seen_deleted) =
     [\<lparr>user_id = ''usr1'', keycloakId = ''kc1'', email = ''ana@example.com'',
       user_name = Some ''Ana'', credits = 3, deletedAt = Some 2000, createdAt = 1000\<rparr>]"
  by (simp add: world_seen_deleted_def world_seen_eq world_new_eq delete_me_def findUnique_def
      prisma_update_def keycloakDisableAndLogoutUser_def keycloakLogoutUser_def
      keycloakDisableUser_def kc_request_def kc_ok_def ru0_def world_empty_def db_empty_def Let_def)

lemma world_seen_deleted_cache:
  "authCache world_seen_deleted ''auth:v1:tok1'' = Some \<lparr>ae_user = ru0, ae_blocked = False, ae_ttl = 60\<rparr>"
  by (simp add: world_seen_deleted_def world_seen_eq world_new_eq delete_me_def findUnique_def
      prisma_update_def keycloakDisableAndLogoutUser_def keycloakLogoutUser_def
      keycloakDisableUser_def kc_request_def kc_ok_def ru0_def world_empty_def db_empty_def Let_def)

text \<open>
  C10 as stated fails while a cache entry written before the deletion is alive: the user
  authenticates, deletes the account, and the next request with the same token is still
  passed on to the route handler although the row now carries \<^verbatim>\<open>deletedAt\<close>.
\<close>

theorem stale_auth_cache_lets_deleted_user_in_counterexample:
  "fst (keycloakMiddleware introspect0 (Some ''Bearer tok1'') world_new) = Next ru0
   \<and> map deletedAt (users (db world_seen_deleted)) = [Some 2000]
   \<and> map keycloakId (users (db world_seen_deleted)) = [ru_id ru0]
   \<and> keycloakMiddleware introspect0 (Some ''Bearer tok1'') world_seen_deleted =
       (Next ru0, world_seen_deleted)"
  by (simp add: first_request_passes world_seen_deleted_users ru0_def)
     (simp add: keycloakMiddleware_def bearer_tok1 world_seen_deleted_cache ru0_def)

lemma bearer_tok2: "getBearerToken (Some ''Bearer tok2'') = Some ''tok2''"
  by code_simp

lemma bearer_blank: "getBearerToken (Some (''Bearer '' @ [CHR 0xC2, CHR 0xA0])) = Some []"
  by code_simp

lemma bearer_nbsp: "getBearerToken (Some (''Bearer tok1'' @ [CHR 0xC2, CHR 0xA0])) = Some ''tok1''"
  by code_simp

theorem keycloakMiddleware_blocks_soft_deleted_witness:
  "keycloakMiddleware introspect0 (Some ''Bearer tok1'') world_new = (Next ru0, world_seen)
   \<and> authCache world_seen ''auth:v1:tok1'' = Some \<lparr>ae_user = ru0, ae_blocked = False, ae_ttl = 60\<rparr>
   \<and> keycloakMiddleware introspect0 (Some ''Bearer tok1'') world_seen = (Next ru0, world_seen)
   \<and> keycloakMiddleware introspect0 (Some ''Bearer tok1'') (auth_expire ''tok1'' world_seen_deleted) =
       (Responded \<lparr>status = 403, body = [(''error'', JStr ''Conta desativada'')]\<rparr>,
        (auth_expire ''tok1'' world_seen_deleted)
          \<lparr>authCache := (authCache (auth_expire ''tok1'' world_seen_deleted))
             (''auth:v1:tok1'' \<mapsto> \<lparr>ae_user = ru0, ae_blocked = True, ae_ttl = 60\<rparr>)\<rparr>)
   \<and> keycloakMiddleware introspect0 (Some ''Bearer tok1'')
        (snd (keycloakMiddleware introspect0 (Some ''Bearer tok1'') (auth_expire ''tok1'' world_seen_deleted))) =
       (Responded \<lparr>status = 403, body = [(''error'', JStr ''Conta desativada'')]\<rparr>,
        snd (keycloakMiddleware introspect0 (Some ''Bearer tok1'') (auth_expire ''tok1'' world_seen_deleted)))
   \<and> keycloakMiddleware introspect0 (Some (''Bearer '' @ [CHR 0xC2, CHR 0xA0])) world_new =
       (Responded \<lparr>status = 401, body = [(''error'', JStr ''Authorization header missing or invalid'')]\<rparr>,
        world_new)
   \<and> keycloakMiddleware introspect0 (Some ''Bearer tok2'') world_new =
       (Responded \<lparr>status = 401, body = [(''error'', JStr ''Invalid or expired token'')]\<rparr>, world_new)
   \<and> keycloakMiddleware (\<lambda>token. None) (Some ''Bearer tok1'') world_new =
       (Responded \<lparr>status = 500, body = [(''error'', JStr ''Auth error'')]\<rparr>, world_new)"
proof -
  let ?auth = "Some ''Bearer tok1''"
  let ?w = "auth_expire ''tok1'' world_seen_deleted"
  let ?dec = "\<lparr>active = True, sub = Some ''kc1'', i_email = Some ''ana@example.com'',
           preferred_username = Some ''ana'', i_name = Some ''Ana'', realm_roles = Some [''user''],
           client_roles = None\<rparr>"
  let ?u = "\<lparr>user_id = ''usr1'', keycloakId = ''kc1'', email = ''ana@example.com'',
       user_name = Some ''Ana'', credits = 3, deletedAt = Some 2000, createdAt = 1000\<rparr>"
  let ?fresh = "\<lparr>user_id = ''usr1'', keycloakId = ''kc1'', email = ''ana@example.com'',
       user_name = Some ''Ana'', credits = 3, deletedAt = None, createdAt = 1000\<rparr>"
  have tok: "getBearerToken ?auth = Some ''tok1'' \<and> ''tok1'' \<noteq> []"
    by (simp add: bearer_tok1)
  have miss0: "authCache world_new (''auth:v1:'' @ ''tok1'') = None"
    by (simp add: world_new_eq world_empty_def)
  have users0: "users (db world_new) = [?fresh]"
    by (simp add: world_new_eq db_empty_def)
  have live: "\<forall>u. findUnique (\<lambda>u. keycloakId u = or_empty (sub ?dec)) (users (db world_new)) = Some u \<longrightarrow>
                deletedAt u = None"
    by (auto simp: users0 findUnique_def)
  note th0 = keycloakMiddleware_blocks_soft_deleted [of ?auth world_new introspect0]
  from th0 tok miss0 intro_tok1 live
  have "keycloakMiddleware introspect0 ?auth world_new =
          (Next (user_of_token ?dec),
           world_new\<lparr>authCache := (authCache world_new)(''auth:v1:'' @ ''tok1'' \<mapsto>
              \<lparr>ae_user = user_of_token ?dec, ae_blocked = False, ae_ttl = 60\<rparr>)\<rparr>)"
    by blast
  then have a: "keycloakMiddleware introspect0 ?auth world_new = (Next ru0, world_seen)"
    by (simp add: user_tok1 world_seen_eq)
  have entry: "authCache world_seen ''auth:v1:tok1'' =
                 Some \<lparr>ae_user = ru0, ae_blocked = False, ae_ttl = 60\<rparr>"
    by (simp add: world_seen_eq)
  note th1 = keycloakMiddleware_blocks_soft_deleted [of ?auth world_seen introspect0]
  from entry have entry': "authCache world_seen (''auth:v1:'' @ ''tok1'') =
                 Some \<lparr>ae_user = ru0, ae_blocked = False, ae_ttl = 60\<rparr>"
    by simp
  from th1 tok entry'
  have "keycloakMiddleware introspect0 ?auth world_seen =
          (if ae_blocked \<lparr>ae_user = ru0, ae_blocked = False, ae_ttl = 60\<rparr>
           then Responded (respond 403 [(''error'', JStr ''Conta desativada'')])
           else Next (ae_user \<lparr>ae_user = ru0, ae_blocked = False, ae_ttl = 60\<rparr>), world_seen)"
    by blast
  then have b: "keycloakMiddleware introspect0 ?auth world_seen = (Next ru0, world_seen)"
    by simp
  have users: "users (db ?w) = [?u]"
    by (simp add: auth_expire_def world_seen_deleted_users)
  have miss: "authCache ?w (''auth:v1:'' @ ''tok1'') = None"
    by (simp add: auth_expire_def)
  have gone: "findUnique (\<lambda>u. keycloakId u = or_empty (sub ?dec)) (users (db ?w)) = Some ?u \<and>
             deletedAt ?u \<noteq> None"
    by (simp add: users findUnique_def)
  note th2 = keycloakMiddleware_blocks_soft_deleted [of ?auth ?w introspect0]
  from th2 tok miss intro_tok1 gone
  have "keycloakMiddleware introspect0 ?auth ?w =
          (Responded (respond 403 [(''error'', JStr ''Conta desativada'')]),
           ?w\<lparr>authCache := (authCache ?w)(''auth:v1:'' @ ''tok1'' \<mapsto>
              \<lparr>ae_user = user_of_token ?dec, ae_blocked = True, ae_ttl = 60\<rparr>)\<rparr>)"
    by blast
  then have c: "keycloakMiddleware introspect0 ?auth ?w =
       (Responded \<lparr>status = 403, body = [(''error'', JStr ''Conta desativada'')]\<rparr>,
        ?w\<lparr>authCache := (authCache ?w)
             (''auth:v1:tok1'' \<mapsto> \<lparr>ae_user = ru0, ae_blocked = True, ae_ttl = 60\<rparr>)\<rparr>)"
    by (simp add: user_tok1 respond_def json_def)
  let ?w2 = "snd (keycloakMiddleware introspect0 ?auth ?w)"
  have cache2: "authCache ?w2 (''auth:v1:'' @ ''tok1'') =
                  Some \<lparr>ae_user = ru0, ae_blocked = True, ae_ttl = 60\<rparr>"
    by (simp add: c)
  note th3 = keycloakMiddleware_blocks_soft_deleted [of ?auth ?w2 introspect0]
  from th3 tok cache2
  have "keycloakMiddleware introspect0 ?auth ?w2 =
          (if ae_blocked \<lparr>ae_user = ru0, ae_blocked = True, ae_ttl = 60\<rparr>
           then Responded (respond 403 [(''error'', JStr ''Conta desativada'')])
           else Next (ae_user \<lparr>ae_user = ru0, ae_blocked = True, ae_ttl = 60\<rparr>), ?w2)"
    by blast
  then have d: "keycloakMiddleware introspect0 ?auth ?w2 =
       (Responded \<lparr>status = 403, body = [(''error'', JStr ''Conta desativada'')]\<rparr>, ?w2)"
    by (simp add: respond_def json_def)
  note th4 = keycloakMiddleware_blocks_soft_deleted
      [of "Some (''Bearer '' @ [CHR 0xC2, CHR 0xA0])" world_new introspect0]
  from th4 bearer_blank
  have "keycloakMiddleware introspect0 (Some (''Bearer '' @ [CHR 0xC2, CHR 0xA0])) world_new =
          (Responded (respond 401 [(''error'', JStr ''Authorization header missing or invalid'')]),
           world_new)"
    by blast
  then have e: "keycloakMiddleware introspect0 (Some (''Bearer '' @ [CHR 0xC2, CHR 0xA0])) world_new =
       (Responded \<lparr>status = 401, body = [(''error'', JStr ''Authorization header missing or invalid'')]\<rparr>,
        world_new)"
    by (simp add: respond_def json_def)
  have tok2: "getBearerToken (Some ''Bearer tok2'') = Some ''tok2'' \<and> ''tok2'' \<noteq> []"
    by (simp add: bearer_tok2)
  have miss2: "authCache world_new (''auth:v1:'' @ ''tok2'') = None"
    by (simp add: world_new_eq world_empty_def)
  have bad: "introspectToken introspect0 ''tok2'' = Inr None"
    by (simp add: introspectToken_def introspect0_def)
  note th5 = keycloakMiddleware_blocks_soft_deleted [of "Some ''Bearer tok2''" world_new introspect0]
  from th5 tok2 miss2 bad
  have "keycloakMiddleware introspect0 (Some ''Bearer tok2'') world_new =
          (Responded (respond 401 [(''error'', JStr ''Invalid or expired token'')]), world_new)"
    by blast
  then have f: "keycloakMiddleware introspect0 (Some ''Bearer tok2'') world_new =
       (Responded \<lparr>status = 401, body = [(''error'', JStr ''Invalid or expired token'')]\<rparr>, world_new)"
    by (simp add: respond_def json_def)
  have down: "introspectToken (\<lambda>token. None) ''tok1'' = Inl RequestFailed"
    by (simp add: introspectToken_def)
  note th6 = keycloakMiddleware_blocks_soft_deleted [of ?auth world_new "\<lambda>token. None"]
  from th6 tok miss0 down
  have "keycloakMiddleware (\<lambda>token. None) ?auth world_new =
          (Responded (respond 500 [(''error'', JStr ''Auth error'')]), world_new)"
    by blast
  then have g: "keycloakMiddleware (\<lambda>token. None) ?auth world_new =
       (Responded \<lparr>status = 500, body = [(''error'', JStr ''Auth error'')]\<rparr>, world_new)"
    by (simp add: respond_def json_def)
  from a entry b c d e f g show ?thesis by blast
qed

section \<open>Properties of logout\<close>

text \<open>
  C8. \<^verbatim>\<open>POST /api/auth/logout\<close> answers 200 \<^verbatim>\<open>Logged out successfully\<close> whatever the body
  and whatever the identity provider does: without a body or without a truthy refresh
  token no call is made, and with one the call is made once and its failure changes
  nothing in the answer. \<^verbatim>\<open>keycloakDisableAndLogoutUser\<close> tries the logout, then the
  disable, and fails, with \<^verbatim>\<open>KEYCLOAK_DISABLE_FAILED\<close>, exactly when the disable call fails.
\<close>

theorem logout_always_succeeds:
  "fst (logout ok reqBody w) = \<lparr>status = 200, body = [(''message'', JStr ''Logged out successfully'')]\<rparr>
   \<and> snd (logout ok None w) = w
   \<and> (\<not> truthy (get_prop b ''refreshToken'') \<longrightarrow> snd (logout ok (Some b) w) = w)
   \<and> (truthy (get_prop b ''refreshToken'') \<longrightarrow>
        snd (logout ok (Some b) w) =
          w\<lparr>keycloak := keycloak w @
               [(KcEndSession (get_prop b ''refreshToken''), ok (KcEndSession (get_prop b ''refreshToken'')))]\<rparr>)
   \<and> fst (keycloakDisableAndLogoutUser ok uid w) =
        (if ok (KcDisableUser uid) then Inr () else Inl KEYCLOAK_DISABLE_FAILED)
   \<and> snd (keycloakDisableAndLogoutUser ok uid w) =
        w\<lparr>keycloak := keycloak w @
             [(KcLogoutUser uid, ok (KcLogoutUser uid)), (KcDisableUser uid, ok (KcDisableUser uid))]\<rparr>"
  by (simp add: logout_def logged_out_def respond_def json_def kc_request_def Let_def
      keycloakDisableAndLogoutUser_def keycloakLogoutUser_def keycloakDisableUser_def
      split: option.splits)


theorem logout_always_succeeds_witness:
  "logout kc_down (Some [(''refreshToken'', JStr ''rt1'')]) world_empty =
     (\<lparr>status = 200, body = [(''message'', JStr ''Logged out successfully'')]\<rparr>,
      world_empty\<lparr>keycloak := [(KcEndSession (JStr ''rt1''), False)]\<rparr>)
   \<and> logout kc_down (Some []) world_empty =
     (\<lparr>status = 200, body = [(''message'', JStr ''Logged out successfully'')]\<rparr>, world_empty)
   \<and> fst (keycloakDisableAndLogoutUser kc_only_disable ''kc1'' world_empty) = Inr ()
   \<and> fst (keycloakDisableAndLogoutUser kc_down ''kc1'' world_empty) = Inl KEYCLOAK_DISABLE_FAILED"
proof -
  have t: "truthy (get_prop [(''refreshToken'', JStr ''rt1'')] ''refreshToken'')"
    by (simp add: get_prop_def)
  have f: "\<not> truthy (get_prop [] ''refreshToken'')"
    by (simp add: get_prop_def)
  note a = logout_always_succeeds [of kc_down "Some [(''refreshToken'', JStr ''rt1'')]" world_empty
              "[(''refreshToken'', JStr ''rt1'')]" "''kc1''"]
  note b = logout_always_succeeds [of kc_down "Some []" world_empty "[]" "''kc1''"]
  note c = logout_always_succeeds [of kc_only_disable "Some []" world_empty "[]" "''kc1''"]
  from a t have a1: "fst (logout kc_down (Some [(''refreshToken'', JStr ''rt1'')]) world_empty) =
        \<lparr>status = 200, body = [(''message'', JStr ''Logged out successfully'')]\<rparr>"
    and a2: "snd (logout kc_down (Some [(''refreshToken'', JStr ''rt1'')]) world_empty) =
        world_empty\<lparr>keycloak := keycloak world_empty @
           [(KcEndSession (get_prop [(''refreshToken'', JStr ''rt1'')] ''refreshToken''),
             kc_down (KcEndSession (get_prop [(''refreshToken'', JStr ''rt1'')] ''refreshToken'')))]\<rparr>"
    by blast+
  from b f have b1: "fst (logout kc_down (Some []) world_empty) =
        \<lparr>status = 200, body = [(''message'', JStr ''Logged out successfully'')]\<rparr>"
    and b2: "snd (logout kc_down (Some []) world_empty) = world_empty"
    and b3: "fst (keycloakDisableAndLogoutUser kc_down ''kc1'' world_empty) =
        (if kc_down (KcDisableUser ''kc1'') then Inr () else Inl KEYCLOAK_DISABLE_FAILED)"
    by blast+
  from c have c1: "fst (keycloakDisableAndLogoutUser kc_only_disable ''kc1'' world_empty) =
        (if kc_only_disable (KcDisableUser ''kc1'') then Inr () else Inl KEYCLOAK_DISABLE_FAILED)"
    by blast
  have k0: "keycloak world_empty = []" by (simp add: world_empty_def)
  show ?thesis
    using a1 a2 b1 b2 b3 c1
    by (simp add: prod_eq_iff k0 get_prop_def kc_down_def)
qed


section \<open>Properties of the single-use tokens\<close>

lemma kc_request_db: "db (snd (kc_request ok c w)) = db w"
  by (simp add: kc_request_def)

text \<open>
  What holds of both confirmations: a token whose row is missing, already used or expired,
  or whose secret does not match the stored hash, is refused with \<^verbatim>\<open>INVALID_TOKEN\<close> and
  nothing is written. A password reset that returns normally has marked its row used, so
  the same token is refused from then on. The same holds of a reactivation whose
  transaction commits.
\<close>

lemma confirmPasswordReset_invalid:
  assumes "findUnique (\<lambda>t. tok_id t = or_empty (elem (split_on CHR ''.'' token) 0))
             (passwordResetTokens (db w)) = r"
    and "r = None \<or>
         (\<exists>t. r = Some t \<and>
            (usedAt t \<noteq> None \<or> expiresAt t < now \<or>
             (token_user (db w) t \<noteq> None \<and>
              \<not> compare (or_empty (elem (split_on CHR ''.'' token) 1)) (tokenHash t))))"
  shows "confirmPasswordReset compare ok now token newPassword w = (Inl INVALID_TOKEN, w)"
  using assms
  by (auto simp: confirmPasswordReset_def Let_def split: option.splits)

lemma confirmPasswordReset_marks_used:
  assumes "fst (confirmPasswordReset compare ok now token pw w) = Inr ()"
  shows "\<exists>t. findUnique (\<lambda>t. tok_id t = or_empty (elem (split_on CHR ''.'' token) 0))
               (passwordResetTokens (db (snd (confirmPasswordReset compare ok now token pw w)))) =
             Some t \<and> usedAt t = Some now"
proof -
  let ?id = "or_empty (elem (split_on CHR ''.'' token) 0)"
  from assms obtain t where f: "findUnique (\<lambda>t. tok_id t = ?id) (passwordResetTokens (db w)) = Some t"
    by (auto simp: confirmPasswordReset_def Let_def split: option.splits if_splits)
  from f have tid: "tok_id t = ?id"
    by (auto simp: findUnique_def dest: find_in_set)
  from assms f have
    d: "db (snd (confirmPasswordReset compare ok now token pw w)) =
          (db w)\<lparr>passwordResetTokens :=
             replace_first (\<lambda>x. tok_id x = tok_id t) (\<lambda>x. x\<lparr>usedAt := Some now\<rparr>)
               (passwordResetTokens (db w))\<rparr>"
    by (auto simp: confirmPasswordReset_def Let_def keycloakResetPassword_def kc_request_db
        dest!: prisma_update_Inr split: option.splits if_splits sum.splits prod.splits)
  have "find (\<lambda>x. tok_id x = tok_id t)
          (replace_first (\<lambda>x. tok_id x = tok_id t) (\<lambda>x. x\<lparr>usedAt := Some now\<rparr>)
               (passwordResetTokens (db w))) = Some (t\<lparr>usedAt := Some now\<rparr>)"
    by (rule find_replace_first) (use f tid in \<open>simp_all add: findUnique_def\<close>)
  then show ?thesis
    by (simp add: d findUnique_def tid)
qed

lemma confirmPasswordReset_single_use:
  assumes "fst (confirmPasswordReset compare ok now token pw w) = Inr ()"
  shows "confirmPasswordReset compare' ok' now' token pw' (snd (confirmPasswordReset compare ok now token pw w)) =
           (Inl INVALID_TOKEN, snd (confirmPasswordReset compare ok now token pw w))"
proof -
  from confirmPasswordReset_marks_used [OF assms] obtain t where
    "findUnique (\<lambda>t. tok_id t = or_empty (elem (split_on CHR ''.'' token) 0))
               (passwordResetTokens (db (snd (confirmPasswordReset compare ok now token pw w)))) = Some t"
    and "usedAt t = Some now" by blast
  then show ?thesis
    by (intro confirmPasswordReset_invalid [OF refl]) auto
qed


lemma confirmReactivation_invalid:
  assumes "decode token = Some d"
    and "indexOf CHR ''.'' (trim d) = Some dot"
    and "findUnique (\<lambda>t. tok_id t = take dot (trim d)) (accountReactivationTokens (db w)) = r"
    and "r = None \<or>
         (\<exists>t. r = Some t \<and>
            (usedAt t \<noteq> None \<or> expiresAt t < now \<or>
             (token_user (db w) t \<noteq> None \<and> \<not> compare (drop (dot + 1) (trim d)) (tokenHash t))))"
  shows "confirmReactivation decode compare ok commits now token w = (Inl INVALID_TOKEN, w)"
  using assms
  by (auto simp: confirmReactivation_def Let_def split: option.splits)

lemma reactivation_tx_Some:
  assumes "reactivation_tx commits rec u now d = Some d'"
    and "find (\<lambda>t. tok_id t = k) (accountReactivationTokens d) = Some rec"
  shows "\<exists>t. find (\<lambda>t. tok_id t = k) (accountReactivationTokens d') = Some t \<and> usedAt t = Some now"
proof -
  from assms(2) have k: "tok_id rec = k" by (auto dest: find_in_set)
  from assms(1) have "accountReactivationTokens d' =
      replace_first (\<lambda>t. tok_id t = tok_id rec) (\<lambda>t. t\<lparr>usedAt := Some now\<rparr>) (accountReactivationTokens d)"
    by (auto simp: reactivation_tx_def dest!: prisma_update_Inr split: if_splits sum.splits prod.splits)
  moreover have "find (\<lambda>t. tok_id t = k)
      (replace_first (\<lambda>t. tok_id t = k) (\<lambda>t. t\<lparr>usedAt := Some now\<rparr>) (accountReactivationTokens d)) =
        Some (rec\<lparr>usedAt := Some now\<rparr>)"
    by (rule find_replace_first) (use assms(2) k in simp_all)
  ultimately show ?thesis by (simp add: k)
qed

lemma confirmReactivation_committed_single_use:
  assumes ok1: "fst (confirmReactivation decode compare ok True now token w) = Inr ()"
  shows "confirmReactivation decode compare' ok' commits' now' token
           (snd (confirmReactivation decode compare ok True now token w)) =
         (Inl INVALID_TOKEN, snd (confirmReactivation decode compare ok True now token w))"
proof -
  let ?w' = "snd (confirmReactivation decode compare ok True now token w)"
  from ok1 obtain d where d: "decode token = Some d"
    by (auto simp: confirmReactivation_def split: option.splits)
  from ok1 d obtain dot where dot: "indexOf CHR ''.'' (trim d) = Some dot"
    by (auto simp: confirmReactivation_def Let_def split: option.splits)
  let ?id = "take dot (trim d)"
  from ok1 d dot obtain rec where
    rec: "findUnique (\<lambda>t. tok_id t = ?id) (accountReactivationTokens (db w)) = Some rec"
    by (auto simp: confirmReactivation_def Let_def split: option.splits if_splits)
  from ok1 d dot rec obtain u where u: "token_user (db w) rec = Some u"
    by (auto simp: confirmReactivation_def Let_def split: option.splits if_splits)
  from u have uf: "find (\<lambda>x. user_id x = user_id u) (users (db w)) \<noteq> None"
    by (auto simp: token_user_def findUnique_def dest!: find_in_set simp: find_None_iff)
  from rec have rf: "find (\<lambda>t. tok_id t = tok_id rec) (accountReactivationTokens (db w)) \<noteq> None"
    by (auto simp: findUnique_def dest!: find_in_set simp: find_None_iff)
  have tx: "reactivation_tx True rec u now (db w) \<noteq> None"
    using uf rf by (auto simp: reactivation_tx_def prisma_update_def split: option.splits)
  then obtain d' where d': "reactivation_tx True rec u now (db w) = Some d'" by blast
  from ok1 d dot rec u d' have w': "db ?w' = d'"
    by (auto simp: confirmReactivation_def Let_def keycloakEnableUser_def kc_request_def
        split: option.splits if_splits prod.splits sum.splits)
  from reactivation_tx_Some [OF d'] rec obtain t where
    "find (\<lambda>t. tok_id t = ?id) (accountReactivationTokens d') = Some t" "usedAt t = Some now"
    by (auto simp: findUnique_def)
  then have "findUnique (\<lambda>t. tok_id t = ?id) (accountReactivationTokens (db ?w')) = Some t \<and> usedAt t \<noteq> None"
    by (simp add: w' findUnique_def)
  then show ?thesis
    by (intro confirmReactivation_invalid [where decode = decode and d = d and dot = dot, OF d dot refl])
       auto
qed

lemma token_parse:
  "decode0 ''rt1.5ec2e7'' = Some ''rt1.5ec2e7''"
  "trim ''rt1.5ec2e7'' = ''rt1.5ec2e7''"
  "indexOf CHR ''.'' ''rt1.5ec2e7'' = Some 3"
  by code_simp+

lemma world_token_eq:
  "world_token = world_empty\<lparr>db := db_empty\<lparr>users :=
     [\<lparr>user_id = ''usr1'', keycloakId = ''kc1'', email = ''ana@example.com'',
       user_name = Some ''Ana'', credits = 3, deletedAt = Some 2000, createdAt = 1000\<rparr>],
     accountReactivationTokens := [token0]\<rparr>,
     keycloak := [(KcLogoutUser ''kc1'', True), (KcDisableUser ''kc1'', True)]\<rparr>"
  by (simp add: world_token_def world_deleted_eq world_empty_def db_empty_def)

text \<open>
  C5 fails in \<^verbatim>\<open>confirmReactivation\<close> when the store rejects the transaction: the
  \<^verbatim>\<open>catch\<close> disables the account at the identity provider again and then returns normally,
  so the caller is told the reactivation succeeded while the token row is still unused,
  and a second confirmation with the same token goes through.
\<close>

theorem confirmReactivation_swallows_failed_transaction:
  "confirmReactivation decode0 compare0 kc_ok False 3000 ''rt1.5ec2e7'' world_token =
     (Inr (), world_token\<lparr>keycloak := keycloak world_token @
                 [(KcEnableUser ''kc1'', True), (KcDisableUser ''kc1'', True)]\<rparr>)
   \<and> map usedAt (accountReactivationTokens (db world_token)) = [None]
   \<and> fst (confirmReactivation decode0 compare0 kc_ok True 4000 ''rt1.5ec2e7''
            (snd (confirmReactivation decode0 compare0 kc_ok False 3000 ''rt1.5ec2e7'' world_token))) =
       Inr ()"
proof -
  have first: "confirmReactivation decode0 compare0 kc_ok False 3000 ''rt1.5ec2e7'' world_token =
     (Inr (), world_token\<lparr>keycloak := keycloak world_token @
                 [(KcEnableUser ''kc1'', True), (KcDisableUser ''kc1'', True)]\<rparr>)"
    by (simp add: confirmReactivation_def token_parse Let_def world_token_eq token0_def
        findUnique_def token_user_def compare0_def keycloakEnableUser_def keycloakDisableUser_def
        kc_request_def kc_ok_def reactivation_tx_def world_empty_def db_empty_def)
  have unused: "map usedAt (accountReactivationTokens (db world_token)) = [None]"
    by (simp add: world_token_eq token0_def db_empty_def)
  have second: "fst (confirmReactivation decode0 compare0 kc_ok True 4000 ''rt1.5ec2e7''
            (world_token\<lparr>keycloak := keycloak world_token @
                 [(KcEnableUser ''kc1'', True), (KcDisableUser ''kc1'', True)]\<rparr>)) = Inr ()"
    by (simp add: confirmReactivation_def token_parse Let_def world_token_eq token0_def
        findUnique_def token_user_def compare0_def keycloakEnableUser_def keycloakDisableUser_def
        kc_request_def kc_ok_def reactivation_tx_def prisma_update_def world_empty_def db_empty_def)
  show ?thesis
    by (simp only: first unused second snd_conv simp_thms)
qed

lemma confirmPasswordReset_sample:
  "fst (confirmPasswordReset compare0 kc_ok 3000 ''rt1.5ec2e7'' ''n3wpassw0rd'' world_reset) = Inr ()"
  by (simp add: confirmPasswordReset_def Let_def world_reset_def world_new_eq token0_def
      findUnique_def token_user_def compare0_def keycloakResetPassword_def kc_request_def kc_ok_def
      prisma_update_def world_empty_def db_empty_def)


end
